theory Spec2Isabelle
  imports Main "HOL-Library.Word"
begin

section \<open>Exceptions\<close>

text \<open>
  The error codes of \<^verbatim>\<open>ZipException::Error\<close> that \<^verbatim>\<open>ZipStream.cpp\<close> throws. A
  \<^verbatim>\<open>ZipException\<close> carries its message and its code; the message tells which
  validator of a record threw, since one record uses one code for several rules.
\<close>

datatype Error =
    InvalidHeader
  | FieldOutOfRange
  | InvalidZip64CentralDirectoryRecord
  | InvalidZip64CentralDirectoryLocator
  | InvalidEndOfCentralDirectoryRecord

text \<open>
  \<open>StreamFailure\<close> is the failure of the byte stream itself (a read past the end of
  the stream, a seek before its start); it is no \<^verbatim>\<open>ZipException\<close>.
\<close>

datatype Exception =
    ZipException string Error
  | StreamFailure

section \<open>The byte stream\<close>

text \<open>
  Modelled from the spec: \<^verbatim>\<open>StreamBase.hpp\<close> is not among the sources. The spec
  gives the stream as \<^verbatim>\<open>seek(offset, origin)\<close> with origin Start, Current or End and
  64-bit offsets, negative deltas from End permitted; \<^verbatim>\<open>read(buffer, length)\<close>,
  which on a stream with too few bytes left makes the open fail ("insufficient
  bytes"); and \<^verbatim>\<open>tell()\<close>, the absolute offset.
  The offset argument is a 64-bit word read as a signed delta, so that
  \<^verbatim>\<open>-1 * Size()\<close> moves backward.
\<close>

record StreamBase =
  content :: "8 word list"
  cursor :: nat

datatype Reference = START | CURRENT | END

definition Seek :: "64 word \<Rightarrow> Reference \<Rightarrow> StreamBase \<Rightarrow> Exception + StreamBase" where
  "Seek to whence s =
     (let base = (case whence of
                    START \<Rightarrow> 0
                  | CURRENT \<Rightarrow> int (cursor s)
                  | END \<Rightarrow> int (length (content s)));
          target = base + sint to
      in if target < 0 then Inl StreamFailure
         else Inr (s\<lparr>cursor := nat target\<rparr>))"

definition Ftell :: "StreamBase \<Rightarrow> 64 word" where
  "Ftell s = of_nat (cursor s)"

definition Read_bytes :: "nat \<Rightarrow> StreamBase \<Rightarrow> Exception + (8 word list \<times> StreamBase)" where
  "Read_bytes n s =
     (if cursor s + n \<le> length (content s)
      then Inr (take n (drop (cursor s) (content s)), s\<lparr>cursor := cursor s + n\<rparr>)
      else Inl StreamFailure)"

section \<open>Fields and structured objects\<close>

text \<open>
  Modelled from the spec: \<^verbatim>\<open>ObjectBase.hpp\<close> (\<^verbatim>\<open>Meta::Object\<close>,
  \<^verbatim>\<open>Meta::StructuredObject\<close>, \<^verbatim>\<open>Meta::Field2Bytes\<close>, \<^verbatim>\<open>Field4Bytes\<close>,
  \<^verbatim>\<open>Field8Bytes\<close>, \<^verbatim>\<open>FieldNBytes\<close>) is not among the sources. By the spec a
  field's read consumes exactly its width in bytes at the cursor, decodes them as an
  unsigned little-endian integer (fixed width) or keeps them as bytes (variable
  width, the width being the buffer's current size), stores the value and then runs
  the validator; a record reads its fields in declaration order and stops at the
  first failure; its size is the sum of its fields' current sizes; write emits the
  fields in order in the same layout.

  The values of a record's fields are a HOL record, one component for each
  \<^verbatim>\<open>Field(i)\<close>; a field is described by how it reads, writes and measures itself
  on that record. A validator receives the decoded value and the owning object
  (\<^verbatim>\<open>this\<close>), in which the value is already stored, and returns the object, in
  which it may have resized another field, or the exception it throws.
\<close>

fun decode_le :: "8 word list \<Rightarrow> nat" where
  "decode_le [] = 0"
| "decode_le (b # bs) = unat b + 256 * decode_le bs"

fun encode_le :: "nat \<Rightarrow> nat \<Rightarrow> 8 word list" where
  "encode_le 0 v = []"
| "encode_le (Suc n) v = of_nat (v mod 256) # encode_le n (v div 256)"

record 'r Object =
  Object_Read :: "'r \<Rightarrow> StreamBase \<Rightarrow> Exception + ('r \<times> StreamBase)"
  Object_Write :: "'r \<Rightarrow> 8 word list"
  Object_Size :: "'r \<Rightarrow> nat"

definition FieldBase ::
  "nat \<Rightarrow> ('r \<Rightarrow> 'a::len word) \<Rightarrow> ('a word \<Rightarrow> 'r \<Rightarrow> 'r) \<Rightarrow>
   ('a word \<Rightarrow> 'r \<Rightarrow> Exception + 'r) \<Rightarrow> 'r Object" where
  "FieldBase width get put validate =
     \<lparr> Object_Read = (\<lambda>r s.
         case Read_bytes width s of
           Inl e \<Rightarrow> Inl e
         | Inr (bs, s') \<Rightarrow>
             (case validate (of_nat (decode_le bs)) (put (of_nat (decode_le bs)) r) of
                Inl e \<Rightarrow> Inl e
              | Inr r' \<Rightarrow> Inr (r', s'))),
       Object_Write = (\<lambda>r. encode_le width (unat (get r))),
       Object_Size = (\<lambda>r. width) \<rparr>"

definition Field2Bytes ::
  "('r \<Rightarrow> 16 word) \<Rightarrow> (16 word \<Rightarrow> 'r \<Rightarrow> 'r) \<Rightarrow> (16 word \<Rightarrow> 'r \<Rightarrow> Exception + 'r) \<Rightarrow> 'r Object" where
  "Field2Bytes = FieldBase 2"

definition Field4Bytes ::
  "('r \<Rightarrow> 32 word) \<Rightarrow> (32 word \<Rightarrow> 'r \<Rightarrow> 'r) \<Rightarrow> (32 word \<Rightarrow> 'r \<Rightarrow> Exception + 'r) \<Rightarrow> 'r Object" where
  "Field4Bytes = FieldBase 4"

definition Field8Bytes ::
  "('r \<Rightarrow> 64 word) \<Rightarrow> (64 word \<Rightarrow> 'r \<Rightarrow> 'r) \<Rightarrow> (64 word \<Rightarrow> 'r \<Rightarrow> Exception + 'r) \<Rightarrow> 'r Object" where
  "Field8Bytes = FieldBase 8"

definition FieldNBytes ::
  "('r \<Rightarrow> 8 word list) \<Rightarrow> (8 word list \<Rightarrow> 'r \<Rightarrow> 'r) \<Rightarrow>
   (8 word list \<Rightarrow> 'r \<Rightarrow> Exception + 'r) \<Rightarrow> 'r Object" where
  "FieldNBytes get put validate =
     \<lparr> Object_Read = (\<lambda>r s.
         case Read_bytes (length (get r)) s of
           Inl e \<Rightarrow> Inl e
         | Inr (bs, s') \<Rightarrow>
             (case validate bs (put bs r) of
                Inl e \<Rightarrow> Inl e
              | Inr r' \<Rightarrow> Inr (r', s'))),
       Object_Write = (\<lambda>r. get r),
       Object_Size = (\<lambda>r. length (get r)) \<rparr>"

text \<open>\<^verbatim>\<open>std::vector::resize(n, 0)\<close>: cut to \<open>n\<close> elements, or fill up with zeros.\<close>

definition resize :: "nat \<Rightarrow> 8 word list \<Rightarrow> 8 word list" where
  "resize n xs = take n xs @ replicate (n - length xs) 0"

fun StructuredObject_Read ::
  "'r Object list \<Rightarrow> 'r \<Rightarrow> StreamBase \<Rightarrow> Exception + ('r \<times> StreamBase)" where
  "StructuredObject_Read [] r s = Inr (r, s)"
| "StructuredObject_Read (f # fs) r s =
     (case Object_Read f r s of
        Inl e \<Rightarrow> Inl e
      | Inr (r', s') \<Rightarrow> StructuredObject_Read fs r' s')"

fun StructuredObject_Write :: "'r Object list \<Rightarrow> 'r \<Rightarrow> 8 word list" where
  "StructuredObject_Write [] r = []"
| "StructuredObject_Write (f # fs) r = Object_Write f r @ StructuredObject_Write fs r"

fun StructuredObject_Size :: "'r Object list \<Rightarrow> 'r \<Rightarrow> nat" where
  "StructuredObject_Size [] r = 0"
| "StructuredObject_Size (f # fs) r = Object_Size f r + StructuredObject_Size fs r"

section \<open>Constants of the ZIP format\<close>

definition Zip64MinimumVersion :: "16 word" where
  "Zip64MinimumVersion = 45"

definition Zip32DefaultVersion :: "16 word" where
  "Zip32DefaultVersion = 20"

definition Signatures_LocalFileHeader :: "32 word" where
  "Signatures_LocalFileHeader = 0x04034b50"

definition Signatures_DataDescriptor :: "32 word" where
  "Signatures_DataDescriptor = 0x08074b50"

definition Signatures_CentralFileHeader :: "32 word" where
  "Signatures_CentralFileHeader = 0x02014b50"

definition Signatures_Zip64EndOfCD :: "32 word" where
  "Signatures_Zip64EndOfCD = 0x06064b50"

definition Signatures_Zip64EndOfCDLocator :: "32 word" where
  "Signatures_Zip64EndOfCDLocator = 0x07064b50"

definition Signatures_EndOfCentralDirectory :: "32 word" where
  "Signatures_EndOfCentralDirectory = 0x06054b50"

section \<open>EndCentralDirectoryRecord\<close>

record EndCentralDirectoryRecord =
  EOCD_Field0 :: "32 word"
  EOCD_Field1 :: "16 word"
  EOCD_Field2 :: "16 word"
  EOCD_Field3 :: "16 word"
  EOCD_Field4 :: "16 word"
  EOCD_Field5 :: "32 word"
  EOCD_Field6 :: "32 word"
  EOCD_Field7 :: "16 word"
  EOCD_Field8 :: "8 word list"

definition EndCentralDirectoryRecord_fields :: "EndCentralDirectoryRecord Object list" where
  "EndCentralDirectoryRecord_fields =
   [ \<comment> \<open>0 - end of central dir signature, 4 bytes (0x06054b50)\<close>
     Field4Bytes EOCD_Field0 (\<lambda>v r. r\<lparr>EOCD_Field0 := v\<rparr>) (\<lambda>v r.
       if v \<noteq> Signatures_EndOfCentralDirectory
       then Inl (ZipException ''invalid signiture'' InvalidEndOfCentralDirectoryRecord)
       else Inr r),
     \<comment> \<open>1 - number of this disk, 2 bytes\<close>
     Field2Bytes EOCD_Field1 (\<lambda>v r. r\<lparr>EOCD_Field1 := v\<rparr>) (\<lambda>v r.
       if v \<noteq> 0
       then Inl (ZipException ''unsupported disk number'' InvalidEndOfCentralDirectoryRecord)
       else Inr r),
     \<comment> \<open>2 - number of the disk with the start of the central directory, 2 bytes\<close>
     Field2Bytes EOCD_Field2 (\<lambda>v r. r\<lparr>EOCD_Field2 := v\<rparr>) (\<lambda>v r.
       if v \<noteq> 0
       then Inl (ZipException ''unsupported EoCDR disk number'' InvalidEndOfCentralDirectoryRecord)
       else Inr r),
     \<comment> \<open>3 - total number of entries in the central directory on this disk, 2 bytes\<close>
     Field2Bytes EOCD_Field3 (\<lambda>v r. r\<lparr>EOCD_Field3 := v\<rparr>) (\<lambda>v r.
       if v \<noteq> 0xFFFF
       then Inl (ZipException ''unsupported total number of entries on this disk''
                   InvalidEndOfCentralDirectoryRecord)
       else Inr r),
     \<comment> \<open>4 - total number of entries in the central directory, 2 bytes\<close>
     Field2Bytes EOCD_Field4 (\<lambda>v r. r\<lparr>EOCD_Field4 := v\<rparr>) (\<lambda>v r.
       if v \<noteq> 0xFFFF
       then Inl (ZipException ''unsupported total number of entries''
                   InvalidEndOfCentralDirectoryRecord)
       else Inr r),
     \<comment> \<open>5 - size of the central directory, 4 bytes\<close>
     Field4Bytes EOCD_Field5 (\<lambda>v r. r\<lparr>EOCD_Field5 := v\<rparr>) (\<lambda>v r.
       if v \<noteq> 0xFFFFFFFF
       then Inl (ZipException ''unsupported size of central directory''
                   InvalidEndOfCentralDirectoryRecord)
       else Inr r),
     \<comment> \<open>6 - offset of start of central directory, 4 bytes\<close>
     Field4Bytes EOCD_Field6 (\<lambda>v r. r\<lparr>EOCD_Field6 := v\<rparr>) (\<lambda>v r.
       if v \<noteq> 0xFFFFFFFF
       then Inl (ZipException ''unsupported offset of start of central directory''
                   InvalidEndOfCentralDirectoryRecord)
       else Inr r),
     \<comment> \<open>7 - .ZIP file comment length, 2 bytes\<close>
     Field2Bytes EOCD_Field7 (\<lambda>v r. r\<lparr>EOCD_Field7 := v\<rparr>) (\<lambda>v r.
       if v \<noteq> 0
       then Inl (ZipException ''Zip comment unsupported'' InvalidEndOfCentralDirectoryRecord)
       else Inr r),
     \<comment> \<open>8 - .ZIP file comment (variable size)\<close>
     FieldNBytes EOCD_Field8 (\<lambda>v r. r\<lparr>EOCD_Field8 := v\<rparr>) (\<lambda>data r.
       if length data \<noteq> 0
       then Inl (ZipException ''Zip comment unsupported'' InvalidEndOfCentralDirectoryRecord)
       else Inr r) ]"

definition EndCentralDirectoryRecord_Read ::
  "EndCentralDirectoryRecord \<Rightarrow> StreamBase \<Rightarrow> Exception + (EndCentralDirectoryRecord \<times> StreamBase)" where
  "EndCentralDirectoryRecord_Read = StructuredObject_Read EndCentralDirectoryRecord_fields"

definition EndCentralDirectoryRecord_Size :: "EndCentralDirectoryRecord \<Rightarrow> nat" where
  "EndCentralDirectoryRecord_Size = StructuredObject_Size EndCentralDirectoryRecord_fields"

definition EndCentralDirectoryRecord_Write :: "EndCentralDirectoryRecord \<Rightarrow> 8 word list" where
  "EndCentralDirectoryRecord_Write = StructuredObject_Write EndCentralDirectoryRecord_fields"

text \<open>
  The constructor. \<open>raw\<close> is the content of the fixed-width fields before the
  constructor's body runs, which the source does not set; a byte vector starts empty.
\<close>

definition EndCentralDirectoryRecord_new :: "EndCentralDirectoryRecord \<Rightarrow> EndCentralDirectoryRecord" where
  "EndCentralDirectoryRecord_new raw =
     raw\<lparr> EOCD_Field8 := [],
          EOCD_Field0 := Signatures_EndOfCentralDirectory,
          EOCD_Field1 := 0,
          EOCD_Field2 := 0,
          EOCD_Field3 := 0xFFFF,
          EOCD_Field4 := 0xFFFF,
          EOCD_Field5 := 0xFFFFFFFF,
          EOCD_Field6 := 0xFFFFFFFF,
          EOCD_Field7 := 0 \<rparr>"

section \<open>Zip64EndOfCentralDirectoryLocator\<close>

record Zip64EndOfCentralDirectoryLocator =
  Z64L_Field0 :: "32 word"
  Z64L_Field1 :: "32 word"
  Z64L_Field2 :: "64 word"
  Z64L_Field3 :: "32 word"
  Z64L_maxOffset :: "64 word"

definition Zip64EndOfCentralDirectoryLocator_fields :: "Zip64EndOfCentralDirectoryLocator Object list" where
  "Zip64EndOfCentralDirectoryLocator_fields =
   [ \<comment> \<open>0 - zip64 end of central dir locator signature, 4 bytes (0x07064b50)\<close>
     Field4Bytes Z64L_Field0 (\<lambda>v r. r\<lparr>Z64L_Field0 := v\<rparr>) (\<lambda>v r.
       if v \<noteq> Signatures_Zip64EndOfCDLocator
       then Inl (ZipException ''end of central directory locator does not match signature''
                   InvalidHeader)
       else Inr r),
     \<comment> \<open>1 - number of the disk with the start of the zip64 end of central directory, 4 bytes\<close>
     Field4Bytes Z64L_Field1 (\<lambda>v r. r\<lparr>Z64L_Field1 := v\<rparr>) (\<lambda>v r.
       if v \<noteq> 0
       then Inl (ZipException ''Invalid disk number'' InvalidZip64CentralDirectoryLocator)
       else Inr r),
     \<comment> \<open>2 - relative offset of the zip64 end of central directory record, 8 bytes\<close>
     Field8Bytes Z64L_Field2 (\<lambda>v r. r\<lparr>Z64L_Field2 := v\<rparr>) (\<lambda>v r.
       if v > Z64L_maxOffset r
       then Inl (ZipException ''Invalid relative offset'' InvalidZip64CentralDirectoryLocator)
       else Inr r),
     \<comment> \<open>3 - total number of disks, 4 bytes\<close>
     Field4Bytes Z64L_Field3 (\<lambda>v r. r\<lparr>Z64L_Field3 := v\<rparr>) (\<lambda>v r.
       if v \<noteq> 1
       then Inl (ZipException ''Invalid total number of disks'' InvalidZip64CentralDirectoryLocator)
       else Inr r) ]"

definition Zip64EndOfCentralDirectoryLocator_Read ::
  "Zip64EndOfCentralDirectoryLocator \<Rightarrow> StreamBase \<Rightarrow>
   Exception + (Zip64EndOfCentralDirectoryLocator \<times> StreamBase)" where
  "Zip64EndOfCentralDirectoryLocator_Read =
     StructuredObject_Read Zip64EndOfCentralDirectoryLocator_fields"

definition Zip64EndOfCentralDirectoryLocator_Size :: "Zip64EndOfCentralDirectoryLocator \<Rightarrow> nat" where
  "Zip64EndOfCentralDirectoryLocator_Size =
     StructuredObject_Size Zip64EndOfCentralDirectoryLocator_fields"

definition Zip64EndOfCentralDirectoryLocator_Write :: "Zip64EndOfCentralDirectoryLocator \<Rightarrow> 8 word list" where
  "Zip64EndOfCentralDirectoryLocator_Write =
     StructuredObject_Write Zip64EndOfCentralDirectoryLocator_fields"

definition Zip64EndOfCentralDirectoryLocator_GetRelativeOffset ::
  "Zip64EndOfCentralDirectoryLocator \<Rightarrow> 64 word" where
  "Zip64EndOfCentralDirectoryLocator_GetRelativeOffset r = Z64L_Field2 r"

definition Zip64EndOfCentralDirectoryLocator_SetRelativeOffset ::
  "64 word \<Rightarrow> Zip64EndOfCentralDirectoryLocator \<Rightarrow> Zip64EndOfCentralDirectoryLocator" where
  "Zip64EndOfCentralDirectoryLocator_SetRelativeOffset v r = r\<lparr>Z64L_Field2 := v\<rparr>"

text \<open>
  The constructor: \<^verbatim>\<open>maxOffset\<close> is stored, then the body sets the signature, the
  disk number 0 and the total number of disks 1. \<open>raw\<close> is as above.
\<close>

definition Zip64EndOfCentralDirectoryLocator_new ::
  "Zip64EndOfCentralDirectoryLocator \<Rightarrow> 64 word \<Rightarrow> Zip64EndOfCentralDirectoryLocator" where
  "Zip64EndOfCentralDirectoryLocator_new raw maxOffset =
     raw\<lparr> Z64L_maxOffset := maxOffset,
          Z64L_Field0 := Signatures_Zip64EndOfCDLocator,
          Z64L_Field1 := 0,
          Z64L_Field3 := 1 \<rparr>"

section \<open>Zip64EndOfCentralDirectoryRecord\<close>

record Zip64EndOfCentralDirectoryRecord =
  Z64_Field0 :: "32 word"
  Z64_Field1 :: "64 word"
  Z64_Field2 :: "16 word"
  Z64_Field3 :: "16 word"
  Z64_Field4 :: "32 word"
  Z64_Field5 :: "32 word"
  Z64_Field6 :: "64 word"
  Z64_Field7 :: "64 word"
  Z64_Field8 :: "64 word"
  Z64_Field9 :: "64 word"
  Z64_Field10 :: "8 word list"
  Z64_maxOffset :: "64 word"

text \<open>
  \<^verbatim>\<open>Size()\<close>, which the validator of field 1 and the constructor call on the object
  itself: the sum of the sizes of the eleven fields, the last one being the current
  size of its byte vector. Lemma \<open>Zip64EndOfCentralDirectoryRecord_Size_fields\<close>
  below shows that it is \<open>StructuredObject_Size\<close> of the field list.
\<close>

definition Zip64EndOfCentralDirectoryRecord_Size :: "Zip64EndOfCentralDirectoryRecord \<Rightarrow> nat" where
  "Zip64EndOfCentralDirectoryRecord_Size r =
     4 + 8 + 2 + 2 + 4 + 4 + 8 + 8 + 8 + 8 + length (Z64_Field10 r)"

definition Zip64EndOfCentralDirectoryRecord_GetTotalNumberOfEntries ::
  "Zip64EndOfCentralDirectoryRecord \<Rightarrow> 64 word" where
  "Zip64EndOfCentralDirectoryRecord_GetTotalNumberOfEntries r = Z64_Field6 r"

definition Zip64EndOfCentralDirectoryRecord_SetTotalNumberOfEntries ::
  "64 word \<Rightarrow> Zip64EndOfCentralDirectoryRecord \<Rightarrow> Zip64EndOfCentralDirectoryRecord" where
  "Zip64EndOfCentralDirectoryRecord_SetTotalNumberOfEntries v r =
     r\<lparr>Z64_Field6 := v, Z64_Field7 := v\<rparr>"

definition Zip64EndOfCentralDirectoryRecord_GetSizeOfCD ::
  "Zip64EndOfCentralDirectoryRecord \<Rightarrow> 64 word" where
  "Zip64EndOfCentralDirectoryRecord_GetSizeOfCD r = Z64_Field8 r"

definition Zip64EndOfCentralDirectoryRecord_SetSizeOfCD ::
  "64 word \<Rightarrow> Zip64EndOfCentralDirectoryRecord \<Rightarrow> Zip64EndOfCentralDirectoryRecord" where
  "Zip64EndOfCentralDirectoryRecord_SetSizeOfCD v r = r\<lparr>Z64_Field8 := v\<rparr>"

definition Zip64EndOfCentralDirectoryRecord_GetOffsetfStartOfCD ::
  "Zip64EndOfCentralDirectoryRecord \<Rightarrow> 64 word" where
  "Zip64EndOfCentralDirectoryRecord_GetOffsetfStartOfCD r = Z64_Field9 r"

definition Zip64EndOfCentralDirectoryRecord_SetOffsetfStartOfCD ::
  "64 word \<Rightarrow> Zip64EndOfCentralDirectoryRecord \<Rightarrow> Zip64EndOfCentralDirectoryRecord" where
  "Zip64EndOfCentralDirectoryRecord_SetOffsetfStartOfCD v r = r\<lparr>Z64_Field9 := v\<rparr>"

definition Zip64EndOfCentralDirectoryRecord_fields :: "Zip64EndOfCentralDirectoryRecord Object list" where
  "Zip64EndOfCentralDirectoryRecord_fields =
   [ \<comment> \<open>0 - zip64 end of central dir signature, 4 bytes (0x06064b50)\<close>
     Field4Bytes Z64_Field0 (\<lambda>v r. r\<lparr>Z64_Field0 := v\<rparr>) (\<lambda>v r.
       if v \<noteq> Signatures_Zip64EndOfCD
       then Inl (ZipException ''end of zip64 central directory does not match signature''
                   InvalidHeader)
       else Inr r),
     \<comment> \<open>1 - size of zip64 end of central directory record, 8 bytes\<close>
     Field8Bytes Z64_Field1 (\<lambda>v r. r\<lparr>Z64_Field1 := v\<rparr>) (\<lambda>v r.
       let size = of_nat (Zip64EndOfCentralDirectoryRecord_Size r) - 12
       in if v \<noteq> size
          then Inl (ZipException ''invalid size of zip64 EOCD'' InvalidZip64CentralDirectoryRecord)
          else Inr r),
     \<comment> \<open>2 - version made by, 2 bytes\<close>
     Field2Bytes Z64_Field2 (\<lambda>v r. r\<lparr>Z64_Field2 := v\<rparr>) (\<lambda>v r.
       if v \<noteq> Zip64MinimumVersion
       then Inl (ZipException ''invalid zip64 EOCD version made by''
                   InvalidZip64CentralDirectoryRecord)
       else Inr r),
     \<comment> \<open>3 - version needed to extract, 2 bytes\<close>
     Field2Bytes Z64_Field3 (\<lambda>v r. r\<lparr>Z64_Field3 := v\<rparr>) (\<lambda>v r.
       if v \<noteq> Zip64MinimumVersion
       then Inl (ZipException ''invalid zip64 EOCD version to extract''
                   InvalidZip64CentralDirectoryRecord)
       else Inr r),
     \<comment> \<open>4 - number of this disk, 4 bytes\<close>
     Field4Bytes Z64_Field4 (\<lambda>v r. r\<lparr>Z64_Field4 := v\<rparr>) (\<lambda>v r.
       if v \<noteq> 0
       then Inl (ZipException ''invalid disk number'' InvalidZip64CentralDirectoryRecord)
       else Inr r),
     \<comment> \<open>5 - number of the disk with the start of the central directory, 4 bytes\<close>
     Field4Bytes Z64_Field5 (\<lambda>v r. r\<lparr>Z64_Field5 := v\<rparr>) (\<lambda>v r.
       if v \<noteq> 0
       then Inl (ZipException ''invalid disk index'' InvalidZip64CentralDirectoryRecord)
       else Inr r),
     \<comment> \<open>6 - total number of entries in the central directory on this disk, 8 bytes\<close>
     Field8Bytes Z64_Field6 (\<lambda>v r. r\<lparr>Z64_Field6 := v\<rparr>) (\<lambda>v r.
       if v = 0
       then Inl (ZipException ''invalid number of entries'' InvalidZip64CentralDirectoryRecord)
       else Inr r),
     \<comment> \<open>7 - total number of entries in the central directory, 8 bytes\<close>
     Field8Bytes Z64_Field7 (\<lambda>v r. r\<lparr>Z64_Field7 := v\<rparr>) (\<lambda>v r.
       if v \<noteq> Zip64EndOfCentralDirectoryRecord_GetTotalNumberOfEntries r
       then Inl (ZipException ''invalid total number of entries''
                   InvalidZip64CentralDirectoryRecord)
       else Inr r),
     \<comment> \<open>8 - size of the central directory, 8 bytes\<close>
     Field8Bytes Z64_Field8 (\<lambda>v r. r\<lparr>Z64_Field8 := v\<rparr>) (\<lambda>v r.
       if v = 0 \<or> v > Z64_maxOffset r
       then Inl (ZipException ''invalid size of central directory''
                   InvalidZip64CentralDirectoryRecord)
       else Inr r),
     \<comment> \<open>9 - offset of start of central directory, 8 bytes\<close>
     Field8Bytes Z64_Field9 (\<lambda>v r. r\<lparr>Z64_Field9 := v\<rparr>) (\<lambda>v r.
       if v = 0 \<or> v > Z64_maxOffset r
       then Inl (ZipException ''invalid start of central directory''
                   InvalidZip64CentralDirectoryRecord)
       else Inr r),
     \<comment> \<open>10 - zip64 extensible data sector (variable size)\<close>
     FieldNBytes Z64_Field10 (\<lambda>v r. r\<lparr>Z64_Field10 := v\<rparr>) (\<lambda>data r.
       if length data \<noteq> 0
       then Inl (ZipException ''unsupported extensible data'' InvalidZip64CentralDirectoryRecord)
       else Inr r) ]"

definition Zip64EndOfCentralDirectoryRecord_Read ::
  "Zip64EndOfCentralDirectoryRecord \<Rightarrow> StreamBase \<Rightarrow>
   Exception + (Zip64EndOfCentralDirectoryRecord \<times> StreamBase)" where
  "Zip64EndOfCentralDirectoryRecord_Read =
     StructuredObject_Read Zip64EndOfCentralDirectoryRecord_fields"

definition Zip64EndOfCentralDirectoryRecord_Write :: "Zip64EndOfCentralDirectoryRecord \<Rightarrow> 8 word list" where
  "Zip64EndOfCentralDirectoryRecord_Write =
     StructuredObject_Write Zip64EndOfCentralDirectoryRecord_fields"

text \<open>
  The constructor: \<^verbatim>\<open>maxOffset\<close> is stored and the byte vector of field 10 starts
  empty; the body then calls, in this order, \<^verbatim>\<open>SetSignature\<close>,
  \<^verbatim>\<open>SetGetSizeOfZip64CDRecord(this->Size() - 12)\<close>, \<^verbatim>\<open>SetVersionMadeBy\<close>,
  \<^verbatim>\<open>SetVersionNeededToExtract\<close>, \<^verbatim>\<open>SetNumberOfThisDisk(0)\<close>,
  \<^verbatim>\<open>SetTotalNumberOfEntries(0)\<close> and resizes field 10 to 0. Fields 5, 8 and 9 are
  not set: they keep what \<open>raw\<close> holds.
\<close>

definition Zip64EndOfCentralDirectoryRecord_new ::
  "Zip64EndOfCentralDirectoryRecord \<Rightarrow> 64 word \<Rightarrow> Zip64EndOfCentralDirectoryRecord" where
  "Zip64EndOfCentralDirectoryRecord_new raw maxOffset =
     (let r0 = raw\<lparr>Z64_maxOffset := maxOffset, Z64_Field10 := []\<rparr>;
          r1 = r0\<lparr>Z64_Field0 := Signatures_Zip64EndOfCD\<rparr>;
          r2 = r1\<lparr>Z64_Field1 := of_nat (Zip64EndOfCentralDirectoryRecord_Size r1) - 12\<rparr>;
          r3 = r2\<lparr>Z64_Field2 := Zip64MinimumVersion\<rparr>;
          r4 = r3\<lparr>Z64_Field3 := Zip64MinimumVersion\<rparr>;
          r5 = r4\<lparr>Z64_Field4 := 0\<rparr>;
          r6 = Zip64EndOfCentralDirectoryRecord_SetTotalNumberOfEntries 0 r5
      in r6\<lparr>Z64_Field10 := resize 0 (Z64_Field10 r6)\<rparr>)"

section \<open>LocalFileHeader\<close>

text \<open>
  A \<^verbatim>\<open>std::string\<close> is a \<open>string\<close>; its characters and the bytes of a field's
  vector are converted one by one, as the iterator-range constructors of the source do.
\<close>

definition bytes_of_string :: "string \<Rightarrow> 8 word list" where
  "bytes_of_string str = map of_char str"

definition string_of_bytes :: "8 word list \<Rightarrow> string" where
  "string_of_bytes data = map (\<lambda>b. char_of (unat b)) data"

record LocalFileHeader =
  LFH_Field0 :: "32 word"
  LFH_Field1 :: "16 word"
  LFH_Field2 :: "16 word"
  LFH_Field3 :: "16 word"
  LFH_Field4 :: "16 word"
  LFH_Field5 :: "16 word"
  LFH_Field6 :: "32 word"
  LFH_Field7 :: "32 word"
  LFH_Field8 :: "32 word"
  LFH_Field9 :: "16 word"
  LFH_Field10 :: "16 word"
  LFH_Field11 :: "8 word list"
  LFH_Field12 :: "8 word list"

definition LocalFileHeader_GetFileNameLength :: "LocalFileHeader \<Rightarrow> 16 word" where
  "LocalFileHeader_GetFileNameLength r = LFH_Field9 r"

definition LocalFileHeader_SetFileNameLength :: "16 word \<Rightarrow> LocalFileHeader \<Rightarrow> LocalFileHeader" where
  "LocalFileHeader_SetFileNameLength v r = r\<lparr>LFH_Field9 := v\<rparr>"

definition LocalFileHeader_GetExtraFieldLength :: "LocalFileHeader \<Rightarrow> 16 word" where
  "LocalFileHeader_GetExtraFieldLength r = LFH_Field10 r"

definition LocalFileHeader_SetExtraFieldLength :: "16 word \<Rightarrow> LocalFileHeader \<Rightarrow> LocalFileHeader" where
  "LocalFileHeader_SetExtraFieldLength v r = r\<lparr>LFH_Field10 := v\<rparr>"

definition LocalFileHeader_GetFileName :: "LocalFileHeader \<Rightarrow> string" where
  "LocalFileHeader_GetFileName r = (let data = LFH_Field11 r in string_of_bytes data)"

text \<open>
  \<^verbatim>\<open>SetFileName\<close>: \<^verbatim>\<open>auto data = *GetValue<...>(Field(11))\<close> copies the vector of
  field 11 into the local \<open>data\<close>; the resize and the assignment change that local
  only, and the object gets the new file name length.
\<close>

definition LocalFileHeader_SetFileName :: "string \<Rightarrow> LocalFileHeader \<Rightarrow> LocalFileHeader" where
  "LocalFileHeader_SetFileName name r =
     (let data = LFH_Field11 r;
          data = resize (length name) data;
          data = bytes_of_string name
      in LocalFileHeader_SetFileNameLength (of_nat (length name)) r)"

definition LocalFileHeader_fields :: "LocalFileHeader Object list" where
  "LocalFileHeader_fields =
   [ \<comment> \<open>0 - local file header signature, 4 bytes (0x04034b50)\<close>
     Field4Bytes LFH_Field0 (\<lambda>v r. r\<lparr>LFH_Field0 := v\<rparr>) (\<lambda>v r.
       if v \<noteq> Signatures_LocalFileHeader
       then Inl (ZipException ''file header does not match signature'' InvalidHeader)
       else Inr r),
     \<comment> \<open>1 - version needed to extract, 2 bytes\<close>
     Field2Bytes LFH_Field1 (\<lambda>v r. r\<lparr>LFH_Field1 := v\<rparr>) (\<lambda>v r. Inr r),
     \<comment> \<open>2 - general purpose bit flag, 2 bytes\<close>
     Field2Bytes LFH_Field2 (\<lambda>v r. r\<lparr>LFH_Field2 := v\<rparr>) (\<lambda>v r. Inr r),
     \<comment> \<open>3 - compression method, 2 bytes\<close>
     Field2Bytes LFH_Field3 (\<lambda>v r. r\<lparr>LFH_Field3 := v\<rparr>) (\<lambda>v r. Inr r),
     \<comment> \<open>4 - last mod file time, 2 bytes\<close>
     Field2Bytes LFH_Field4 (\<lambda>v r. r\<lparr>LFH_Field4 := v\<rparr>) (\<lambda>v r. Inr r),
     \<comment> \<open>5 - last mod file date, 2 bytes\<close>
     Field2Bytes LFH_Field5 (\<lambda>v r. r\<lparr>LFH_Field5 := v\<rparr>) (\<lambda>v r. Inr r),
     \<comment> \<open>6 - crc-32, 4 bytes\<close>
     Field4Bytes LFH_Field6 (\<lambda>v r. r\<lparr>LFH_Field6 := v\<rparr>) (\<lambda>v r. Inr r),
     \<comment> \<open>7 - compressed size, 4 bytes\<close>
     Field4Bytes LFH_Field7 (\<lambda>v r. r\<lparr>LFH_Field7 := v\<rparr>) (\<lambda>v r. Inr r),
     \<comment> \<open>8 - uncompressed size, 4 bytes\<close>
     Field4Bytes LFH_Field8 (\<lambda>v r. r\<lparr>LFH_Field8 := v\<rparr>) (\<lambda>v r. Inr r),
     \<comment> \<open>9 - file name length, 2 bytes\<close>
     Field2Bytes LFH_Field9 (\<lambda>v r. r\<lparr>LFH_Field9 := v\<rparr>) (\<lambda>v r.
       if unat (LocalFileHeader_GetFileNameLength r) > 65535
       then Inl (ZipException ''file name field exceeds max size'' FieldOutOfRange)
       else Inr (r\<lparr>LFH_Field11 :=
                    resize (unat (LocalFileHeader_GetFileNameLength r)) (LFH_Field11 r)\<rparr>)),
     \<comment> \<open>10 - extra field length, 2 bytes\<close>
     Field2Bytes LFH_Field10 (\<lambda>v r. r\<lparr>LFH_Field10 := v\<rparr>) (\<lambda>v r.
       if unat (LocalFileHeader_GetExtraFieldLength r) > 65535
       then Inl (ZipException ''extra field exceeds max size'' FieldOutOfRange)
       else Inr (r\<lparr>LFH_Field12 :=
                    resize (unat (LocalFileHeader_GetExtraFieldLength r)) (LFH_Field12 r)\<rparr>)),
     \<comment> \<open>11 - file name (variable size)\<close>
     FieldNBytes LFH_Field11 (\<lambda>v r. r\<lparr>LFH_Field11 := v\<rparr>) (\<lambda>data r. Inr r),
     \<comment> \<open>12 - extra field (variable size)\<close>
     FieldNBytes LFH_Field12 (\<lambda>v r. r\<lparr>LFH_Field12 := v\<rparr>) (\<lambda>data r. Inr r) ]"

definition LocalFileHeader_Read ::
  "LocalFileHeader \<Rightarrow> StreamBase \<Rightarrow> Exception + (LocalFileHeader \<times> StreamBase)" where
  "LocalFileHeader_Read = StructuredObject_Read LocalFileHeader_fields"

definition LocalFileHeader_Size :: "LocalFileHeader \<Rightarrow> nat" where
  "LocalFileHeader_Size = StructuredObject_Size LocalFileHeader_fields"

definition LocalFileHeader_Write :: "LocalFileHeader \<Rightarrow> 8 word list" where
  "LocalFileHeader_Write = StructuredObject_Write LocalFileHeader_fields"

text \<open>The constructor has an empty body: the two byte vectors start empty.\<close>

definition LocalFileHeader_new :: "LocalFileHeader \<Rightarrow> LocalFileHeader" where
  "LocalFileHeader_new raw = raw\<lparr>LFH_Field11 := [], LFH_Field12 := []\<rparr>"

section \<open>CentralFileHeader\<close>

record CentralFileHeader =
  CFH_Field0 :: "32 word"
  CFH_Field1 :: "16 word"
  CFH_Field2 :: "16 word"
  CFH_Field3 :: "16 word"
  CFH_Field4 :: "16 word"
  CFH_Field5 :: "16 word"
  CFH_Field6 :: "16 word"
  CFH_Field7 :: "32 word"
  CFH_Field8 :: "32 word"
  CFH_Field9 :: "32 word"
  CFH_Field10 :: "16 word"
  CFH_Field11 :: "16 word"
  CFH_Field12 :: "16 word"
  CFH_Field13 :: "16 word"
  CFH_Field14 :: "16 word"
  CFH_Field15 :: "32 word"
  CFH_Field16 :: "32 word"
  CFH_Field17 :: "8 word list"
  CFH_Field18 :: "8 word list"
  CFH_Field19 :: "8 word list"

definition CentralFileHeader_GetFileNameLength :: "CentralFileHeader \<Rightarrow> 16 word" where
  "CentralFileHeader_GetFileNameLength r = CFH_Field10 r"

definition CentralFileHeader_SetFileNameLength :: "16 word \<Rightarrow> CentralFileHeader \<Rightarrow> CentralFileHeader" where
  "CentralFileHeader_SetFileNameLength v r = r\<lparr>CFH_Field10 := v\<rparr>"

definition CentralFileHeader_GetExtraFieldLength :: "CentralFileHeader \<Rightarrow> 16 word" where
  "CentralFileHeader_GetExtraFieldLength r = CFH_Field11 r"

definition CentralFileHeader_SetExtraFieldLength :: "16 word \<Rightarrow> CentralFileHeader \<Rightarrow> CentralFileHeader" where
  "CentralFileHeader_SetExtraFieldLength v r = r\<lparr>CFH_Field11 := v\<rparr>"

definition CentralFileHeader_GetFileCommentLength :: "CentralFileHeader \<Rightarrow> 16 word" where
  "CentralFileHeader_GetFileCommentLength r = CFH_Field12 r"

definition CentralFileHeader_SetFileCommentLength :: "16 word \<Rightarrow> CentralFileHeader \<Rightarrow> CentralFileHeader" where
  "CentralFileHeader_SetFileCommentLength v r = r\<lparr>CFH_Field12 := v\<rparr>"

text \<open>
  Here \<^verbatim>\<open>auto data = GetValue<...>(Field(i))\<close> is the pointer to the field's vector:
  the resize and the assignment change the object.
\<close>

definition CentralFileHeader_GetFileName :: "CentralFileHeader \<Rightarrow> string" where
  "CentralFileHeader_GetFileName r = string_of_bytes (CFH_Field17 r)"

definition CentralFileHeader_SetFileName :: "string \<Rightarrow> CentralFileHeader \<Rightarrow> CentralFileHeader" where
  "CentralFileHeader_SetFileName name r =
     (let r = r\<lparr>CFH_Field17 := resize (length name) (CFH_Field17 r)\<rparr>;
          r = r\<lparr>CFH_Field17 := bytes_of_string name\<rparr>
      in CentralFileHeader_SetFileNameLength (of_nat (length name)) r)"

definition CentralFileHeader_GetExtraField :: "CentralFileHeader \<Rightarrow> string" where
  "CentralFileHeader_GetExtraField r = string_of_bytes (CFH_Field18 r)"

definition CentralFileHeader_SetExtraField :: "string \<Rightarrow> CentralFileHeader \<Rightarrow> CentralFileHeader" where
  "CentralFileHeader_SetExtraField extra r =
     (let r = r\<lparr>CFH_Field18 := resize (length extra) (CFH_Field18 r)\<rparr>;
          r = r\<lparr>CFH_Field18 := bytes_of_string extra\<rparr>
      in CentralFileHeader_SetExtraFieldLength (of_nat (length extra)) r)"

definition CentralFileHeader_GetComment :: "CentralFileHeader \<Rightarrow> string" where
  "CentralFileHeader_GetComment r = string_of_bytes (CFH_Field19 r)"

definition CentralFileHeader_SetComment :: "string \<Rightarrow> CentralFileHeader \<Rightarrow> CentralFileHeader" where
  "CentralFileHeader_SetComment comment r =
     (let r = r\<lparr>CFH_Field19 := resize (length comment) (CFH_Field19 r)\<rparr>;
          r = r\<lparr>CFH_Field19 := bytes_of_string comment\<rparr>
      in CentralFileHeader_SetExtraFieldLength (of_nat (length comment)) r)"

definition CentralFileHeader_fields :: "CentralFileHeader Object list" where
  "CentralFileHeader_fields =
   [
     \<comment> \<open>0 - central file header signature, 4 bytes (0x02014b50)\<close>
     Field4Bytes CFH_Field0 (\<lambda>v r. r\<lparr>CFH_Field0 := v\<rparr>) (\<lambda>v r.
       if v \<noteq> Signatures_CentralFileHeader
       then Inl (ZipException ''central file header does not match signature'' InvalidHeader)
       else Inr r),
     \<comment> \<open>1 - version made by, 2 bytes\<close>
     Field2Bytes CFH_Field1 (\<lambda>v r. r\<lparr>CFH_Field1 := v\<rparr>) (\<lambda>v r. Inr r),
     \<comment> \<open>2 - version needed to extract, 2 bytes\<close>
     Field2Bytes CFH_Field2 (\<lambda>v r. r\<lparr>CFH_Field2 := v\<rparr>) (\<lambda>v r. Inr r),
     \<comment> \<open>3 - general purpose bit flag, 2 bytes\<close>
     Field2Bytes CFH_Field3 (\<lambda>v r. r\<lparr>CFH_Field3 := v\<rparr>) (\<lambda>v r. Inr r),
     \<comment> \<open>4 - compression method, 2 bytes\<close>
     Field2Bytes CFH_Field4 (\<lambda>v r. r\<lparr>CFH_Field4 := v\<rparr>) (\<lambda>v r. Inr r),
     \<comment> \<open>5 - last mod file time, 2 bytes\<close>
     Field2Bytes CFH_Field5 (\<lambda>v r. r\<lparr>CFH_Field5 := v\<rparr>) (\<lambda>v r. Inr r),
     \<comment> \<open>6 - last mod file date, 2 bytes\<close>
     Field2Bytes CFH_Field6 (\<lambda>v r. r\<lparr>CFH_Field6 := v\<rparr>) (\<lambda>v r. Inr r),
     \<comment> \<open>7 - crc-32, 4 bytes\<close>
     Field4Bytes CFH_Field7 (\<lambda>v r. r\<lparr>CFH_Field7 := v\<rparr>) (\<lambda>v r. Inr r),
     \<comment> \<open>8 - compressed size, 4 bytes\<close>
     Field4Bytes CFH_Field8 (\<lambda>v r. r\<lparr>CFH_Field8 := v\<rparr>) (\<lambda>v r. Inr r),
     \<comment> \<open>9 - uncompressed size, 4 bytes\<close>
     Field4Bytes CFH_Field9 (\<lambda>v r. r\<lparr>CFH_Field9 := v\<rparr>) (\<lambda>v r. Inr r),
     \<comment> \<open>10 - file name length, 2 bytes\<close>
     Field2Bytes CFH_Field10 (\<lambda>v r. r\<lparr>CFH_Field10 := v\<rparr>) (\<lambda>v r.
       if unat (CentralFileHeader_GetFileNameLength r) > 65535
       then Inl (ZipException ''file name exceeds max size'' FieldOutOfRange)
       else Inr (r\<lparr>CFH_Field17 :=
                    resize (unat (CentralFileHeader_GetFileNameLength r)) (CFH_Field17 r)\<rparr>)),
     \<comment> \<open>11 - extra field length, 2 bytes\<close>
     Field2Bytes CFH_Field11 (\<lambda>v r. r\<lparr>CFH_Field11 := v\<rparr>) (\<lambda>v r.
       if unat (CentralFileHeader_GetExtraFieldLength r) > 65535
       then Inl (ZipException ''file name exceeds max size'' FieldOutOfRange)
       else Inr (r\<lparr>CFH_Field18 :=
                    resize (unat (CentralFileHeader_GetExtraFieldLength r)) (CFH_Field18 r)\<rparr>)),
     \<comment> \<open>12 - file comment length, 2 bytes\<close>
     Field2Bytes CFH_Field12 (\<lambda>v r. r\<lparr>CFH_Field12 := v\<rparr>) (\<lambda>v r.
       if unat (CentralFileHeader_GetFileCommentLength r) > 65535
       then Inl (ZipException ''file comment exceeds max size'' FieldOutOfRange)
       else Inr (r\<lparr>CFH_Field19 :=
                    resize (unat (CentralFileHeader_GetFileCommentLength r)) (CFH_Field19 r)\<rparr>)),
     \<comment> \<open>13 - disk number start, 2 bytes\<close>
     Field2Bytes CFH_Field13 (\<lambda>v r. r\<lparr>CFH_Field13 := v\<rparr>) (\<lambda>v r. Inr r),
     \<comment> \<open>14 - internal file attributes, 2 bytes\<close>
     Field2Bytes CFH_Field14 (\<lambda>v r. r\<lparr>CFH_Field14 := v\<rparr>) (\<lambda>v r. Inr r),
     \<comment> \<open>15 - external file attributes, 4 bytes\<close>
     Field4Bytes CFH_Field15 (\<lambda>v r. r\<lparr>CFH_Field15 := v\<rparr>) (\<lambda>v r. Inr r),
     \<comment> \<open>16 - relative offset of local header, 4 bytes\<close>
     Field4Bytes CFH_Field16 (\<lambda>v r. r\<lparr>CFH_Field16 := v\<rparr>) (\<lambda>v r. Inr r),
     \<comment> \<open>17 - file name (variable size)\<close>
     FieldNBytes CFH_Field17 (\<lambda>v r. r\<lparr>CFH_Field17 := v\<rparr>) (\<lambda>data r. Inr r),
     \<comment> \<open>18 - extra field (variable size)\<close>
     FieldNBytes CFH_Field18 (\<lambda>v r. r\<lparr>CFH_Field18 := v\<rparr>) (\<lambda>data r. Inr r),
     \<comment> \<open>19 - file comment (variable size)\<close>
     FieldNBytes CFH_Field19 (\<lambda>v r. r\<lparr>CFH_Field19 := v\<rparr>) (\<lambda>data r. Inr r) ]"

definition CentralFileHeader_Read ::
  "CentralFileHeader \<Rightarrow> StreamBase \<Rightarrow> Exception + (CentralFileHeader \<times> StreamBase)" where
  "CentralFileHeader_Read = StructuredObject_Read CentralFileHeader_fields"

definition CentralFileHeader_Size :: "CentralFileHeader \<Rightarrow> nat" where
  "CentralFileHeader_Size = StructuredObject_Size CentralFileHeader_fields"

definition CentralFileHeader_Write :: "CentralFileHeader \<Rightarrow> 8 word list" where
  "CentralFileHeader_Write = StructuredObject_Write CentralFileHeader_fields"

text \<open>The constructor has an empty body: the three byte vectors start empty.\<close>

definition CentralFileHeader_new :: "CentralFileHeader \<Rightarrow> CentralFileHeader" where
  "CentralFileHeader_new raw = raw\<lparr>CFH_Field17 := [], CFH_Field18 := [], CFH_Field19 := []\<rparr>"

section \<open>ZipStream\<close>

text \<open>
  \<^verbatim>\<open>ZipStream.hpp\<close> is not among the sources: of the class, \<^verbatim>\<open>ZipStream.cpp\<close> uses
  the members \<^verbatim>\<open>stream\<close> and \<^verbatim>\<open>containedFiles\<close>, a container of pairs whose first
  components are the names. The container is the list of its pairs in iteration
  order; the type of the second components is left open.
\<close>

record 'v ZipStream =
  stream :: StreamBase
  containedFiles :: "(string \<times> 'v) list"

text \<open>
  The three records of \<^verbatim>\<open>ZipStream::Read\<close> are local objects. Their fixed-width
  fields are taken to hold 0 before the constructors run; every one of them is
  overwritten by a read before it is used (lemmas \<open>EndCentralDirectoryRecord_Read_raw\<close>,
  \<open>Zip64EndOfCentralDirectoryLocator_Read_raw\<close> and
  \<open>Zip64EndOfCentralDirectoryRecord_Read_raw\<close> below).
\<close>

definition EndCentralDirectoryRecord_storage :: EndCentralDirectoryRecord where
  "EndCentralDirectoryRecord_storage =
     \<lparr> EOCD_Field0 = 0, EOCD_Field1 = 0, EOCD_Field2 = 0, EOCD_Field3 = 0, EOCD_Field4 = 0,
       EOCD_Field5 = 0, EOCD_Field6 = 0, EOCD_Field7 = 0, EOCD_Field8 = [] \<rparr>"

definition Zip64EndOfCentralDirectoryLocator_storage :: Zip64EndOfCentralDirectoryLocator where
  "Zip64EndOfCentralDirectoryLocator_storage =
     \<lparr> Z64L_Field0 = 0, Z64L_Field1 = 0, Z64L_Field2 = 0, Z64L_Field3 = 0, Z64L_maxOffset = 0 \<rparr>"

definition Zip64EndOfCentralDirectoryRecord_storage :: Zip64EndOfCentralDirectoryRecord where
  "Zip64EndOfCentralDirectoryRecord_storage =
     \<lparr> Z64_Field0 = 0, Z64_Field1 = 0, Z64_Field2 = 0, Z64_Field3 = 0, Z64_Field4 = 0,
       Z64_Field5 = 0, Z64_Field6 = 0, Z64_Field7 = 0, Z64_Field8 = 0, Z64_Field9 = 0,
       Z64_Field10 = [], Z64_maxOffset = 0 \<rparr>"

definition ZipStream_Read :: "'v ZipStream \<Rightarrow> Exception + 'v ZipStream" where
  "ZipStream_Read zs =
     (let endCentralDirectoryRecord =
            EndCentralDirectoryRecord_new EndCentralDirectoryRecord_storage
      in
      (case Seek (- 1 * of_nat (EndCentralDirectoryRecord_Size endCentralDirectoryRecord)) END
              (stream zs) of
         Inl e \<Rightarrow> Inl e
       | Inr s1 \<Rightarrow>
      (case EndCentralDirectoryRecord_Read endCentralDirectoryRecord s1 of
         Inl e \<Rightarrow> Inl e
       | Inr (endCentralDirectoryRecord, s2) \<Rightarrow>
      (let zip64Locator =
             Zip64EndOfCentralDirectoryLocator_new Zip64EndOfCentralDirectoryLocator_storage
               (Ftell s2 - of_nat (EndCentralDirectoryRecord_Size endCentralDirectoryRecord))
       in
      (case Seek (- 1 * (of_nat (EndCentralDirectoryRecord_Size endCentralDirectoryRecord)
                         + of_nat (Zip64EndOfCentralDirectoryLocator_Size zip64Locator))) END s2 of
         Inl e \<Rightarrow> Inl e
       | Inr s3 \<Rightarrow>
      (case Zip64EndOfCentralDirectoryLocator_Read zip64Locator s3 of
         Inl e \<Rightarrow> Inl e
       | Inr (zip64Locator, s4) \<Rightarrow>
      (let zip64EndOfCentralDirectory =
             Zip64EndOfCentralDirectoryRecord_new Zip64EndOfCentralDirectoryRecord_storage
               (Ftell s4 - of_nat (Zip64EndOfCentralDirectoryLocator_Size zip64Locator))
       in
      (case Seek (Zip64EndOfCentralDirectoryLocator_GetRelativeOffset zip64Locator) START s4 of
         Inl e \<Rightarrow> Inl e
       | Inr s5 \<Rightarrow>
      (case Zip64EndOfCentralDirectoryRecord_Read zip64EndOfCentralDirectory s5 of
         Inl e \<Rightarrow> Inl e
       | Inr (zip64EndOfCentralDirectory, s6) \<Rightarrow> Inr (zs\<lparr>stream := s6\<rparr>))))))))))"

text \<open>
  \<^verbatim>\<open>GetFileNames\<close>: \<^verbatim>\<open>for_each\<close> over \<^verbatim>\<open>containedFiles\<close>, pushing the first
  component of each pair to the back of the result.
\<close>

definition ZipStream_GetFileNames :: "'v ZipStream \<Rightarrow> string list" where
  "ZipStream_GetFileNames zs =
     foldl (\<lambda>result it. result @ [fst it]) [] (containedFiles zs)"

section \<open>Fixtures for stating properties\<close>

text \<open>
  \<open>StreamBase_at pre bs\<close> is the stream that holds \<open>pre @ bs\<close> and whose cursor
  stands behind \<open>pre\<close>: the bytes \<open>bs\<close> are the ones the next reads consume. Every
  stream whose cursor lies within its content has this form (lemma
  \<open>StreamBase_at_cover\<close>), and enough bytes ahead are the bytes of some record (the
  lemmas \<open>..._stream_cover\<close>).
\<close>

definition StreamBase_at :: "8 word list \<Rightarrow> 8 word list \<Rightarrow> StreamBase" where
  "StreamBase_at pre bs = \<lparr>content = pre @ bs, cursor = length pre\<rparr>"

text \<open>Objects with all fixed-width fields 0, for concrete examples.\<close>

definition LocalFileHeader_storage :: LocalFileHeader where
  "LocalFileHeader_storage =
     \<lparr> LFH_Field0 = 0, LFH_Field1 = 0, LFH_Field2 = 0, LFH_Field3 = 0, LFH_Field4 = 0,
       LFH_Field5 = 0, LFH_Field6 = 0, LFH_Field7 = 0, LFH_Field8 = 0, LFH_Field9 = 0,
       LFH_Field10 = 0, LFH_Field11 = [], LFH_Field12 = [] \<rparr>"

definition CentralFileHeader_storage :: CentralFileHeader where
  "CentralFileHeader_storage =
     \<lparr> CFH_Field0 = 0, CFH_Field1 = 0, CFH_Field2 = 0, CFH_Field3 = 0, CFH_Field4 = 0,
       CFH_Field5 = 0, CFH_Field6 = 0, CFH_Field7 = 0, CFH_Field8 = 0, CFH_Field9 = 0,
       CFH_Field10 = 0, CFH_Field11 = 0, CFH_Field12 = 0, CFH_Field13 = 0, CFH_Field14 = 0,
       CFH_Field15 = 0, CFH_Field16 = 0, CFH_Field17 = [], CFH_Field18 = [], CFH_Field19 = [] \<rparr>"

text \<open>
  The end record of a plain ZIP archive with one entry, a central directory of
  47 bytes at offset 31 and no comment.
\<close>

definition EndCentralDirectoryRecord_zip32 :: EndCentralDirectoryRecord where
  "EndCentralDirectoryRecord_zip32 =
     \<lparr> EOCD_Field0 = 0x06054b50, EOCD_Field1 = 0, EOCD_Field2 = 0, EOCD_Field3 = 1,
       EOCD_Field4 = 1, EOCD_Field5 = 47, EOCD_Field6 = 31, EOCD_Field7 = 0, EOCD_Field8 = [] \<rparr>"

text \<open>
  The records a writer builds with the constructors and the public setters: a locator
  with a relative offset, and a Zip64 end record with an entry count and the size and
  the offset of the central directory.
\<close>

definition Zip64EndOfCentralDirectoryLocator_example ::
  "64 word \<Rightarrow> 64 word \<Rightarrow> Zip64EndOfCentralDirectoryLocator" where
  "Zip64EndOfCentralDirectoryLocator_example maxOffset relativeOffset =
     Zip64EndOfCentralDirectoryLocator_SetRelativeOffset relativeOffset
       (Zip64EndOfCentralDirectoryLocator_new Zip64EndOfCentralDirectoryLocator_storage maxOffset)"

definition Zip64EndOfCentralDirectoryRecord_example ::
  "64 word \<Rightarrow> 64 word \<Rightarrow> 64 word \<Rightarrow> 64 word \<Rightarrow> Zip64EndOfCentralDirectoryRecord" where
  "Zip64EndOfCentralDirectoryRecord_example maxOffset entries sizeOfCD offsetOfCD =
     Zip64EndOfCentralDirectoryRecord_SetOffsetfStartOfCD offsetOfCD
       (Zip64EndOfCentralDirectoryRecord_SetSizeOfCD sizeOfCD
          (Zip64EndOfCentralDirectoryRecord_SetTotalNumberOfEntries entries
             (Zip64EndOfCentralDirectoryRecord_new Zip64EndOfCentralDirectoryRecord_storage
                maxOffset)))"

text \<open>
  An archive of one stored, empty entry named \<open>name\<close>, written with the records' own
  \<^verbatim>\<open>Write\<close>: the local file header (30 bytes and the name), the central file header
  (46 bytes and the name), the Zip64 end record with the given entry count, size and
  offset of the central directory, the locator with the given relative offset, and
  the end record the constructor builds. For the name "a" the central directory is
  47 bytes at offset 31, the Zip64 end record starts at 78, the locator at 134, the
  end record at 154, and the archive is 176 bytes long.
\<close>

definition LocalFileHeader_example :: "string \<Rightarrow> LocalFileHeader" where
  "LocalFileHeader_example name =
     (LocalFileHeader_new LocalFileHeader_storage)
       \<lparr> LFH_Field0 := Signatures_LocalFileHeader,
         LFH_Field9 := of_nat (length name),
         LFH_Field11 := bytes_of_string name \<rparr>"

definition CentralFileHeader_example :: "string \<Rightarrow> CentralFileHeader" where
  "CentralFileHeader_example name =
     CentralFileHeader_SetFileName name
       ((CentralFileHeader_new CentralFileHeader_storage)
          \<lparr> CFH_Field0 := Signatures_CentralFileHeader \<rparr>)"

definition example_archive ::
  "string \<Rightarrow> 64 word \<Rightarrow> 64 word \<Rightarrow> 64 word \<Rightarrow> 64 word \<Rightarrow> 8 word list" where
  "example_archive name relativeOffset entries sizeOfCD offsetOfCD =
     (LocalFileHeader_Write (LocalFileHeader_example name) @
      CentralFileHeader_Write (CentralFileHeader_example name)) @
     Zip64EndOfCentralDirectoryRecord_Write
       (Zip64EndOfCentralDirectoryRecord_example 0 entries sizeOfCD offsetOfCD) @
     Zip64EndOfCentralDirectoryLocator_Write
       (Zip64EndOfCentralDirectoryLocator_example 0 relativeOffset) @
     EndCentralDirectoryRecord_Write
       (EndCentralDirectoryRecord_new EndCentralDirectoryRecord_storage)"

text \<open>A \<^verbatim>\<open>ZipStream\<close> on given bytes, before \<^verbatim>\<open>Read\<close>: no contained file yet.\<close>

definition ZipStream_on :: "8 word list \<Rightarrow> unit ZipStream" where
  "ZipStream_on bytes = \<lparr> stream = \<lparr>content = bytes, cursor = 0\<rparr>, containedFiles = [] \<rparr>"

text \<open>What a caller sees who calls \<^verbatim>\<open>Read()\<close> and then \<^verbatim>\<open>GetFileNames()\<close>.\<close>

definition ZipStream_Read_GetFileNames :: "'v ZipStream \<Rightarrow> Exception + string list" where
  "ZipStream_Read_GetFileNames zs =
     (case ZipStream_Read zs of
        Inl e \<Rightarrow> Inl e
      | Inr zs' \<Rightarrow> Inr (ZipStream_GetFileNames zs'))"

section \<open>Little-endian encoding\<close>

lemma length_encode_le [simp]: "length (encode_le n v) = n"
  by (induction n arbitrary: v) auto

lemma decode_encode_le: "decode_le (encode_le n v) = v mod 256 ^ n"
proof (induction n arbitrary: v)
  case 0
  then show ?case by simp
next
  case (Suc n)
  have "unat (of_nat (v mod 256) :: 8 word) = v mod 256"
    by (simp add: unat_of_nat)
  then show ?case
    using Suc[of "v div 256"] by (simp add: mod_mult2_eq)
qed

lemma decode_le_bound: "decode_le bs < 256 ^ length bs"
proof (induction bs)
  case Nil
  then show ?case by simp
next
  case (Cons b bs)
  have "unat b < 256" using unsigned_less[of b, where ?'a = nat] by simp
  with Cons show ?case by simp
qed

lemma encode_decode_le: "encode_le (length bs) (decode_le bs) = bs"
proof (induction bs)
  case Nil
  then show ?case by simp
next
  case (Cons b bs)
  have b: "unat b < 256" using unsigned_less[of b, where ?'a = nat] by simp
  then show ?case using Cons by simp
qed

lemma decode_encode_word16: "of_nat (decode_le (encode_le 2 (unat (v :: 16 word)))) = v"
proof -
  have "unat v < 256 ^ 2" using unsigned_less[of v, where ?'a = nat] by simp
  then show ?thesis by (simp add: decode_encode_le)
qed

lemma decode_encode_word32: "of_nat (decode_le (encode_le 4 (unat (v :: 32 word)))) = v"
proof -
  have "unat v < 256 ^ 4" using unsigned_less[of v, where ?'a = nat] by simp
  then show ?thesis by (simp add: decode_encode_le)
qed

lemma decode_encode_word64: "of_nat (decode_le (encode_le 8 (unat (v :: 64 word)))) = v"
proof -
  have "unat v < 256 ^ 8" using unsigned_less[of v, where ?'a = nat] by simp
  then show ?thesis by (simp add: decode_encode_le)
qed

lemma unat_of_char: "unat (of_char c :: 8 word) = of_char c"
proof -
  have "(of_char c :: 8 word) = of_nat (of_char c)"
    by (simp add: of_nat_of_char)
  then have "unat (of_char c :: 8 word) = of_char c mod 256"
    by (simp only: unat_of_nat) simp
  then show ?thesis by simp
qed

lemma string_of_bytes_of_string: "string_of_bytes (bytes_of_string str) = str"
  by (induction str) (simp_all add: string_of_bytes_def bytes_of_string_def unat_of_char)

lemma length_bytes_of_string: "length (bytes_of_string str) = length str"
  by (simp add: bytes_of_string_def)

section \<open>Reading a field\<close>

lemma Object_Read_FieldBase:
  "Object_Read (FieldBase w get put validate) r s =
     (if cursor s + w \<le> length (content s)
      then (case validate (of_nat (decode_le (take w (drop (cursor s) (content s)))))
                   (put (of_nat (decode_le (take w (drop (cursor s) (content s))))) r) of
              Inl e \<Rightarrow> Inl e
            | Inr r' \<Rightarrow> Inr (r', s\<lparr>cursor := cursor s + w\<rparr>))
      else Inl StreamFailure)"
  by (simp add: FieldBase_def Read_bytes_def)

lemma Object_Read_FieldNBytes:
  "Object_Read (FieldNBytes get put validate) r s =
     (if cursor s + length (get r) \<le> length (content s)
      then (case validate (take (length (get r)) (drop (cursor s) (content s)))
                   (put (take (length (get r)) (drop (cursor s) (content s))) r) of
              Inl e \<Rightarrow> Inl e
            | Inr r' \<Rightarrow> Inr (r', s\<lparr>cursor := cursor s + length (get r)\<rparr>))
      else Inl StreamFailure)"
  by (simp add: FieldNBytes_def Read_bytes_def)

lemma Object_Write_FieldBase:
  "Object_Write (FieldBase w get put validate) r = encode_le w (unat (get r))"
  by (simp add: FieldBase_def)

lemma Object_Write_FieldNBytes: "Object_Write (FieldNBytes get put validate) r = get r"
  by (simp add: FieldNBytes_def)

lemma Object_Size_FieldBase: "Object_Size (FieldBase w get put validate) r = w"
  by (simp add: FieldBase_def)

lemma Object_Size_FieldNBytes: "Object_Size (FieldNBytes get put validate) r = length (get r)"
  by (simp add: FieldNBytes_def)

lemma StreamBase_at_cover:
  "cursor s \<le> length (content s) \<Longrightarrow>
     s = StreamBase_at (take (cursor s) (content s)) (drop (cursor s) (content s))"
  by (simp add: StreamBase_at_def)

text \<open>One step of a record's read, when the bytes ahead are an encoded value.\<close>

lemma Read_FieldBase_at:
  "StructuredObject_Read (FieldBase w get put validate # fs) r
       (StreamBase_at pre (encode_le w n @ rest)) =
     (case validate (of_nat (decode_le (encode_le w n)))
             (put (of_nat (decode_le (encode_le w n))) r) of
        Inl e \<Rightarrow> Inl e
      | Inr r' \<Rightarrow> StructuredObject_Read fs r' (StreamBase_at (pre @ encode_le w n) rest))"
  by (simp add: Object_Read_FieldBase StreamBase_at_def split: sum.splits)

lemma Object_Read_FieldNBytes_empty:
  "get r = [] \<Longrightarrow>
   Object_Read (FieldNBytes get put validate) r (StreamBase_at pre bs) =
     (case validate [] (put [] r) of
        Inl e \<Rightarrow> Inl e
      | Inr r' \<Rightarrow> Inr (r', StreamBase_at pre bs))"
  by (simp add: Object_Read_FieldNBytes StreamBase_at_def split: sum.splits)

text \<open>What a successful read of a record tells about its first field.\<close>

lemma Read_FieldBase_InrE:
  assumes "StructuredObject_Read (FieldBase w get put validate # fs) r s = Inr (r', s')"
  obtains v r1 s1 where "validate v (put v r) = Inr r1"
    and "StructuredObject_Read fs r1 s1 = Inr (r', s')"
    and "cursor s1 = cursor s + w" and "content s1 = content s"
    and "cursor s1 \<le> length (content s)"
proof (cases "cursor s + w \<le> length (content s)")
  case False
  with assms show ?thesis by (simp add: Object_Read_FieldBase)
next
  case True
  let ?v = "of_nat (decode_le (take w (drop (cursor s) (content s)))) :: 'b word"
  from assms True obtain r1 where v: "validate ?v (put ?v r) = Inr r1"
    and rest: "StructuredObject_Read fs r1 (s\<lparr>cursor := cursor s + w\<rparr>) = Inr (r', s')"
    by (auto simp: Object_Read_FieldBase split: sum.splits)
  show ?thesis
    by (rule that [OF v rest]) (use True in simp_all)
qed

lemma Read_FieldNBytes_InrE:
  assumes "StructuredObject_Read (FieldNBytes get put validate # fs) r s = Inr (r', s')"
  obtains data r1 s1 where "length data = length (get r)"
    and "validate data (put data r) = Inr r1"
    and "StructuredObject_Read fs r1 s1 = Inr (r', s')"
    and "cursor s1 = cursor s + length (get r)" and "content s1 = content s"
    and "cursor s1 \<le> length (content s)"
proof (cases "cursor s + length (get r) \<le> length (content s)")
  case False
  with assms show ?thesis by (simp add: Object_Read_FieldNBytes)
next
  case True
  let ?d = "take (length (get r)) (drop (cursor s) (content s))"
  from assms True obtain r1 where v: "validate ?d (put ?d r) = Inr r1"
    and rest: "StructuredObject_Read fs r1 (s\<lparr>cursor := cursor s + length (get r)\<rparr>) = Inr (r', s')"
    by (auto simp: Object_Read_FieldNBytes split: sum.splits)
  have len: "length ?d = length (get r)" using True by simp
  show ?thesis
    by (rule that [OF len v rest]) (use True in simp_all)
qed

lemma Read_Nil_InrE:
  assumes "StructuredObject_Read [] r s = Inr (r', s')"
  obtains "r' = r" and "s' = s"
  using assms by simp

lemma sum_case_if:
  "(case (if c then Inl e else Inr a) of Inl e' \<Rightarrow> Inl e' | Inr r' \<Rightarrow> f r') =
   (if c then Inl e else f a)"
  by simp

section \<open>Reading an EndCentralDirectoryRecord\<close>

lemma EndCentralDirectoryRecord_Write_fields:
  "EndCentralDirectoryRecord_Write x =
     encode_le 4 (unat (EOCD_Field0 x)) @ encode_le 2 (unat (EOCD_Field1 x)) @
     encode_le 2 (unat (EOCD_Field2 x)) @ encode_le 2 (unat (EOCD_Field3 x)) @
     encode_le 2 (unat (EOCD_Field4 x)) @ encode_le 4 (unat (EOCD_Field5 x)) @
     encode_le 4 (unat (EOCD_Field6 x)) @ encode_le 2 (unat (EOCD_Field7 x)) @ EOCD_Field8 x"
  unfolding EndCentralDirectoryRecord_Write_def EndCentralDirectoryRecord_fields_def
    Field2Bytes_def Field4Bytes_def
  by (simp add: Object_Write_FieldBase Object_Write_FieldNBytes)

lemma EndCentralDirectoryRecord_Size_eq:
  "EndCentralDirectoryRecord_Size r = 22 + length (EOCD_Field8 r)"
  unfolding EndCentralDirectoryRecord_Size_def EndCentralDirectoryRecord_fields_def
    Field2Bytes_def Field4Bytes_def
  by (simp add: Object_Size_FieldBase Object_Size_FieldNBytes)

text \<open>
  Reading the bytes some record \<open>x\<close> was written to: the validators run on the
  fields of \<open>x\<close> in order; the comment is read with the size the reading object's
  field 8 has.
\<close>

lemma EndCentralDirectoryRecord_Read_Write:
  "EndCentralDirectoryRecord_Read r (StreamBase_at pre (EndCentralDirectoryRecord_Write x @ rest)) =
    (if EOCD_Field0 x \<noteq> Signatures_EndOfCentralDirectory
       then Inl (ZipException ''invalid signiture'' InvalidEndOfCentralDirectoryRecord)
     else if EOCD_Field1 x \<noteq> 0
       then Inl (ZipException ''unsupported disk number'' InvalidEndOfCentralDirectoryRecord)
     else if EOCD_Field2 x \<noteq> 0
       then Inl (ZipException ''unsupported EoCDR disk number'' InvalidEndOfCentralDirectoryRecord)
     else if EOCD_Field3 x \<noteq> 0xFFFF
       then Inl (ZipException ''unsupported total number of entries on this disk''
                   InvalidEndOfCentralDirectoryRecord)
     else if EOCD_Field4 x \<noteq> 0xFFFF
       then Inl (ZipException ''unsupported total number of entries''
                   InvalidEndOfCentralDirectoryRecord)
     else if EOCD_Field5 x \<noteq> 0xFFFFFFFF
       then Inl (ZipException ''unsupported size of central directory''
                   InvalidEndOfCentralDirectoryRecord)
     else if EOCD_Field6 x \<noteq> 0xFFFFFFFF
       then Inl (ZipException ''unsupported offset of start of central directory''
                   InvalidEndOfCentralDirectoryRecord)
     else if EOCD_Field7 x \<noteq> 0
       then Inl (ZipException ''Zip comment unsupported'' InvalidEndOfCentralDirectoryRecord)
     else StructuredObject_Read
            [FieldNBytes EOCD_Field8 (\<lambda>v r. r\<lparr>EOCD_Field8 := v\<rparr>) (\<lambda>data r.
               if length data \<noteq> 0
               then Inl (ZipException ''Zip comment unsupported'' InvalidEndOfCentralDirectoryRecord)
               else Inr r)]
            (r\<lparr>EOCD_Field0 := EOCD_Field0 x, EOCD_Field1 := EOCD_Field1 x,
               EOCD_Field2 := EOCD_Field2 x, EOCD_Field3 := EOCD_Field3 x,
               EOCD_Field4 := EOCD_Field4 x, EOCD_Field5 := EOCD_Field5 x,
               EOCD_Field6 := EOCD_Field6 x, EOCD_Field7 := EOCD_Field7 x\<rparr>)
            (StreamBase_at
               (pre @ encode_le 4 (unat (EOCD_Field0 x)) @ encode_le 2 (unat (EOCD_Field1 x)) @
                encode_le 2 (unat (EOCD_Field2 x)) @ encode_le 2 (unat (EOCD_Field3 x)) @
                encode_le 2 (unat (EOCD_Field4 x)) @ encode_le 4 (unat (EOCD_Field5 x)) @
                encode_le 4 (unat (EOCD_Field6 x)) @ encode_le 2 (unat (EOCD_Field7 x)))
               (EOCD_Field8 x @ rest)))"
  unfolding EndCentralDirectoryRecord_Read_def EndCentralDirectoryRecord_Write_fields
    EndCentralDirectoryRecord_fields_def Field2Bytes_def Field4Bytes_def
  by (simp only: Read_FieldBase_at append_assoc sum_case_if decode_encode_word16
      decode_encode_word32 cong: if_cong)

lemma EndCentralDirectoryRecord_Read_success:
  assumes "EndCentralDirectoryRecord_Read r s = Inr (r', s')"
  shows "EOCD_Field0 r' = Signatures_EndOfCentralDirectory \<and> EOCD_Field1 r' = 0 \<and>
     EOCD_Field2 r' = 0 \<and> EOCD_Field3 r' = 0xFFFF \<and> EOCD_Field4 r' = 0xFFFF \<and>
     EOCD_Field5 r' = 0xFFFFFFFF \<and> EOCD_Field6 r' = 0xFFFFFFFF \<and>
     EOCD_Field7 r' = 0 \<and> EOCD_Field8 r' = [] \<and> EOCD_Field8 r = [] \<and>
     cursor s' = cursor s + 22 \<and> content s' = content s \<and> cursor s' \<le> length (content s)"
  using assms
  unfolding EndCentralDirectoryRecord_Read_def EndCentralDirectoryRecord_fields_def
    Field2Bytes_def Field4Bytes_def
  apply (elim Read_FieldBase_InrE Read_FieldNBytes_InrE Read_Nil_InrE)
  apply (clarsimp split: if_splits)
  done

lemma EndCentralDirectoryRecord_Read_new:
  "EOCD_Field8 r = [] \<Longrightarrow>
   EndCentralDirectoryRecord_Read r
      (StreamBase_at pre (EndCentralDirectoryRecord_Write (EndCentralDirectoryRecord_new raw) @ rest)) =
    Inr (r\<lparr>EOCD_Field0 := Signatures_EndOfCentralDirectory, EOCD_Field1 := 0, EOCD_Field2 := 0,
            EOCD_Field3 := 0xFFFF, EOCD_Field4 := 0xFFFF, EOCD_Field5 := 0xFFFFFFFF,
            EOCD_Field6 := 0xFFFFFFFF, EOCD_Field7 := 0\<rparr>,
         StreamBase_at (pre @ EndCentralDirectoryRecord_Write (EndCentralDirectoryRecord_new raw)) rest)"
  apply (simp only: EndCentralDirectoryRecord_Read_Write)
  apply (simp add: Object_Read_FieldNBytes_empty EndCentralDirectoryRecord_Write_fields
      EndCentralDirectoryRecord_new_def)
  done

section \<open>Reading a Zip64EndOfCentralDirectoryLocator\<close>

lemma Zip64EndOfCentralDirectoryLocator_Write_fields:
  "Zip64EndOfCentralDirectoryLocator_Write x =
     encode_le 4 (unat (Z64L_Field0 x)) @ encode_le 4 (unat (Z64L_Field1 x)) @
     encode_le 8 (unat (Z64L_Field2 x)) @ encode_le 4 (unat (Z64L_Field3 x))"
  unfolding Zip64EndOfCentralDirectoryLocator_Write_def Zip64EndOfCentralDirectoryLocator_fields_def
    Field4Bytes_def Field8Bytes_def
  by (simp add: Object_Write_FieldBase)

lemma Zip64EndOfCentralDirectoryLocator_Size_eq:
  "Zip64EndOfCentralDirectoryLocator_Size r = 20"
  unfolding Zip64EndOfCentralDirectoryLocator_Size_def Zip64EndOfCentralDirectoryLocator_fields_def
    Field4Bytes_def Field8Bytes_def
  by (simp add: Object_Size_FieldBase)

lemma Zip64EndOfCentralDirectoryLocator_Read_Write:
  "Zip64EndOfCentralDirectoryLocator_Read r
     (StreamBase_at pre (Zip64EndOfCentralDirectoryLocator_Write x @ rest)) =
    (if Z64L_Field0 x \<noteq> Signatures_Zip64EndOfCDLocator
       then Inl (ZipException ''end of central directory locator does not match signature''
                   InvalidHeader)
     else if Z64L_Field1 x \<noteq> 0
       then Inl (ZipException ''Invalid disk number'' InvalidZip64CentralDirectoryLocator)
     else if Z64L_Field2 x > Z64L_maxOffset r
       then Inl (ZipException ''Invalid relative offset'' InvalidZip64CentralDirectoryLocator)
     else if Z64L_Field3 x \<noteq> 1
       then Inl (ZipException ''Invalid total number of disks'' InvalidZip64CentralDirectoryLocator)
     else Inr (r\<lparr>Z64L_Field0 := Z64L_Field0 x, Z64L_Field1 := Z64L_Field1 x,
                 Z64L_Field2 := Z64L_Field2 x, Z64L_Field3 := Z64L_Field3 x\<rparr>,
               StreamBase_at (pre @ Zip64EndOfCentralDirectoryLocator_Write x) rest))"
  unfolding Zip64EndOfCentralDirectoryLocator_Read_def Zip64EndOfCentralDirectoryLocator_Write_fields
    Zip64EndOfCentralDirectoryLocator_fields_def Field4Bytes_def Field8Bytes_def
  apply (simp only: Read_FieldBase_at append_assoc sum_case_if decode_encode_word64
      decode_encode_word32 cong: if_cong)
  apply simp
  done

lemma Zip64EndOfCentralDirectoryLocator_Read_success:
  assumes "Zip64EndOfCentralDirectoryLocator_Read r s = Inr (r', s')"
  shows "Z64L_Field0 r' = Signatures_Zip64EndOfCDLocator \<and> Z64L_Field1 r' = 0 \<and>
     Z64L_Field2 r' \<le> Z64L_maxOffset r \<and> Z64L_Field3 r' = 1 \<and>
     Z64L_maxOffset r' = Z64L_maxOffset r \<and>
     cursor s' = cursor s + 20 \<and> content s' = content s \<and> cursor s' \<le> length (content s)"
  using assms
  unfolding Zip64EndOfCentralDirectoryLocator_Read_def Zip64EndOfCentralDirectoryLocator_fields_def
    Field4Bytes_def Field8Bytes_def
  apply (elim Read_FieldBase_InrE Read_Nil_InrE)
  apply (clarsimp simp: not_less split: if_splits)
  done

section \<open>Reading a Zip64EndOfCentralDirectoryRecord\<close>

lemma Zip64EndOfCentralDirectoryRecord_Write_fields:
  "Zip64EndOfCentralDirectoryRecord_Write x =
     encode_le 4 (unat (Z64_Field0 x)) @ encode_le 8 (unat (Z64_Field1 x)) @
     encode_le 2 (unat (Z64_Field2 x)) @ encode_le 2 (unat (Z64_Field3 x)) @
     encode_le 4 (unat (Z64_Field4 x)) @ encode_le 4 (unat (Z64_Field5 x)) @
     encode_le 8 (unat (Z64_Field6 x)) @ encode_le 8 (unat (Z64_Field7 x)) @
     encode_le 8 (unat (Z64_Field8 x)) @ encode_le 8 (unat (Z64_Field9 x)) @ Z64_Field10 x"
  unfolding Zip64EndOfCentralDirectoryRecord_Write_def Zip64EndOfCentralDirectoryRecord_fields_def
    Field2Bytes_def Field4Bytes_def Field8Bytes_def
  by (simp add: Object_Write_FieldBase Object_Write_FieldNBytes)

lemma Zip64EndOfCentralDirectoryRecord_Size_fields:
  "StructuredObject_Size Zip64EndOfCentralDirectoryRecord_fields r =
     Zip64EndOfCentralDirectoryRecord_Size r"
  unfolding Zip64EndOfCentralDirectoryRecord_Size_def Zip64EndOfCentralDirectoryRecord_fields_def
    Field2Bytes_def Field4Bytes_def Field8Bytes_def
  by (simp add: Object_Size_FieldBase Object_Size_FieldNBytes)

lemma Zip64EndOfCentralDirectoryRecord_Size_eq:
  "Zip64EndOfCentralDirectoryRecord_Size r = 56 + length (Z64_Field10 r)"
  by (simp add: Zip64EndOfCentralDirectoryRecord_Size_def)

lemma length_Zip64EndOfCentralDirectoryRecord_Write:
  "length (Zip64EndOfCentralDirectoryRecord_Write x) = Zip64EndOfCentralDirectoryRecord_Size x"
  by (simp add: Zip64EndOfCentralDirectoryRecord_Write_fields Zip64EndOfCentralDirectoryRecord_Size_def)

lemma Zip64EndOfCentralDirectoryRecord_Read_Write:
  "Zip64EndOfCentralDirectoryRecord_Read r
     (StreamBase_at pre (Zip64EndOfCentralDirectoryRecord_Write x @ rest)) =
    (if Z64_Field0 x \<noteq> Signatures_Zip64EndOfCD
       then Inl (ZipException ''end of zip64 central directory does not match signature''
                   InvalidHeader)
     else if Z64_Field1 x \<noteq> of_nat (56 + length (Z64_Field10 r)) - 12
       then Inl (ZipException ''invalid size of zip64 EOCD'' InvalidZip64CentralDirectoryRecord)
     else if Z64_Field2 x \<noteq> Zip64MinimumVersion
       then Inl (ZipException ''invalid zip64 EOCD version made by''
                   InvalidZip64CentralDirectoryRecord)
     else if Z64_Field3 x \<noteq> Zip64MinimumVersion
       then Inl (ZipException ''invalid zip64 EOCD version to extract''
                   InvalidZip64CentralDirectoryRecord)
     else if Z64_Field4 x \<noteq> 0
       then Inl (ZipException ''invalid disk number'' InvalidZip64CentralDirectoryRecord)
     else if Z64_Field5 x \<noteq> 0
       then Inl (ZipException ''invalid disk index'' InvalidZip64CentralDirectoryRecord)
     else if Z64_Field6 x = 0
       then Inl (ZipException ''invalid number of entries'' InvalidZip64CentralDirectoryRecord)
     else if Z64_Field7 x \<noteq> Z64_Field6 x
       then Inl (ZipException ''invalid total number of entries''
                   InvalidZip64CentralDirectoryRecord)
     else if Z64_Field8 x = 0 \<or> Z64_Field8 x > Z64_maxOffset r
       then Inl (ZipException ''invalid size of central directory''
                   InvalidZip64CentralDirectoryRecord)
     else if Z64_Field9 x = 0 \<or> Z64_Field9 x > Z64_maxOffset r
       then Inl (ZipException ''invalid start of central directory''
                   InvalidZip64CentralDirectoryRecord)
     else StructuredObject_Read
            [FieldNBytes Z64_Field10 (\<lambda>v r. r\<lparr>Z64_Field10 := v\<rparr>) (\<lambda>data r.
               if length data \<noteq> 0
               then Inl (ZipException ''unsupported extensible data''
                           InvalidZip64CentralDirectoryRecord)
               else Inr r)]
            (r\<lparr>Z64_Field0 := Z64_Field0 x, Z64_Field1 := Z64_Field1 x,
               Z64_Field2 := Z64_Field2 x, Z64_Field3 := Z64_Field3 x,
               Z64_Field4 := Z64_Field4 x, Z64_Field5 := Z64_Field5 x,
               Z64_Field6 := Z64_Field6 x, Z64_Field7 := Z64_Field7 x,
               Z64_Field8 := Z64_Field8 x, Z64_Field9 := Z64_Field9 x\<rparr>)
            (StreamBase_at
               (pre @ encode_le 4 (unat (Z64_Field0 x)) @ encode_le 8 (unat (Z64_Field1 x)) @
                encode_le 2 (unat (Z64_Field2 x)) @ encode_le 2 (unat (Z64_Field3 x)) @
                encode_le 4 (unat (Z64_Field4 x)) @ encode_le 4 (unat (Z64_Field5 x)) @
                encode_le 8 (unat (Z64_Field6 x)) @ encode_le 8 (unat (Z64_Field7 x)) @
                encode_le 8 (unat (Z64_Field8 x)) @ encode_le 8 (unat (Z64_Field9 x)))
               (Z64_Field10 x @ rest)))"
  unfolding Zip64EndOfCentralDirectoryRecord_Read_def Zip64EndOfCentralDirectoryRecord_Write_fields
    Zip64EndOfCentralDirectoryRecord_fields_def Field2Bytes_def Field4Bytes_def Field8Bytes_def
  apply (simp only: Read_FieldBase_at append_assoc sum_case_if decode_encode_word64
      decode_encode_word32 decode_encode_word16 Let_def cong: if_cong)
  apply (simp add: Zip64EndOfCentralDirectoryRecord_Size_def
      Zip64EndOfCentralDirectoryRecord_GetTotalNumberOfEntries_def
      split del: if_split cong: if_cong)
  done

lemma Zip64EndOfCentralDirectoryRecord_Read_success:
  assumes "Zip64EndOfCentralDirectoryRecord_Read r s = Inr (r', s')"
  shows "Z64_Field0 r' = Signatures_Zip64EndOfCD \<and>
     Z64_Field1 r' = of_nat (Zip64EndOfCentralDirectoryRecord_Size r') - 12 \<and>
     Z64_Field2 r' = Zip64MinimumVersion \<and> Z64_Field3 r' = Zip64MinimumVersion \<and>
     Z64_Field4 r' = 0 \<and> Z64_Field5 r' = 0 \<and> Z64_Field6 r' \<noteq> 0 \<and>
     Z64_Field7 r' = Z64_Field6 r' \<and>
     Z64_Field8 r' \<noteq> 0 \<and> Z64_Field8 r' \<le> Z64_maxOffset r \<and>
     Z64_Field9 r' \<noteq> 0 \<and> Z64_Field9 r' \<le> Z64_maxOffset r \<and>
     Z64_Field10 r' = [] \<and> Z64_Field10 r = [] \<and> Z64_maxOffset r' = Z64_maxOffset r \<and>
     cursor s' = cursor s + 56 \<and> content s' = content s \<and> cursor s' \<le> length (content s)"
  using assms
  unfolding Zip64EndOfCentralDirectoryRecord_Read_def Zip64EndOfCentralDirectoryRecord_fields_def
    Field2Bytes_def Field4Bytes_def Field8Bytes_def
  apply (elim Read_FieldBase_InrE Read_FieldNBytes_InrE Read_Nil_InrE)
  apply (clarsimp simp: not_less Let_def Zip64EndOfCentralDirectoryRecord_Size_def
      Zip64EndOfCentralDirectoryRecord_GetTotalNumberOfEntries_def split: if_splits)
  done

section \<open>Every stream holds some record\<close>

text \<open>
  The properties below are stated for a stream \<open>StreamBase_at pre (Write x @ rest)\<close>.
  That is every stream with enough bytes ahead of its cursor: any bytes are the
  encoding of the fields they decode to.
\<close>

lemma bytes_cover:
  assumes "w \<le> length bs" and "256 ^ w \<le> (2::nat) ^ LENGTH('a::len)"
  shows "\<exists>(v::'a word) rest. bs = encode_le w (unat v) @ rest \<and> length rest = length bs - w"
proof -
  let ?v = "of_nat (decode_le (take w bs)) :: 'a word"
  have len: "length (take w bs) = w" using assms(1) by simp
  have "decode_le (take w bs) < 256 ^ w"
    using decode_le_bound [of "take w bs"] by (simp only: len)
  with assms(2) have "decode_le (take w bs) < 2 ^ LENGTH('a)" by simp
  then have "unat ?v = decode_le (take w bs)"
    by (simp add: unat_of_nat)
  moreover have "encode_le w (decode_le (take w bs)) = take w bs"
    using encode_decode_le [of "take w bs"] by (simp only: len)
  ultimately have "bs = encode_le w (unat ?v) @ drop w bs" by simp
  moreover have "length (drop w bs) = length bs - w" by simp
  ultimately show ?thesis by blast
qed

lemma bytes_cover16:
  "2 \<le> length bs \<Longrightarrow>
     \<exists>(v::16 word) rest. bs = encode_le 2 (unat v) @ rest \<and> length rest = length bs - 2"
  by (rule bytes_cover) simp_all

lemma bytes_cover32:
  "4 \<le> length bs \<Longrightarrow>
     \<exists>(v::32 word) rest. bs = encode_le 4 (unat v) @ rest \<and> length rest = length bs - 4"
  by (rule bytes_cover) simp_all

lemma bytes_cover64:
  "8 \<le> length bs \<Longrightarrow>
     \<exists>(v::64 word) rest. bs = encode_le 8 (unat v) @ rest \<and> length rest = length bs - 8"
  by (rule bytes_cover) simp_all

lemma EndCentralDirectoryRecord_Write_cover:
  assumes "22 \<le> length bs"
  shows "\<exists>x rest. bs = EndCentralDirectoryRecord_Write x @ rest \<and> EOCD_Field8 x = []"
proof -
  have "4 \<le> length bs" using assms by simp
  from bytes_cover32 [OF this] obtain v0 b0
    where e0: "bs = encode_le 4 (unat (v0::32 word)) @ b0" and l0: "length b0 = length bs - 4"
    by blast
  have n0: "18 \<le> length b0" using l0 assms by simp
  have "2 \<le> length b0" using n0 by simp
  from bytes_cover16 [OF this] obtain v1 b1
    where e1: "b0 = encode_le 2 (unat (v1::16 word)) @ b1" and l1: "length b1 = length b0 - 2"
    by blast
  have n1: "16 \<le> length b1" using l1 n0 by simp
  have "2 \<le> length b1" using n1 by simp
  from bytes_cover16 [OF this] obtain v2 b2
    where e2: "b1 = encode_le 2 (unat (v2::16 word)) @ b2" and l2: "length b2 = length b1 - 2"
    by blast
  have n2: "14 \<le> length b2" using l2 n1 by simp
  have "2 \<le> length b2" using n2 by simp
  from bytes_cover16 [OF this] obtain v3 b3
    where e3: "b2 = encode_le 2 (unat (v3::16 word)) @ b3" and l3: "length b3 = length b2 - 2"
    by blast
  have n3: "12 \<le> length b3" using l3 n2 by simp
  have "2 \<le> length b3" using n3 by simp
  from bytes_cover16 [OF this] obtain v4 b4
    where e4: "b3 = encode_le 2 (unat (v4::16 word)) @ b4" and l4: "length b4 = length b3 - 2"
    by blast
  have n4: "10 \<le> length b4" using l4 n3 by simp
  have "4 \<le> length b4" using n4 by simp
  from bytes_cover32 [OF this] obtain v5 b5
    where e5: "b4 = encode_le 4 (unat (v5::32 word)) @ b5" and l5: "length b5 = length b4 - 4"
    by blast
  have n5: "6 \<le> length b5" using l5 n4 by simp
  have "4 \<le> length b5" using n5 by simp
  from bytes_cover32 [OF this] obtain v6 b6
    where e6: "b5 = encode_le 4 (unat (v6::32 word)) @ b6" and l6: "length b6 = length b5 - 4"
    by blast
  have n6: "2 \<le> length b6" using l6 n5 by simp
  have "2 \<le> length b6" using n6 by simp
  from bytes_cover16 [OF this] obtain v7 b7
    where e7: "b6 = encode_le 2 (unat (v7::16 word)) @ b7" and l7: "length b7 = length b6 - 2"
    by blast
  have n7: "0 \<le> length b7" using l7 n6 by simp
  let ?x = "\<lparr> EOCD_Field0 = v0, EOCD_Field1 = v1, EOCD_Field2 = v2, EOCD_Field3 = v3,
              EOCD_Field4 = v4, EOCD_Field5 = v5, EOCD_Field6 = v6, EOCD_Field7 = v7,
              EOCD_Field8 = [] \<rparr>"
  have "bs = EndCentralDirectoryRecord_Write ?x @ b7"
    by (simp add: EndCentralDirectoryRecord_Write_fields e0 e1 e2 e3 e4 e5 e6 e7)
  moreover have "EOCD_Field8 ?x = []" by simp
  ultimately show ?thesis by blast
qed

lemma EndCentralDirectoryRecord_stream_cover:
  assumes "cursor s + 22 \<le> length (content s)"
  shows "\<exists>pre x rest. s = StreamBase_at pre (EndCentralDirectoryRecord_Write x @ rest)"
proof -
  from assms have "22 \<le> length (drop (cursor s) (content s))" by simp
  from EndCentralDirectoryRecord_Write_cover [OF this] obtain x rest
    where "drop (cursor s) (content s) = EndCentralDirectoryRecord_Write x @ rest" by blast
  with StreamBase_at_cover [of s] assms
  have "s = StreamBase_at (take (cursor s) (content s)) (EndCentralDirectoryRecord_Write x @ rest)"
    by simp
  then show ?thesis by blast
qed

lemma Zip64EndOfCentralDirectoryLocator_Write_cover:
  assumes "20 \<le> length bs"
  shows "\<exists>x rest. bs = Zip64EndOfCentralDirectoryLocator_Write x @ rest"
proof -
  have "4 \<le> length bs" using assms by simp
  from bytes_cover32 [OF this] obtain v0 b0
    where e0: "bs = encode_le 4 (unat (v0::32 word)) @ b0" and l0: "length b0 = length bs - 4"
    by blast
  have n0: "16 \<le> length b0" using l0 assms by simp
  have "4 \<le> length b0" using n0 by simp
  from bytes_cover32 [OF this] obtain v1 b1
    where e1: "b0 = encode_le 4 (unat (v1::32 word)) @ b1" and l1: "length b1 = length b0 - 4"
    by blast
  have n1: "12 \<le> length b1" using l1 n0 by simp
  have "8 \<le> length b1" using n1 by simp
  from bytes_cover64 [OF this] obtain v2 b2
    where e2: "b1 = encode_le 8 (unat (v2::64 word)) @ b2" and l2: "length b2 = length b1 - 8"
    by blast
  have n2: "4 \<le> length b2" using l2 n1 by simp
  have "4 \<le> length b2" using n2 by simp
  from bytes_cover32 [OF this] obtain v3 b3
    where e3: "b2 = encode_le 4 (unat (v3::32 word)) @ b3" and l3: "length b3 = length b2 - 4"
    by blast
  have n3: "0 \<le> length b3" using l3 n2 by simp
  let ?x = "\<lparr> Z64L_Field0 = v0, Z64L_Field1 = v1, Z64L_Field2 = v2, Z64L_Field3 = v3,
              Z64L_maxOffset = 0 \<rparr>"
  have "bs = Zip64EndOfCentralDirectoryLocator_Write ?x @ b3"
    by (simp add: Zip64EndOfCentralDirectoryLocator_Write_fields e0 e1 e2 e3)
  then show ?thesis by blast
qed

lemma Zip64EndOfCentralDirectoryLocator_stream_cover:
  assumes "cursor s + 20 \<le> length (content s)"
  shows "\<exists>pre x rest. s = StreamBase_at pre (Zip64EndOfCentralDirectoryLocator_Write x @ rest)"
proof -
  from assms have "20 \<le> length (drop (cursor s) (content s))" by simp
  from Zip64EndOfCentralDirectoryLocator_Write_cover [OF this] obtain x rest
    where "drop (cursor s) (content s) = Zip64EndOfCentralDirectoryLocator_Write x @ rest" by blast
  with StreamBase_at_cover [of s] assms
  have "s = StreamBase_at (take (cursor s) (content s))
              (Zip64EndOfCentralDirectoryLocator_Write x @ rest)"
    by simp
  then show ?thesis by blast
qed

lemma Zip64EndOfCentralDirectoryRecord_Write_cover:
  assumes "56 \<le> length bs"
  shows "\<exists>x rest. bs = Zip64EndOfCentralDirectoryRecord_Write x @ rest \<and> Z64_Field10 x = []"
proof -
  have "4 \<le> length bs" using assms by simp
  from bytes_cover32 [OF this] obtain v0 b0
    where e0: "bs = encode_le 4 (unat (v0::32 word)) @ b0" and l0: "length b0 = length bs - 4"
    by blast
  have n0: "52 \<le> length b0" using l0 assms by simp
  have "8 \<le> length b0" using n0 by simp
  from bytes_cover64 [OF this] obtain v1 b1
    where e1: "b0 = encode_le 8 (unat (v1::64 word)) @ b1" and l1: "length b1 = length b0 - 8"
    by blast
  have n1: "44 \<le> length b1" using l1 n0 by simp
  have "2 \<le> length b1" using n1 by simp
  from bytes_cover16 [OF this] obtain v2 b2
    where e2: "b1 = encode_le 2 (unat (v2::16 word)) @ b2" and l2: "length b2 = length b1 - 2"
    by blast
  have n2: "42 \<le> length b2" using l2 n1 by simp
  have "2 \<le> length b2" using n2 by simp
  from bytes_cover16 [OF this] obtain v3 b3
    where e3: "b2 = encode_le 2 (unat (v3::16 word)) @ b3" and l3: "length b3 = length b2 - 2"
    by blast
  have n3: "40 \<le> length b3" using l3 n2 by simp
  have "4 \<le> length b3" using n3 by simp
  from bytes_cover32 [OF this] obtain v4 b4
    where e4: "b3 = encode_le 4 (unat (v4::32 word)) @ b4" and l4: "length b4 = length b3 - 4"
    by blast
  have n4: "36 \<le> length b4" using l4 n3 by simp
  have "4 \<le> length b4" using n4 by simp
  from bytes_cover32 [OF this] obtain v5 b5
    where e5: "b4 = encode_le 4 (unat (v5::32 word)) @ b5" and l5: "length b5 = length b4 - 4"
    by blast
  have n5: "32 \<le> length b5" using l5 n4 by simp
  have "8 \<le> length b5" using n5 by simp
  from bytes_cover64 [OF this] obtain v6 b6
    where e6: "b5 = encode_le 8 (unat (v6::64 word)) @ b6" and l6: "length b6 = length b5 - 8"
    by blast
  have n6: "24 \<le> length b6" using l6 n5 by simp
  have "8 \<le> length b6" using n6 by simp
  from bytes_cover64 [OF this] obtain v7 b7
    where e7: "b6 = encode_le 8 (unat (v7::64 word)) @ b7" and l7: "length b7 = length b6 - 8"
    by blast
  have n7: "16 \<le> length b7" using l7 n6 by simp
  have "8 \<le> length b7" using n7 by simp
  from bytes_cover64 [OF this] obtain v8 b8
    where e8: "b7 = encode_le 8 (unat (v8::64 word)) @ b8" and l8: "length b8 = length b7 - 8"
    by blast
  have n8: "8 \<le> length b8" using l8 n7 by simp
  have "8 \<le> length b8" using n8 by simp
  from bytes_cover64 [OF this] obtain v9 b9
    where e9: "b8 = encode_le 8 (unat (v9::64 word)) @ b9" and l9: "length b9 = length b8 - 8"
    by blast
  have n9: "0 \<le> length b9" using l9 n8 by simp
  let ?x = "\<lparr> Z64_Field0 = v0, Z64_Field1 = v1, Z64_Field2 = v2, Z64_Field3 = v3,
              Z64_Field4 = v4, Z64_Field5 = v5, Z64_Field6 = v6, Z64_Field7 = v7,
              Z64_Field8 = v8, Z64_Field9 = v9, Z64_Field10 = [], Z64_maxOffset = 0 \<rparr>"
  have "bs = Zip64EndOfCentralDirectoryRecord_Write ?x @ b9"
    by (simp add: Zip64EndOfCentralDirectoryRecord_Write_fields e0 e1 e2 e3 e4 e5 e6 e7 e8 e9)
  moreover have "Z64_Field10 ?x = []" by simp
  ultimately show ?thesis by blast
qed

lemma Zip64EndOfCentralDirectoryRecord_stream_cover:
  assumes "cursor s + 56 \<le> length (content s)"
  shows "\<exists>pre x rest. s = StreamBase_at pre (Zip64EndOfCentralDirectoryRecord_Write x @ rest)"
proof -
  from assms have "56 \<le> length (drop (cursor s) (content s))" by simp
  from Zip64EndOfCentralDirectoryRecord_Write_cover [OF this] obtain x rest
    where "drop (cursor s) (content s) = Zip64EndOfCentralDirectoryRecord_Write x @ rest" by blast
  with StreamBase_at_cover [of s] assms
  have "s = StreamBase_at (take (cursor s) (content s))
              (Zip64EndOfCentralDirectoryRecord_Write x @ rest)"
    by simp
  then show ?thesis by blast
qed

section \<open>The storage before a read does not matter\<close>

lemma Read_FieldBase_raw:
  fixes c :: "'a::len word \<Rightarrow> 'r \<Rightarrow> bool"
  assumes c: "\<And>v. c v (put v r1) = c v (put v r2)"
    and e: "\<And>v. e v (put v r1) = e v (put v r2)"
    and rest: "\<And>v s'. \<not> c v (put v r2) \<Longrightarrow>
                 StructuredObject_Read fs (put v r1) s' = StructuredObject_Read fs (put v r2) s'"
  shows "StructuredObject_Read
           (FieldBase w get put (\<lambda>v r. if c v r then Inl (e v r) else Inr r) # fs) r1 s =
         StructuredObject_Read
           (FieldBase w get put (\<lambda>v r. if c v r then Inl (e v r) else Inr r) # fs) r2 s"
proof (cases "cursor s + w \<le> length (content s)")
  case False
  then show ?thesis by (simp add: Object_Read_FieldBase)
next
  case True
  let ?v = "of_nat (decode_le (take w (drop (cursor s) (content s)))) :: 'a word"
  show ?thesis
  proof (cases "c ?v (put ?v r2)")
    case True
    with \<open>cursor s + w \<le> length (content s)\<close> c [of ?v] e [of ?v] show ?thesis
      by (simp add: Object_Read_FieldBase)
  next
    case False
    with \<open>cursor s + w \<le> length (content s)\<close> c [of ?v] rest [OF False] show ?thesis
      by (simp add: Object_Read_FieldBase)
  qed
qed

lemma EndCentralDirectoryRecord_Read_raw:
  assumes "EOCD_Field8 r1 = EOCD_Field8 r2"
  shows "EndCentralDirectoryRecord_Read r1 s = EndCentralDirectoryRecord_Read r2 s"
proof -
  obtain a0 a1 a2 a3 a4 a5 a6 a7 a8 where r1: "r1 = \<lparr>EOCD_Field0 = a0, EOCD_Field1 = a1,
    EOCD_Field2 = a2, EOCD_Field3 = a3, EOCD_Field4 = a4, EOCD_Field5 = a5, EOCD_Field6 = a6,
    EOCD_Field7 = a7, EOCD_Field8 = a8\<rparr>"
    by (cases r1) simp
  obtain b0 b1 b2 b3 b4 b5 b6 b7 b8 where r2: "r2 = \<lparr>EOCD_Field0 = b0, EOCD_Field1 = b1,
    EOCD_Field2 = b2, EOCD_Field3 = b3, EOCD_Field4 = b4, EOCD_Field5 = b5, EOCD_Field6 = b6,
    EOCD_Field7 = b7, EOCD_Field8 = b8\<rparr>"
    by (cases r2) simp
  from assms have e: "a8 = b8" by (simp add: r1 r2)
  show ?thesis
    unfolding EndCentralDirectoryRecord_Read_def EndCentralDirectoryRecord_fields_def
      Field2Bytes_def Field4Bytes_def r1 r2 e
    apply (rule Read_FieldBase_raw, rule refl, rule refl)+
    apply (simp add: Object_Read_FieldNBytes)
    done
qed

lemma Zip64EndOfCentralDirectoryLocator_Read_raw:
  assumes "Z64L_maxOffset r1 = Z64L_maxOffset r2"
  shows "Zip64EndOfCentralDirectoryLocator_Read r1 s = Zip64EndOfCentralDirectoryLocator_Read r2 s"
proof -
  obtain a0 a1 a2 a3 a4 where r1: "r1 = \<lparr>Z64L_Field0 = a0, Z64L_Field1 = a1,
    Z64L_Field2 = a2, Z64L_Field3 = a3, Z64L_maxOffset = a4\<rparr>"
    by (cases r1) simp
  obtain b0 b1 b2 b3 b4 where r2: "r2 = \<lparr>Z64L_Field0 = b0, Z64L_Field1 = b1,
    Z64L_Field2 = b2, Z64L_Field3 = b3, Z64L_maxOffset = b4\<rparr>"
    by (cases r2) simp
  from assms have e: "a4 = b4" by (simp add: r1 r2)
  show ?thesis
    unfolding Zip64EndOfCentralDirectoryLocator_Read_def Zip64EndOfCentralDirectoryLocator_fields_def
      Field4Bytes_def Field8Bytes_def r1 r2 e
    apply (rule Read_FieldBase_raw, simp, rule refl)+
    apply simp
    done
qed

lemma Zip64EndOfCentralDirectoryRecord_Read_raw:
  assumes "Z64_maxOffset r1 = Z64_maxOffset r2" and "Z64_Field10 r1 = Z64_Field10 r2"
  shows "Zip64EndOfCentralDirectoryRecord_Read r1 s = Zip64EndOfCentralDirectoryRecord_Read r2 s"
proof -
  obtain a0 a1 a2 a3 a4 a5 a6 a7 a8 a9 a10 a11 where r1: "r1 = \<lparr>Z64_Field0 = a0, Z64_Field1 = a1,
    Z64_Field2 = a2, Z64_Field3 = a3, Z64_Field4 = a4, Z64_Field5 = a5, Z64_Field6 = a6,
    Z64_Field7 = a7, Z64_Field8 = a8, Z64_Field9 = a9, Z64_Field10 = a10, Z64_maxOffset = a11\<rparr>"
    by (cases r1) simp
  obtain b0 b1 b2 b3 b4 b5 b6 b7 b8 b9 b10 b11 where r2: "r2 = \<lparr>Z64_Field0 = b0, Z64_Field1 = b1,
    Z64_Field2 = b2, Z64_Field3 = b3, Z64_Field4 = b4, Z64_Field5 = b5, Z64_Field6 = b6,
    Z64_Field7 = b7, Z64_Field8 = b8, Z64_Field9 = b9, Z64_Field10 = b10, Z64_maxOffset = b11\<rparr>"
    by (cases r2) simp
  from assms have e: "a11 = b11" "a10 = b10" by (simp_all add: r1 r2)
  show ?thesis
    unfolding Zip64EndOfCentralDirectoryRecord_Read_def Zip64EndOfCentralDirectoryRecord_fields_def
      Field2Bytes_def Field4Bytes_def Field8Bytes_def r1 r2 e Let_def
    apply (rule Read_FieldBase_raw,
        simp add: Zip64EndOfCentralDirectoryRecord_Size_def
          Zip64EndOfCentralDirectoryRecord_GetTotalNumberOfEntries_def, rule refl)+
    apply (simp add: Object_Read_FieldNBytes)
    done
qed

section \<open>What the constructors build\<close>

lemma Zip64EndOfCentralDirectoryRecord_new_fields:
  "Z64_Field0 (Zip64EndOfCentralDirectoryRecord_new raw m) = Signatures_Zip64EndOfCD"
  "Z64_Field1 (Zip64EndOfCentralDirectoryRecord_new raw m) = 44"
  "Z64_Field2 (Zip64EndOfCentralDirectoryRecord_new raw m) = Zip64MinimumVersion"
  "Z64_Field3 (Zip64EndOfCentralDirectoryRecord_new raw m) = Zip64MinimumVersion"
  "Z64_Field4 (Zip64EndOfCentralDirectoryRecord_new raw m) = 0"
  "Z64_Field5 (Zip64EndOfCentralDirectoryRecord_new raw m) = Z64_Field5 raw"
  "Z64_Field6 (Zip64EndOfCentralDirectoryRecord_new raw m) = 0"
  "Z64_Field7 (Zip64EndOfCentralDirectoryRecord_new raw m) = 0"
  "Z64_Field8 (Zip64EndOfCentralDirectoryRecord_new raw m) = Z64_Field8 raw"
  "Z64_Field9 (Zip64EndOfCentralDirectoryRecord_new raw m) = Z64_Field9 raw"
  "Z64_Field10 (Zip64EndOfCentralDirectoryRecord_new raw m) = []"
  "Z64_maxOffset (Zip64EndOfCentralDirectoryRecord_new raw m) = m"
  by (simp_all add: Zip64EndOfCentralDirectoryRecord_new_def Let_def
      Zip64EndOfCentralDirectoryRecord_SetTotalNumberOfEntries_def
      Zip64EndOfCentralDirectoryRecord_Size_def resize_def)

lemma Zip64EndOfCentralDirectoryLocator_new_fields:
  "Z64L_Field0 (Zip64EndOfCentralDirectoryLocator_new raw m) = Signatures_Zip64EndOfCDLocator"
  "Z64L_Field1 (Zip64EndOfCentralDirectoryLocator_new raw m) = 0"
  "Z64L_Field2 (Zip64EndOfCentralDirectoryLocator_new raw m) = Z64L_Field2 raw"
  "Z64L_Field3 (Zip64EndOfCentralDirectoryLocator_new raw m) = 1"
  "Z64L_maxOffset (Zip64EndOfCentralDirectoryLocator_new raw m) = m"
  by (simp_all add: Zip64EndOfCentralDirectoryLocator_new_def)

lemma Zip64EndOfCentralDirectoryLocator_example_fields:
  "Z64L_Field0 (Zip64EndOfCentralDirectoryLocator_example m v) = Signatures_Zip64EndOfCDLocator"
  "Z64L_Field1 (Zip64EndOfCentralDirectoryLocator_example m v) = 0"
  "Z64L_Field2 (Zip64EndOfCentralDirectoryLocator_example m v) = v"
  "Z64L_Field3 (Zip64EndOfCentralDirectoryLocator_example m v) = 1"
  "Z64L_maxOffset (Zip64EndOfCentralDirectoryLocator_example m v) = m"
  by (simp_all add: Zip64EndOfCentralDirectoryLocator_example_def
      Zip64EndOfCentralDirectoryLocator_SetRelativeOffset_def
      Zip64EndOfCentralDirectoryLocator_new_fields)

lemma Zip64EndOfCentralDirectoryRecord_example_fields:
  "Z64_Field0 (Zip64EndOfCentralDirectoryRecord_example m n sz off) = Signatures_Zip64EndOfCD"
  "Z64_Field1 (Zip64EndOfCentralDirectoryRecord_example m n sz off) = 44"
  "Z64_Field2 (Zip64EndOfCentralDirectoryRecord_example m n sz off) = Zip64MinimumVersion"
  "Z64_Field3 (Zip64EndOfCentralDirectoryRecord_example m n sz off) = Zip64MinimumVersion"
  "Z64_Field4 (Zip64EndOfCentralDirectoryRecord_example m n sz off) = 0"
  "Z64_Field5 (Zip64EndOfCentralDirectoryRecord_example m n sz off) = 0"
  "Z64_Field6 (Zip64EndOfCentralDirectoryRecord_example m n sz off) = n"
  "Z64_Field7 (Zip64EndOfCentralDirectoryRecord_example m n sz off) = n"
  "Z64_Field8 (Zip64EndOfCentralDirectoryRecord_example m n sz off) = sz"
  "Z64_Field9 (Zip64EndOfCentralDirectoryRecord_example m n sz off) = off"
  "Z64_Field10 (Zip64EndOfCentralDirectoryRecord_example m n sz off) = []"
  "Z64_maxOffset (Zip64EndOfCentralDirectoryRecord_example m n sz off) = m"
  by (simp_all add: Zip64EndOfCentralDirectoryRecord_example_def
      Zip64EndOfCentralDirectoryRecord_SetOffsetfStartOfCD_def
      Zip64EndOfCentralDirectoryRecord_SetSizeOfCD_def
      Zip64EndOfCentralDirectoryRecord_SetTotalNumberOfEntries_def
      Zip64EndOfCentralDirectoryRecord_new_fields
      Zip64EndOfCentralDirectoryRecord_storage_def)

text \<open>The whole read, on an object whose field 10 is empty, of a record that is valid.\<close>

lemma Zip64EndOfCentralDirectoryRecord_Read_Write_ok:
  assumes "Z64_Field10 r = []"
    and "Z64_Field0 x = Signatures_Zip64EndOfCD" and "Z64_Field1 x = 44"
    and "Z64_Field2 x = Zip64MinimumVersion" and "Z64_Field3 x = Zip64MinimumVersion"
    and "Z64_Field4 x = 0" and "Z64_Field5 x = 0" and "Z64_Field6 x \<noteq> 0"
    and "Z64_Field7 x = Z64_Field6 x"
    and "Z64_Field8 x \<noteq> 0" and "Z64_Field8 x \<le> Z64_maxOffset r"
    and "Z64_Field9 x \<noteq> 0" and "Z64_Field9 x \<le> Z64_maxOffset r"
  shows "Zip64EndOfCentralDirectoryRecord_Read r
     (StreamBase_at pre (Zip64EndOfCentralDirectoryRecord_Write x @ rest)) =
     Inr (r\<lparr>Z64_Field0 := Z64_Field0 x, Z64_Field1 := Z64_Field1 x,
               Z64_Field2 := Z64_Field2 x, Z64_Field3 := Z64_Field3 x,
               Z64_Field4 := Z64_Field4 x, Z64_Field5 := Z64_Field5 x,
               Z64_Field6 := Z64_Field6 x, Z64_Field7 := Z64_Field7 x,
               Z64_Field8 := Z64_Field8 x, Z64_Field9 := Z64_Field9 x\<rparr>,
          StreamBase_at
               (pre @ encode_le 4 (unat (Z64_Field0 x)) @ encode_le 8 (unat (Z64_Field1 x)) @
                encode_le 2 (unat (Z64_Field2 x)) @ encode_le 2 (unat (Z64_Field3 x)) @
                encode_le 4 (unat (Z64_Field4 x)) @ encode_le 4 (unat (Z64_Field5 x)) @
                encode_le 8 (unat (Z64_Field6 x)) @ encode_le 8 (unat (Z64_Field7 x)) @
                encode_le 8 (unat (Z64_Field8 x)) @ encode_le 8 (unat (Z64_Field9 x)))
               (Z64_Field10 x @ rest))"
  apply (simp only: Zip64EndOfCentralDirectoryRecord_Read_Write)
  using assms
  apply (simp add: Object_Read_FieldNBytes_empty not_less [symmetric])
  done

lemma Zip64EndOfCentralDirectoryRecord_example_Read:
  "n \<noteq> 0 \<Longrightarrow> sz \<noteq> 0 \<Longrightarrow> sz \<le> m \<Longrightarrow> off \<noteq> 0 \<Longrightarrow> off \<le> m \<Longrightarrow>
   Zip64EndOfCentralDirectoryRecord_Read
     (Zip64EndOfCentralDirectoryRecord_new Zip64EndOfCentralDirectoryRecord_storage m)
     (StreamBase_at pre
        (Zip64EndOfCentralDirectoryRecord_Write (Zip64EndOfCentralDirectoryRecord_example m' n sz off)
         @ rest)) =
   Inr (Zip64EndOfCentralDirectoryRecord_example m n sz off,
        StreamBase_at
          (pre @ Zip64EndOfCentralDirectoryRecord_Write
                   (Zip64EndOfCentralDirectoryRecord_example m' n sz off)) rest)"
  apply (subst Zip64EndOfCentralDirectoryRecord_Read_Write_ok)
  apply (simp_all add: Zip64EndOfCentralDirectoryRecord_example_fields
      Zip64EndOfCentralDirectoryRecord_new_fields Zip64EndOfCentralDirectoryRecord_Write_fields
      Zip64EndOfCentralDirectoryRecord_example_def
      Zip64EndOfCentralDirectoryRecord_SetOffsetfStartOfCD_def
      Zip64EndOfCentralDirectoryRecord_SetSizeOfCD_def
      Zip64EndOfCentralDirectoryRecord_SetTotalNumberOfEntries_def
      Zip64EndOfCentralDirectoryRecord_new_def Let_def resize_def
      Zip64EndOfCentralDirectoryRecord_Size_def
      Zip64EndOfCentralDirectoryRecord_storage_def)
  done

lemma Zip64EndOfCentralDirectoryLocator_example_Read:
  "v \<le> m \<Longrightarrow>
   Zip64EndOfCentralDirectoryLocator_Read
     (Zip64EndOfCentralDirectoryLocator_new Zip64EndOfCentralDirectoryLocator_storage m)
     (StreamBase_at pre
        (Zip64EndOfCentralDirectoryLocator_Write (Zip64EndOfCentralDirectoryLocator_example m' v)
         @ rest)) =
   Inr (Zip64EndOfCentralDirectoryLocator_example m v,
        StreamBase_at
          (pre @ Zip64EndOfCentralDirectoryLocator_Write
                   (Zip64EndOfCentralDirectoryLocator_example m' v)) rest)"
  apply (simp only: Zip64EndOfCentralDirectoryLocator_Read_Write)
  apply (simp add: Zip64EndOfCentralDirectoryLocator_example_fields
      Zip64EndOfCentralDirectoryLocator_new_fields not_less [symmetric])
  done

section \<open>The bytes of a signature\<close>

lemma signature_bytes:
  assumes "length sg = 4"
  shows "((of_nat (decode_le sg) :: 32 word) = v) = (sg = encode_le 4 (unat v))"
proof
  assume a: "(of_nat (decode_le sg) :: 32 word) = v"
  have "decode_le sg < 256 ^ 4" using decode_le_bound [of sg] assms by simp
  then have "unat (of_nat (decode_le sg) :: 32 word) = decode_le sg"
    by (simp add: unat_of_nat)
  with a have "unat v = decode_le sg" by simp
  with encode_decode_le [of sg] assms show "sg = encode_le 4 (unat v)" by simp
next
  assume "sg = encode_le 4 (unat v)"
  then show "(of_nat (decode_le sg) :: 32 word) = v"
    by (simp add: decode_encode_word32)
qed

lemma Read_signature_mismatch:
  assumes "length sg = 4" and "sg \<noteq> encode_le 4 (unat M)"
  shows "StructuredObject_Read
           (Field4Bytes get put (\<lambda>v r. if v \<noteq> M then Inl e else Inr r) # fs) r
           (StreamBase_at pre (sg @ rest)) = Inl e"
proof -
  have "(of_nat (decode_le sg) :: 32 word) \<noteq> M"
    using assms by (simp add: signature_bytes)
  then show ?thesis
    using assms(1)
    by (simp add: Field4Bytes_def Object_Read_FieldBase StreamBase_at_def)
qed

lemma encode_le_bytes4:
  assumes "decode_le [a, b, c, d] = n"
  shows "encode_le 4 n = [a, b, c, d]"
proof -
  have len: "length [a, b, c, d] = 4" by simp
  have "encode_le (length [a, b, c, d]) (decode_le [a, b, c, d]) = [a, b, c, d]"
    by (rule encode_decode_le)
  then show ?thesis
    unfolding len assms .
qed

lemma Signatures_bytes:
  "encode_le 4 (unat Signatures_LocalFileHeader) = [0x50, 0x4b, 0x03, 0x04]"
  "encode_le 4 (unat Signatures_CentralFileHeader) = [0x50, 0x4b, 0x01, 0x02]"
  "encode_le 4 (unat Signatures_Zip64EndOfCD) = [0x50, 0x4b, 0x06, 0x06]"
  "encode_le 4 (unat Signatures_Zip64EndOfCDLocator) = [0x50, 0x4b, 0x06, 0x07]"
  "encode_le 4 (unat Signatures_EndOfCentralDirectory) = [0x50, 0x4b, 0x05, 0x06]"
  by (rule encode_le_bytes4,
      simp add: Signatures_LocalFileHeader_def Signatures_CentralFileHeader_def
        Signatures_Zip64EndOfCD_def Signatures_Zip64EndOfCDLocator_def
        Signatures_EndOfCentralDirectory_def)+

section \<open>The steps of ZipStream::Read\<close>

lemma StreamBase_eqI:
  fixes s s' :: StreamBase
  shows "content s' = content s \<Longrightarrow> cursor s' = c \<Longrightarrow> s' = s\<lparr>cursor := c\<rparr>"
  by simp

lemma Seek_END_22:
  "22 \<le> length (content s) \<Longrightarrow>
     Seek (- 22) END s = Inr (s\<lparr>cursor := length (content s) - 22\<rparr>)"
  by (simp add: Seek_def nat_diff_distrib')

lemma Seek_END_42:
  "42 \<le> length (content s) \<Longrightarrow>
     Seek (- 42) END s = Inr (s\<lparr>cursor := length (content s) - 42\<rparr>)"
  by (simp add: Seek_def nat_diff_distrib')

lemma ZipStream_Read_steps:
  fixes zs :: "'v ZipStream"
  assumes L: "42 \<le> length (content (stream zs))"
  shows "ZipStream_Read zs =
    (case EndCentralDirectoryRecord_Read
            (EndCentralDirectoryRecord_new EndCentralDirectoryRecord_storage)
            ((stream zs)\<lparr>cursor := length (content (stream zs)) - 22\<rparr>) of
       Inl e \<Rightarrow> Inl e
     | Inr (endCentralDirectoryRecord, s2) \<Rightarrow>
    (case Zip64EndOfCentralDirectoryLocator_Read
            (Zip64EndOfCentralDirectoryLocator_new Zip64EndOfCentralDirectoryLocator_storage
               (of_nat (length (content (stream zs)) - 22)))
            ((stream zs)\<lparr>cursor := length (content (stream zs)) - 42\<rparr>) of
       Inl e \<Rightarrow> Inl e
     | Inr (zip64Locator, s4) \<Rightarrow>
    (case Seek (Zip64EndOfCentralDirectoryLocator_GetRelativeOffset zip64Locator) START
            ((stream zs)\<lparr>cursor := length (content (stream zs)) - 22\<rparr>) of
       Inl e \<Rightarrow> Inl e
     | Inr s5 \<Rightarrow>
    (case Zip64EndOfCentralDirectoryRecord_Read
            (Zip64EndOfCentralDirectoryRecord_new Zip64EndOfCentralDirectoryRecord_storage
               (of_nat (length (content (stream zs)) - 42))) s5 of
       Inl e \<Rightarrow> Inl e
     | Inr (zip64EndOfCentralDirectory, s6) \<Rightarrow> Inr (zs\<lparr>stream := s6\<rparr>)))))"
proof -
  let ?s = "stream zs"
  let ?L = "length (content ?s)"
  let ?e0 = "EndCentralDirectoryRecord_new EndCentralDirectoryRecord_storage"
  have L22: "22 \<le> ?L" using L by simp
  have size0: "EndCentralDirectoryRecord_Size ?e0 = 22"
    by (simp add: EndCentralDirectoryRecord_Size_eq EndCentralDirectoryRecord_new_def)
  show ?thesis
  proof (cases "EndCentralDirectoryRecord_Read ?e0 (?s\<lparr>cursor := ?L - 22\<rparr>)")
    case (Inl e)
    then show ?thesis
      by (simp add: ZipStream_Read_def Let_def size0 Seek_END_22 [OF L22])
  next
    case (Inr p)
    obtain eocd s2 where p: "p = (eocd, s2)" by (cases p)
    note r1 = Inr [unfolded p]
    from EndCentralDirectoryRecord_Read_success [OF r1] L22
    have f8: "EOCD_Field8 eocd = []" and c2: "cursor s2 = ?L" and k2: "content s2 = content ?s"
      by simp_all
    have size1: "EndCentralDirectoryRecord_Size eocd = 22"
      by (simp add: EndCentralDirectoryRecord_Size_eq f8)
    have s2: "s2 = ?s\<lparr>cursor := ?L\<rparr>"
      by (rule StreamBase_eqI [OF k2 c2])
    have tell2: "Ftell s2 - 22 = of_nat (?L - 22)"
      using L22 by (simp add: Ftell_def c2)
    have seek2: "Seek (- 42) END s2 = Inr (?s\<lparr>cursor := ?L - 42\<rparr>)"
      using L by (simp add: Seek_END_42 s2)
    let ?l0 = "Zip64EndOfCentralDirectoryLocator_new Zip64EndOfCentralDirectoryLocator_storage
                 (of_nat (?L - 22))"
    show ?thesis
    proof (cases "Zip64EndOfCentralDirectoryLocator_Read ?l0 (?s\<lparr>cursor := ?L - 42\<rparr>)")
      case (Inl e)
      then show ?thesis
        using r1
        by (simp add: ZipStream_Read_def Let_def size0 Seek_END_22 [OF L22] size1 tell2 seek2
            Zip64EndOfCentralDirectoryLocator_Size_eq)
    next
      case (Inr q)
      obtain loc s4 where q: "q = (loc, s4)" by (cases q)
      note r2 = Inr [unfolded q]
      from Zip64EndOfCentralDirectoryLocator_Read_success [OF r2] L
      have c4: "cursor s4 = ?L - 22" and k4: "content s4 = content ?s"
        by simp_all
      have s4: "s4 = ?s\<lparr>cursor := ?L - 22\<rparr>"
        by (rule StreamBase_eqI [OF k4 c4])
      have tell4: "Ftell s4 - 20 = of_nat (?L - 42)"
        using L by (simp add: Ftell_def c4)
      show ?thesis
        using r1 r2
        by (simp add: ZipStream_Read_def Let_def size0 Seek_END_22 [OF L22] size1 tell2 seek2
            Zip64EndOfCentralDirectoryLocator_Size_eq tell4 s4 [symmetric]
            cong: sum.case_cong)
    qed
  qed
qed

section \<open>The example archive\<close>

lemma length_LocalFileHeader_Write:
  "length (LocalFileHeader_Write x) = 30 + length (LFH_Field11 x) + length (LFH_Field12 x)"
  unfolding LocalFileHeader_Write_def LocalFileHeader_fields_def Field2Bytes_def Field4Bytes_def
  by (simp add: Object_Write_FieldBase Object_Write_FieldNBytes)

lemma length_CentralFileHeader_Write:
  "length (CentralFileHeader_Write x) =
     46 + length (CFH_Field17 x) + length (CFH_Field18 x) + length (CFH_Field19 x)"
  unfolding CentralFileHeader_Write_def CentralFileHeader_fields_def Field2Bytes_def Field4Bytes_def
  by (simp add: Object_Write_FieldBase Object_Write_FieldNBytes)

lemma length_EndCentralDirectoryRecord_Write:
  "length (EndCentralDirectoryRecord_Write x) = 22 + length (EOCD_Field8 x)"
  by (simp add: EndCentralDirectoryRecord_Write_fields)

lemma length_Zip64EndOfCentralDirectoryLocator_Write:
  "length (Zip64EndOfCentralDirectoryLocator_Write x) = 20"
  by (simp add: Zip64EndOfCentralDirectoryLocator_Write_fields)

lemma CentralFileHeader_example_name:
  "CentralFileHeader_GetFileName (CentralFileHeader_example name) = name"
  "CFH_Field17 (CentralFileHeader_example name) = bytes_of_string name"
  "CFH_Field18 (CentralFileHeader_example name) = []"
  "CFH_Field19 (CentralFileHeader_example name) = []"
  by (simp_all add: CentralFileHeader_example_def CentralFileHeader_SetFileName_def
      CentralFileHeader_SetFileNameLength_def CentralFileHeader_GetFileName_def
      CentralFileHeader_new_def Let_def string_of_bytes_of_string)

lemma example_archive_prefix_length:
  "length (LocalFileHeader_Write (LocalFileHeader_example ''a'') @
           CentralFileHeader_Write (CentralFileHeader_example ''a'')) = 78"
  by (simp add: length_LocalFileHeader_Write length_CentralFileHeader_Write
      CentralFileHeader_example_name length_bytes_of_string)
     (simp add: LocalFileHeader_example_def LocalFileHeader_new_def length_bytes_of_string)

lemma length_example_archive:
  "length (example_archive ''a'' off n sz cd) = 176"
  using example_archive_prefix_length
  by (simp add: example_archive_def length_Zip64EndOfCentralDirectoryRecord_Write
      Zip64EndOfCentralDirectoryRecord_Size_def Zip64EndOfCentralDirectoryRecord_example_fields
      length_Zip64EndOfCentralDirectoryLocator_Write length_EndCentralDirectoryRecord_Write
      EndCentralDirectoryRecord_new_def)

lemma example_archive_at_154:
  "(stream (ZipStream_on (example_archive ''a'' off n sz cd)))\<lparr>cursor := 154\<rparr> =
     StreamBase_at
       ((LocalFileHeader_Write (LocalFileHeader_example ''a'') @
         CentralFileHeader_Write (CentralFileHeader_example ''a'')) @
        Zip64EndOfCentralDirectoryRecord_Write (Zip64EndOfCentralDirectoryRecord_example 0 n sz cd) @
        Zip64EndOfCentralDirectoryLocator_Write (Zip64EndOfCentralDirectoryLocator_example 0 off))
       (EndCentralDirectoryRecord_Write
          (EndCentralDirectoryRecord_new EndCentralDirectoryRecord_storage) @ [])"
  using example_archive_prefix_length
  by (simp add: ZipStream_on_def StreamBase_at_def example_archive_def
      length_Zip64EndOfCentralDirectoryRecord_Write
      Zip64EndOfCentralDirectoryRecord_Size_def Zip64EndOfCentralDirectoryRecord_example_fields
      length_Zip64EndOfCentralDirectoryLocator_Write)

lemma example_archive_at_176:
  "(stream (ZipStream_on (example_archive ''a'' off n sz cd)))\<lparr>cursor := 176\<rparr> =
     StreamBase_at
       (((LocalFileHeader_Write (LocalFileHeader_example ''a'') @
          CentralFileHeader_Write (CentralFileHeader_example ''a'')) @
         Zip64EndOfCentralDirectoryRecord_Write (Zip64EndOfCentralDirectoryRecord_example 0 n sz cd) @
         Zip64EndOfCentralDirectoryLocator_Write (Zip64EndOfCentralDirectoryLocator_example 0 off)) @
        EndCentralDirectoryRecord_Write
          (EndCentralDirectoryRecord_new EndCentralDirectoryRecord_storage))
       []"
  using example_archive_prefix_length
  by (simp add: ZipStream_on_def StreamBase_at_def example_archive_def
      length_Zip64EndOfCentralDirectoryRecord_Write
      Zip64EndOfCentralDirectoryRecord_Size_def Zip64EndOfCentralDirectoryRecord_example_fields
      length_Zip64EndOfCentralDirectoryLocator_Write length_EndCentralDirectoryRecord_Write
      EndCentralDirectoryRecord_new_def)

lemma example_archive_at_134:
  "(stream (ZipStream_on (example_archive ''a'' off n sz cd)))\<lparr>cursor := 134\<rparr> =
     StreamBase_at
       ((LocalFileHeader_Write (LocalFileHeader_example ''a'') @
         CentralFileHeader_Write (CentralFileHeader_example ''a'')) @
        Zip64EndOfCentralDirectoryRecord_Write (Zip64EndOfCentralDirectoryRecord_example 0 n sz cd))
       (Zip64EndOfCentralDirectoryLocator_Write (Zip64EndOfCentralDirectoryLocator_example 0 off) @
        EndCentralDirectoryRecord_Write
          (EndCentralDirectoryRecord_new EndCentralDirectoryRecord_storage))"
  using example_archive_prefix_length
  by (simp add: ZipStream_on_def StreamBase_at_def example_archive_def
      length_Zip64EndOfCentralDirectoryRecord_Write
      Zip64EndOfCentralDirectoryRecord_Size_def Zip64EndOfCentralDirectoryRecord_example_fields)

lemma example_archive_at_78:
  "(stream (ZipStream_on (example_archive ''a'' off n sz cd)))\<lparr>cursor := 78\<rparr> =
     StreamBase_at
       (LocalFileHeader_Write (LocalFileHeader_example ''a'') @
        CentralFileHeader_Write (CentralFileHeader_example ''a''))
       (Zip64EndOfCentralDirectoryRecord_Write (Zip64EndOfCentralDirectoryRecord_example 0 n sz cd) @
        Zip64EndOfCentralDirectoryLocator_Write (Zip64EndOfCentralDirectoryLocator_example 0 off) @
        EndCentralDirectoryRecord_Write
          (EndCentralDirectoryRecord_new EndCentralDirectoryRecord_storage))"
  using example_archive_prefix_length
  by (simp add: ZipStream_on_def StreamBase_at_def example_archive_def)

lemma Zip64_Read_at_EndOfCentralDirectory:
  "Zip64EndOfCentralDirectoryRecord_Read r
     (StreamBase_at pre (encode_le 4 (unat Signatures_EndOfCentralDirectory) @ rest)) =
   Inl (ZipException ''end of zip64 central directory does not match signature'' InvalidHeader)"
  unfolding Zip64EndOfCentralDirectoryRecord_Read_def Zip64EndOfCentralDirectoryRecord_fields_def
  by (rule Read_signature_mismatch) (simp_all add: Signatures_bytes)

lemma Seek_START_example_archive:
  "Seek 78 START ((stream (ZipStream_on (example_archive ''a'' off n sz cd)))\<lparr>cursor := 154\<rparr>) =
     Inr ((stream (ZipStream_on (example_archive ''a'' off n sz cd)))\<lparr>cursor := 78\<rparr>)"
  "Seek 154 START ((stream (ZipStream_on (example_archive ''a'' off n sz cd)))\<lparr>cursor := 154\<rparr>) =
     Inr ((stream (ZipStream_on (example_archive ''a'' off n sz cd)))\<lparr>cursor := 154\<rparr>)"
  by (simp_all add: Seek_def)

lemma example_archive_Read_EOCD:
  "EndCentralDirectoryRecord_Read
     (EndCentralDirectoryRecord_new EndCentralDirectoryRecord_storage)
     ((stream (ZipStream_on (example_archive ''a'' off n sz cd)))\<lparr>cursor := 154\<rparr>) =
   Inr (EndCentralDirectoryRecord_new EndCentralDirectoryRecord_storage,
        (stream (ZipStream_on (example_archive ''a'' off n sz cd)))\<lparr>cursor := 176\<rparr>)"
  unfolding example_archive_at_154 example_archive_at_176
  by (subst EndCentralDirectoryRecord_Read_new)
     (simp_all add: EndCentralDirectoryRecord_new_def EndCentralDirectoryRecord_storage_def)

lemma example_archive_Read_Locator:
  "off \<le> 154 \<Longrightarrow>
   Zip64EndOfCentralDirectoryLocator_Read
     (Zip64EndOfCentralDirectoryLocator_new Zip64EndOfCentralDirectoryLocator_storage 154)
     ((stream (ZipStream_on (example_archive ''a'' off n sz cd)))\<lparr>cursor := 134\<rparr>) =
   Inr (Zip64EndOfCentralDirectoryLocator_example 154 off,
        (stream (ZipStream_on (example_archive ''a'' off n sz cd)))\<lparr>cursor := 154\<rparr>)"
  unfolding example_archive_at_134 example_archive_at_154
  by (subst Zip64EndOfCentralDirectoryLocator_example_Read) simp_all

lemma example_archive_Read_Zip64:
  assumes "n \<noteq> 0" "sz \<noteq> 0" "sz \<le> 134" "cd \<noteq> 0" "cd \<le> 134"
  shows "Zip64EndOfCentralDirectoryRecord_Read
     (Zip64EndOfCentralDirectoryRecord_new Zip64EndOfCentralDirectoryRecord_storage 134)
     ((stream (ZipStream_on (example_archive ''a'' off n sz cd)))\<lparr>cursor := 78\<rparr>) =
   Inr (Zip64EndOfCentralDirectoryRecord_example 134 n sz cd,
        (stream (ZipStream_on (example_archive ''a'' off n sz cd)))\<lparr>cursor := 134\<rparr>)"
  unfolding example_archive_at_78 example_archive_at_134
  by (rule Zip64EndOfCentralDirectoryRecord_example_Read) (rule assms)+

lemma example_archive_Read_Zip64_size:
  "134 < sz \<Longrightarrow> n \<noteq> 0 \<Longrightarrow>
   Zip64EndOfCentralDirectoryRecord_Read
     (Zip64EndOfCentralDirectoryRecord_new Zip64EndOfCentralDirectoryRecord_storage 134)
     ((stream (ZipStream_on (example_archive ''a'' off n sz cd)))\<lparr>cursor := 78\<rparr>) =
   Inl (ZipException ''invalid size of central directory'' InvalidZip64CentralDirectoryRecord)"
  unfolding example_archive_at_78
  by (simp only: Zip64EndOfCentralDirectoryRecord_Read_Write)
     (simp add: Zip64EndOfCentralDirectoryRecord_example_fields
        Zip64EndOfCentralDirectoryRecord_new_fields)

lemma example_archive_Read_Zip64_at_154:
  "Zip64EndOfCentralDirectoryRecord_Read
     (Zip64EndOfCentralDirectoryRecord_new Zip64EndOfCentralDirectoryRecord_storage 134)
     ((stream (ZipStream_on (example_archive ''a'' off n sz cd)))\<lparr>cursor := 154\<rparr>) =
   Inl (ZipException ''end of zip64 central directory does not match signature'' InvalidHeader)"
  unfolding example_archive_at_154
  by (simp only: EndCentralDirectoryRecord_Write_fields append_assoc)
     (simp add: Zip64_Read_at_EndOfCentralDirectory EndCentralDirectoryRecord_new_def)

lemma length_example_archive_stream:
  "length (content (stream (ZipStream_on (example_archive ''a'' off n sz cd)))) = 176"
  by (simp add: ZipStream_on_def length_example_archive)

text \<open>
  \<^verbatim>\<open>Read\<close> on the example archive, up to the seek to the Zip64 end record: the end
  record is read at 154, the locator at 134 with the bound 154, and the Zip64 end
  record gets the bound 134.
\<close>

lemma ZipStream_Read_example_archive:
  assumes "off \<le> 154"
  shows "ZipStream_Read (ZipStream_on (example_archive ''a'' off n sz cd)) =
    (case Seek off START
            ((stream (ZipStream_on (example_archive ''a'' off n sz cd)))\<lparr>cursor := 154\<rparr>) of
       Inl e \<Rightarrow> Inl e
     | Inr s5 \<Rightarrow>
    (case Zip64EndOfCentralDirectoryRecord_Read
            (Zip64EndOfCentralDirectoryRecord_new Zip64EndOfCentralDirectoryRecord_storage 134) s5 of
       Inl e \<Rightarrow> Inl e
     | Inr (zip64EndOfCentralDirectory, s6) \<Rightarrow>
         Inr ((ZipStream_on (example_archive ''a'' off n sz cd))\<lparr>stream := s6\<rparr>)))"
  by (subst ZipStream_Read_steps)
     (simp_all add: length_example_archive_stream example_archive_Read_EOCD
        example_archive_Read_Locator [OF assms]
        Zip64EndOfCentralDirectoryLocator_GetRelativeOffset_def
        Zip64EndOfCentralDirectoryLocator_example_fields cong: sum.case_cong)

lemma ZipStream_Read_example_archive_ok:
  assumes "n \<noteq> 0" "sz \<noteq> 0" "sz \<le> 134" "cd \<noteq> 0" "cd \<le> 134"
  shows "ZipStream_Read (ZipStream_on (example_archive ''a'' 78 n sz cd)) =
    Inr ((ZipStream_on (example_archive ''a'' 78 n sz cd))
           \<lparr>stream := (stream (ZipStream_on (example_archive ''a'' 78 n sz cd)))\<lparr>cursor := 134\<rparr>\<rparr>)"
  by (subst ZipStream_Read_example_archive)
     (simp_all add: Seek_START_example_archive example_archive_Read_Zip64 [OF assms])

lemma GetFileNames_foldl:
  "foldl (\<lambda>result it. result @ [fst it]) acc xs = acc @ map fst xs"
  by (induction xs arbitrary: acc) simp_all

section \<open>Discovery\<close>

text \<open>
  Claim C4, as the code has it. On a stream of at least 42 bytes, of length \<open>L\<close>,
  \<^verbatim>\<open>ZipStream::Read\<close> does this and nothing else, in this order, stopping at the first
  failure: it reads the EndCentralDirectoryRecord at \<open>L - 22\<close>; it reads the locator at
  \<open>L - 42\<close>, with the bound \<open>L - 22\<close> on the relative offset, which is where the end
  record starts (\<^verbatim>\<open>Ftell()\<close> after the end record was read, minus its size); it seeks
  from the start to the relative offset the locator holds and reads the Zip64 end
  record there, with the bound \<open>L - 42\<close> on the size and the offset of the central
  directory, which is where the locator starts (\<^verbatim>\<open>Ftell()\<close> after the locator was
  read, minus its size).
\<close>

theorem ZipStream_Read_order:
  "42 \<le> length (content (stream zs)) \<Longrightarrow>
   ZipStream_Read zs =
    (case EndCentralDirectoryRecord_Read
            (EndCentralDirectoryRecord_new EndCentralDirectoryRecord_storage)
            ((stream zs)\<lparr>cursor := length (content (stream zs)) - 22\<rparr>) of
       Inl e \<Rightarrow> Inl e
     | Inr (endCentralDirectoryRecord, s2) \<Rightarrow>
    (case Zip64EndOfCentralDirectoryLocator_Read
            (Zip64EndOfCentralDirectoryLocator_new Zip64EndOfCentralDirectoryLocator_storage
               (of_nat (length (content (stream zs)) - 22)))
            ((stream zs)\<lparr>cursor := length (content (stream zs)) - 42\<rparr>) of
       Inl e \<Rightarrow> Inl e
     | Inr (zip64Locator, s4) \<Rightarrow>
    (case Seek (Zip64EndOfCentralDirectoryLocator_GetRelativeOffset zip64Locator) START
            ((stream zs)\<lparr>cursor := length (content (stream zs)) - 22\<rparr>) of
       Inl e \<Rightarrow> Inl e
     | Inr s5 \<Rightarrow>
    (case Zip64EndOfCentralDirectoryRecord_Read
            (Zip64EndOfCentralDirectoryRecord_new Zip64EndOfCentralDirectoryRecord_storage
               (of_nat (length (content (stream zs)) - 42))) s5 of
       Inl e \<Rightarrow> Inl e
     | Inr (zip64EndOfCentralDirectory, s6) \<Rightarrow> Inr (zs\<lparr>stream := s6\<rparr>)))))"
  by (rule ZipStream_Read_steps)

text \<open>The example archive, whose locator holds 78, is read through.\<close>

theorem ZipStream_Read_order_witness:
  "42 \<le> length (content (stream (ZipStream_on (example_archive ''a'' 78 1 47 31))))
   \<and> ZipStream_Read (ZipStream_on (example_archive ''a'' 78 1 47 31)) =
     Inr ((ZipStream_on (example_archive ''a'' 78 1 47 31))
            \<lparr>stream := (stream (ZipStream_on (example_archive ''a'' 78 1 47 31)))\<lparr>cursor := 134\<rparr>\<rparr>)"
proof -
  have z: "Zip64EndOfCentralDirectoryRecord_Read
     (Zip64EndOfCentralDirectoryRecord_new Zip64EndOfCentralDirectoryRecord_storage 134)
     ((stream (ZipStream_on (example_archive ''a'' 78 1 47 31)))\<lparr>cursor := 78\<rparr>) =
   Inr (Zip64EndOfCentralDirectoryRecord_example 134 1 47 31,
        (stream (ZipStream_on (example_archive ''a'' 78 1 47 31)))\<lparr>cursor := 134\<rparr>)"
    by (rule example_archive_Read_Zip64) simp_all
  have l: "Zip64EndOfCentralDirectoryLocator_Read
     (Zip64EndOfCentralDirectoryLocator_new Zip64EndOfCentralDirectoryLocator_storage 154)
     ((stream (ZipStream_on (example_archive ''a'' 78 1 47 31)))\<lparr>cursor := 134\<rparr>) =
   Inr (Zip64EndOfCentralDirectoryLocator_example 154 78,
        (stream (ZipStream_on (example_archive ''a'' 78 1 47 31)))\<lparr>cursor := 154\<rparr>)"
    by (rule example_archive_Read_Locator) simp
  have len: "(42::nat) \<le> length (content (stream (ZipStream_on (example_archive ''a'' 78 1 47 31))))"
    by (simp add: length_example_archive_stream)
  show ?thesis
    using ZipStream_Read_order [OF len]
    by (simp add: length_example_archive_stream example_archive_Read_EOCD l z
        Seek_START_example_archive Zip64EndOfCentralDirectoryLocator_GetRelativeOffset_def
        Zip64EndOfCentralDirectoryLocator_example_fields)
qed

text \<open>
  Claim C4 as stated bounds the locator's offset by the position of the locator,
  \<open>L - 42\<close>, and the fields of the Zip64 end record by the position before the last
  seek, \<open>L - 22\<close>. In the archive of 176 bytes whose locator holds 154, above 134,
  the locator is accepted all the same: the failure is the signature at 154, where
  the end record lies. And a central directory size 140, not above 154, is refused.
\<close>

theorem ZipStream_Read_order_counterexample:
  "length (content (stream (ZipStream_on (example_archive ''a'' 154 1 47 31)))) - 42 = 134
   \<and> Z64L_Field2 (Zip64EndOfCentralDirectoryLocator_example 0 154) > 134
   \<and> ZipStream_Read (ZipStream_on (example_archive ''a'' 154 1 47 31)) =
       Inl (ZipException ''end of zip64 central directory does not match signature'' InvalidHeader)
   \<and> length (content (stream (ZipStream_on (example_archive ''a'' 78 1 140 31)))) - 22 = 154
   \<and> Z64_Field8 (Zip64EndOfCentralDirectoryRecord_example 0 1 140 31) \<le> 154
   \<and> ZipStream_Read (ZipStream_on (example_archive ''a'' 78 1 140 31)) =
       Inl (ZipException ''invalid size of central directory'' InvalidZip64CentralDirectoryRecord)"
proof -
  have a: "ZipStream_Read (ZipStream_on (example_archive ''a'' 154 1 47 31)) =
       Inl (ZipException ''end of zip64 central directory does not match signature'' InvalidHeader)"
    by (subst ZipStream_Read_example_archive)
       (simp_all add: Seek_START_example_archive example_archive_Read_Zip64_at_154)
  have b: "ZipStream_Read (ZipStream_on (example_archive ''a'' 78 1 140 31)) =
       Inl (ZipException ''invalid size of central directory'' InvalidZip64CentralDirectoryRecord)"
    by (subst ZipStream_Read_example_archive)
       (simp_all add: Seek_START_example_archive example_archive_Read_Zip64_size)
  show ?thesis
    by (simp add: a b length_example_archive_stream
        Zip64EndOfCentralDirectoryLocator_example_fields
        Zip64EndOfCentralDirectoryRecord_example_fields)
qed

text \<open>
  Claim C1, as the code has it. \<^verbatim>\<open>ZipStream::Read\<close> ends with the read of the Zip64
  end record: it reads no central file header, and when it succeeds
  \<^verbatim>\<open>containedFiles\<close> is what it was before, so \<^verbatim>\<open>GetFileNames\<close> returns what it
  returned before. \<^verbatim>\<open>GetFileNames\<close> returns the first components of
  \<^verbatim>\<open>containedFiles\<close>, in its order.
\<close>

theorem ZipStream_Read_containedFiles:
  "(ZipStream_Read zs = Inr zs' \<longrightarrow>
      containedFiles zs' = containedFiles zs \<and>
      ZipStream_GetFileNames zs' = ZipStream_GetFileNames zs)
   \<and> ZipStream_GetFileNames zs = map fst (containedFiles zs)"
proof (intro conjI impI)
  assume a: "ZipStream_Read zs = Inr zs'"
  then obtain s6 where "zs' = zs\<lparr>stream := s6\<rparr>"
    by (auto simp: ZipStream_Read_def Let_def split: sum.splits prod.splits)
  then show "containedFiles zs' = containedFiles zs"
    "ZipStream_GetFileNames zs' = ZipStream_GetFileNames zs"
    by (simp_all add: ZipStream_GetFileNames_def)
next
  show "ZipStream_GetFileNames zs = map fst (containedFiles zs)"
    by (simp add: ZipStream_GetFileNames_def GetFileNames_foldl)
qed

text \<open>On the example archive, opened with no contained file: none after the read.\<close>

theorem ZipStream_Read_containedFiles_witness:
  "ZipStream_Read (ZipStream_on (example_archive ''a'' 78 1 47 31)) =
     Inr ((ZipStream_on (example_archive ''a'' 78 1 47 31))
            \<lparr>stream := (stream (ZipStream_on (example_archive ''a'' 78 1 47 31)))\<lparr>cursor := 134\<rparr>\<rparr>)
   \<and> containedFiles ((ZipStream_on (example_archive ''a'' 78 1 47 31))
            \<lparr>stream := (stream (ZipStream_on (example_archive ''a'' 78 1 47 31)))\<lparr>cursor := 134\<rparr>\<rparr>) = []
   \<and> ZipStream_GetFileNames ((ZipStream_on (example_archive ''a'' 78 1 47 31))
            \<lparr>stream := (stream (ZipStream_on (example_archive ''a'' 78 1 47 31)))\<lparr>cursor := 134\<rparr>\<rparr>) = []"
proof -
  have ok: "ZipStream_Read (ZipStream_on (example_archive ''a'' 78 1 47 31)) =
     Inr ((ZipStream_on (example_archive ''a'' 78 1 47 31))
            \<lparr>stream := (stream (ZipStream_on (example_archive ''a'' 78 1 47 31)))\<lparr>cursor := 134\<rparr>\<rparr>)"
    by (rule ZipStream_Read_example_archive_ok) simp_all
  have c: "containedFiles (ZipStream_on (example_archive ''a'' 78 1 47 31)) = []"
    by (simp add: ZipStream_on_def)
  from ZipStream_Read_containedFiles
    [of "ZipStream_on (example_archive ''a'' 78 1 47 31)"
        "(ZipStream_on (example_archive ''a'' 78 1 47 31))
            \<lparr>stream := (stream (ZipStream_on (example_archive ''a'' 78 1 47 31)))\<lparr>cursor := 134\<rparr>\<rparr>"]
  show ?thesis using ok c by simp
qed

text \<open>
  Claim C1 as stated: the example archive is written with a central file header whose
  file name is "a" and an entry count of 1; \<^verbatim>\<open>Read\<close> succeeds on it, and
  \<^verbatim>\<open>GetFileNames\<close> then returns no name.
\<close>

theorem ZipStream_Read_GetFileNames_counterexample:
  "CentralFileHeader_GetFileName (CentralFileHeader_example ''a'') = ''a''
   \<and> Z64_Field6 (Zip64EndOfCentralDirectoryRecord_example 0 1 47 31) = 1
   \<and> ZipStream_Read_GetFileNames (ZipStream_on (example_archive ''a'' 78 1 47 31)) = Inr []
   \<and> [] \<noteq> [''a'']"
proof -
  have ok: "ZipStream_Read (ZipStream_on (example_archive ''a'' 78 1 47 31)) =
     Inr ((ZipStream_on (example_archive ''a'' 78 1 47 31))
            \<lparr>stream := (stream (ZipStream_on (example_archive ''a'' 78 1 47 31)))\<lparr>cursor := 134\<rparr>\<rparr>)"
    by (rule ZipStream_Read_example_archive_ok) simp_all
  have c: "containedFiles (ZipStream_on (example_archive ''a'' 78 1 47 31)) = []"
    by (simp add: ZipStream_on_def)
  show ?thesis
    by (simp add: ZipStream_Read_GetFileNames_def ok ZipStream_GetFileNames_def c
        CentralFileHeader_example_name Zip64EndOfCentralDirectoryRecord_example_fields)
qed

section \<open>Signature mismatch\<close>

text \<open>
  Claim C6, as the code has it. For each of the five records that begin with a
  signature: when the four bytes at the cursor differ from the little-endian bytes of
  the record's magic constant, the read fails at this first field, whatever bytes
  follow and even if none follow, so no later field is decoded. The exception carries
  the code \<^verbatim>\<open>InvalidHeader\<close> for the LocalFileHeader, the CentralFileHeader, the
  Zip64EndOfCentralDirectoryRecord and the Zip64EndOfCentralDirectoryLocator, and the
  code \<^verbatim>\<open>InvalidEndOfCentralDirectoryRecord\<close> for the EndCentralDirectoryRecord.
\<close>

theorem signature_mismatch:
  "length sg = 4 \<longrightarrow>
   (sg \<noteq> [0x50, 0x4b, 0x03, 0x04] \<longrightarrow>
      LocalFileHeader_Read lfh (StreamBase_at pre (sg @ rest)) =
      Inl (ZipException ''file header does not match signature'' InvalidHeader))
   \<and> (sg \<noteq> [0x50, 0x4b, 0x01, 0x02] \<longrightarrow>
      CentralFileHeader_Read cfh (StreamBase_at pre (sg @ rest)) =
      Inl (ZipException ''central file header does not match signature'' InvalidHeader))
   \<and> (sg \<noteq> [0x50, 0x4b, 0x06, 0x06] \<longrightarrow>
      Zip64EndOfCentralDirectoryRecord_Read zr (StreamBase_at pre (sg @ rest)) =
      Inl (ZipException ''end of zip64 central directory does not match signature''
             InvalidHeader))
   \<and> (sg \<noteq> [0x50, 0x4b, 0x06, 0x07] \<longrightarrow>
      Zip64EndOfCentralDirectoryLocator_Read loc (StreamBase_at pre (sg @ rest)) =
      Inl (ZipException ''end of central directory locator does not match signature''
             InvalidHeader))
   \<and> (sg \<noteq> [0x50, 0x4b, 0x05, 0x06] \<longrightarrow>
      EndCentralDirectoryRecord_Read eocd (StreamBase_at pre (sg @ rest)) =
      Inl (ZipException ''invalid signiture'' InvalidEndOfCentralDirectoryRecord))"
proof (intro conjI impI)
  assume len: "length sg = 4"
  {
    assume "sg \<noteq> [0x50, 0x4b, 0x03, 0x04]"
    then have "sg \<noteq> encode_le 4 (unat Signatures_LocalFileHeader)"
      by (simp add: Signatures_bytes)
    then show "LocalFileHeader_Read lfh (StreamBase_at pre (sg @ rest)) =
      Inl (ZipException ''file header does not match signature'' InvalidHeader)"
      unfolding LocalFileHeader_Read_def LocalFileHeader_fields_def
      by (rule Read_signature_mismatch [OF len])
  next
    assume "sg \<noteq> [0x50, 0x4b, 0x01, 0x02]"
    then have "sg \<noteq> encode_le 4 (unat Signatures_CentralFileHeader)"
      by (simp add: Signatures_bytes)
    then show "CentralFileHeader_Read cfh (StreamBase_at pre (sg @ rest)) =
      Inl (ZipException ''central file header does not match signature'' InvalidHeader)"
      unfolding CentralFileHeader_Read_def CentralFileHeader_fields_def
      by (rule Read_signature_mismatch [OF len])
  next
    assume "sg \<noteq> [0x50, 0x4b, 0x06, 0x06]"
    then have "sg \<noteq> encode_le 4 (unat Signatures_Zip64EndOfCD)"
      by (simp add: Signatures_bytes)
    then show "Zip64EndOfCentralDirectoryRecord_Read zr (StreamBase_at pre (sg @ rest)) =
      Inl (ZipException ''end of zip64 central directory does not match signature''
             InvalidHeader)"
      unfolding Zip64EndOfCentralDirectoryRecord_Read_def Zip64EndOfCentralDirectoryRecord_fields_def
      by (rule Read_signature_mismatch [OF len])
  next
    assume "sg \<noteq> [0x50, 0x4b, 0x06, 0x07]"
    then have "sg \<noteq> encode_le 4 (unat Signatures_Zip64EndOfCDLocator)"
      by (simp add: Signatures_bytes)
    then show "Zip64EndOfCentralDirectoryLocator_Read loc (StreamBase_at pre (sg @ rest)) =
      Inl (ZipException ''end of central directory locator does not match signature''
             InvalidHeader)"
      unfolding Zip64EndOfCentralDirectoryLocator_Read_def
        Zip64EndOfCentralDirectoryLocator_fields_def
      by (rule Read_signature_mismatch [OF len])
  next
    assume "sg \<noteq> [0x50, 0x4b, 0x05, 0x06]"
    then have "sg \<noteq> encode_le 4 (unat Signatures_EndOfCentralDirectory)"
      by (simp add: Signatures_bytes)
    then show "EndCentralDirectoryRecord_Read eocd (StreamBase_at pre (sg @ rest)) =
      Inl (ZipException ''invalid signiture'' InvalidEndOfCentralDirectoryRecord)"
      unfolding EndCentralDirectoryRecord_Read_def EndCentralDirectoryRecord_fields_def
      by (rule Read_signature_mismatch [OF len])
  }
qed

text \<open>
  Claim C6 as stated gives one error kind to all five records. The
  EndCentralDirectoryRecord whose first signature byte is 0x51 instead of 0x50 fails
  with the code of its own record, not with \<^verbatim>\<open>InvalidHeader\<close>.
\<close>

theorem signature_mismatch_counterexample:
  "EndCentralDirectoryRecord_Read
     (EndCentralDirectoryRecord_new EndCentralDirectoryRecord_storage)
     (StreamBase_at [] ([0x51, 0x4b, 0x05, 0x06] @ [])) =
   Inl (ZipException ''invalid signiture'' InvalidEndOfCentralDirectoryRecord)
   \<and> InvalidEndOfCentralDirectoryRecord \<noteq> InvalidHeader"
proof -
  have "length [0x51, 0x4b, 0x05, 0x06 :: 8 word] = 4" by simp
  moreover have "[0x51, 0x4b, 0x05, 0x06 :: 8 word] \<noteq>
      encode_le 4 (unat Signatures_EndOfCentralDirectory)"
    by (simp add: Signatures_bytes)
  ultimately have "EndCentralDirectoryRecord_Read
     (EndCentralDirectoryRecord_new EndCentralDirectoryRecord_storage)
     (StreamBase_at [] ([0x51, 0x4b, 0x05, 0x06] @ [])) =
   Inl (ZipException ''invalid signiture'' InvalidEndOfCentralDirectoryRecord)"
    unfolding EndCentralDirectoryRecord_Read_def EndCentralDirectoryRecord_fields_def
    by (rule Read_signature_mismatch)
  then show ?thesis by simp
qed

text \<open>The four bytes 51 4b 05 06 are no signature of any of the five records.\<close>

theorem signature_mismatch_witness:
  "length [0x51, 0x4b, 0x05, 0x06 :: 8 word] = 4
   \<and> LocalFileHeader_Read (LocalFileHeader_new LocalFileHeader_storage)
        (StreamBase_at [] ([0x51, 0x4b, 0x05, 0x06] @ [])) =
      Inl (ZipException ''file header does not match signature'' InvalidHeader)
   \<and> CentralFileHeader_Read (CentralFileHeader_new CentralFileHeader_storage)
        (StreamBase_at [] ([0x51, 0x4b, 0x05, 0x06] @ [])) =
      Inl (ZipException ''central file header does not match signature'' InvalidHeader)
   \<and> Zip64EndOfCentralDirectoryRecord_Read
        (Zip64EndOfCentralDirectoryRecord_new Zip64EndOfCentralDirectoryRecord_storage 134)
        (StreamBase_at [] ([0x51, 0x4b, 0x05, 0x06] @ [])) =
      Inl (ZipException ''end of zip64 central directory does not match signature''
             InvalidHeader)
   \<and> Zip64EndOfCentralDirectoryLocator_Read
        (Zip64EndOfCentralDirectoryLocator_new Zip64EndOfCentralDirectoryLocator_storage 154)
        (StreamBase_at [] ([0x51, 0x4b, 0x05, 0x06] @ [])) =
      Inl (ZipException ''end of central directory locator does not match signature''
             InvalidHeader)
   \<and> EndCentralDirectoryRecord_Read
        (EndCentralDirectoryRecord_new EndCentralDirectoryRecord_storage)
        (StreamBase_at [] ([0x51, 0x4b, 0x05, 0x06] @ [])) =
      Inl (ZipException ''invalid signiture'' InvalidEndOfCentralDirectoryRecord)"
  using signature_mismatch
    [where sg = "[0x51, 0x4b, 0x05, 0x06]" and pre = "[]" and rest = "[]"
       and lfh = "LocalFileHeader_new LocalFileHeader_storage"
       and cfh = "CentralFileHeader_new CentralFileHeader_storage"
       and zr = "Zip64EndOfCentralDirectoryRecord_new Zip64EndOfCentralDirectoryRecord_storage 134"
       and loc = "Zip64EndOfCentralDirectoryLocator_new Zip64EndOfCentralDirectoryLocator_storage 154"
       and eocd = "EndCentralDirectoryRecord_new EndCentralDirectoryRecord_storage"]
  by simp

section \<open>The sentinels and the comment of the EndCentralDirectoryRecord\<close>

text \<open>
  Claim C2. Whatever record \<open>x\<close> the bytes ahead of the cursor encode and whatever
  follows them: when its entry count on this disk (field 3) or its total entry count
  (field 4) is not 0xFFFF, or its size (field 5) or offset (field 6) of the central
  directory is not 0xFFFFFFFF, the read fails with a \<^verbatim>\<open>ZipException\<close> of code
  \<^verbatim>\<open>InvalidEndOfCentralDirectoryRecord\<close>. And on any stream, a read that succeeds
  leaves exactly these sentinel values in the four fields.
\<close>

theorem EndCentralDirectoryRecord_sentinels:
  "(EOCD_Field3 x \<noteq> 0xFFFF \<or> EOCD_Field4 x \<noteq> 0xFFFF \<or>
    EOCD_Field5 x \<noteq> 0xFFFFFFFF \<or> EOCD_Field6 x \<noteq> 0xFFFFFFFF \<longrightarrow>
      (\<exists>msg. EndCentralDirectoryRecord_Read r
                (StreamBase_at pre (EndCentralDirectoryRecord_Write x @ rest)) =
              Inl (ZipException msg InvalidEndOfCentralDirectoryRecord)))
   \<and> (EndCentralDirectoryRecord_Read r s = Inr (r', s') \<longrightarrow>
        EOCD_Field3 r' = 0xFFFF \<and> EOCD_Field4 r' = 0xFFFF \<and>
        EOCD_Field5 r' = 0xFFFFFFFF \<and> EOCD_Field6 r' = 0xFFFFFFFF)"
proof (intro conjI impI)
  assume "EOCD_Field3 x \<noteq> 0xFFFF \<or> EOCD_Field4 x \<noteq> 0xFFFF \<or>
    EOCD_Field5 x \<noteq> 0xFFFFFFFF \<or> EOCD_Field6 x \<noteq> 0xFFFFFFFF"
  then show "\<exists>msg. EndCentralDirectoryRecord_Read r
                (StreamBase_at pre (EndCentralDirectoryRecord_Write x @ rest)) =
              Inl (ZipException msg InvalidEndOfCentralDirectoryRecord)"
    by (simp only: EndCentralDirectoryRecord_Read_Write) auto
next
  assume "EndCentralDirectoryRecord_Read r s = Inr (r', s')"
  from EndCentralDirectoryRecord_Read_success [OF this]
  show "EOCD_Field3 r' = 0xFFFF" "EOCD_Field4 r' = 0xFFFF"
    "EOCD_Field5 r' = 0xFFFFFFFF" "EOCD_Field6 r' = 0xFFFFFFFF"
    by simp_all
qed

text \<open>
  The end record of a well-formed plain ZIP archive is refused at field 3; the record
  the constructor builds is read back, and carries the sentinels.
\<close>

theorem EndCentralDirectoryRecord_sentinels_witness:
  "EOCD_Field3 EndCentralDirectoryRecord_zip32 \<noteq> 0xFFFF
   \<and> EndCentralDirectoryRecord_Read (EndCentralDirectoryRecord_new EndCentralDirectoryRecord_storage)
        (StreamBase_at [] (EndCentralDirectoryRecord_Write EndCentralDirectoryRecord_zip32 @ [])) =
      Inl (ZipException ''unsupported total number of entries on this disk''
             InvalidEndOfCentralDirectoryRecord)
   \<and> EndCentralDirectoryRecord_Read (EndCentralDirectoryRecord_new EndCentralDirectoryRecord_storage)
        (StreamBase_at []
           (EndCentralDirectoryRecord_Write
              (EndCentralDirectoryRecord_new EndCentralDirectoryRecord_storage) @ [])) =
      Inr (EndCentralDirectoryRecord_new EndCentralDirectoryRecord_storage,
           StreamBase_at ([] @ EndCentralDirectoryRecord_Write
              (EndCentralDirectoryRecord_new EndCentralDirectoryRecord_storage)) [])
   \<and> EOCD_Field3 (EndCentralDirectoryRecord_new EndCentralDirectoryRecord_storage) = 0xFFFF
   \<and> EOCD_Field4 (EndCentralDirectoryRecord_new EndCentralDirectoryRecord_storage) = 0xFFFF
   \<and> EOCD_Field5 (EndCentralDirectoryRecord_new EndCentralDirectoryRecord_storage) = 0xFFFFFFFF
   \<and> EOCD_Field6 (EndCentralDirectoryRecord_new EndCentralDirectoryRecord_storage) = 0xFFFFFFFF"
proof -
  let ?r = "EndCentralDirectoryRecord_new EndCentralDirectoryRecord_storage"
  have bad: "EOCD_Field3 EndCentralDirectoryRecord_zip32 \<noteq> 0xFFFF"
    by (simp add: EndCentralDirectoryRecord_zip32_def)
  have fails: "EndCentralDirectoryRecord_Read ?r
        (StreamBase_at [] (EndCentralDirectoryRecord_Write EndCentralDirectoryRecord_zip32 @ [])) =
      Inl (ZipException ''unsupported total number of entries on this disk''
             InvalidEndOfCentralDirectoryRecord)"
    by (simp only: EndCentralDirectoryRecord_Read_Write)
       (simp add: EndCentralDirectoryRecord_zip32_def Signatures_EndOfCentralDirectory_def)
  have ok: "EndCentralDirectoryRecord_Read ?r
        (StreamBase_at [] (EndCentralDirectoryRecord_Write ?r @ [])) =
      Inr (?r, StreamBase_at ([] @ EndCentralDirectoryRecord_Write ?r) [])"
    by (subst EndCentralDirectoryRecord_Read_new)
       (simp_all add: EndCentralDirectoryRecord_new_def EndCentralDirectoryRecord_storage_def)
  from EndCentralDirectoryRecord_sentinels
    [of EndCentralDirectoryRecord_zip32 ?r "[]" "[]"
        "StreamBase_at [] (EndCentralDirectoryRecord_Write ?r @ [])" ?r
        "StreamBase_at ([] @ EndCentralDirectoryRecord_Write ?r) []"]
  show ?thesis using bad fails ok by simp
qed

text \<open>
  Claim C7. When the comment length (field 7) of the encoded record is not 0, the read
  fails with code \<^verbatim>\<open>InvalidEndOfCentralDirectoryRecord\<close>, whatever comment bytes
  \<open>EOCD_Field8 x\<close> and whatever other bytes \<open>rest\<close> follow; when the seven fields before
  it are valid, the failure is the one of the comment rule. A read that succeeds
  leaves comment length 0 and no comment bytes.
\<close>

theorem EndCentralDirectoryRecord_comment:
  "(EOCD_Field7 x \<noteq> 0 \<longrightarrow>
      (\<exists>msg. EndCentralDirectoryRecord_Read r
                (StreamBase_at pre (EndCentralDirectoryRecord_Write x @ rest)) =
              Inl (ZipException msg InvalidEndOfCentralDirectoryRecord)))
   \<and> (EOCD_Field0 x = Signatures_EndOfCentralDirectory \<and> EOCD_Field1 x = 0 \<and> EOCD_Field2 x = 0 \<and>
       EOCD_Field3 x = 0xFFFF \<and> EOCD_Field4 x = 0xFFFF \<and> EOCD_Field5 x = 0xFFFFFFFF \<and>
       EOCD_Field6 x = 0xFFFFFFFF \<and> EOCD_Field7 x \<noteq> 0 \<longrightarrow>
         EndCentralDirectoryRecord_Read r
           (StreamBase_at pre (EndCentralDirectoryRecord_Write x @ rest)) =
         Inl (ZipException ''Zip comment unsupported'' InvalidEndOfCentralDirectoryRecord))
   \<and> (EndCentralDirectoryRecord_Read r s = Inr (r', s') \<longrightarrow>
        EOCD_Field7 r' = 0 \<and> EOCD_Field8 r' = [])"
proof (intro conjI impI)
  assume "EOCD_Field7 x \<noteq> 0"
  then show "\<exists>msg. EndCentralDirectoryRecord_Read r
                (StreamBase_at pre (EndCentralDirectoryRecord_Write x @ rest)) =
              Inl (ZipException msg InvalidEndOfCentralDirectoryRecord)"
    by (simp only: EndCentralDirectoryRecord_Read_Write) auto
next
  assume "EOCD_Field0 x = Signatures_EndOfCentralDirectory \<and> EOCD_Field1 x = 0 \<and> EOCD_Field2 x = 0 \<and>
       EOCD_Field3 x = 0xFFFF \<and> EOCD_Field4 x = 0xFFFF \<and> EOCD_Field5 x = 0xFFFFFFFF \<and>
       EOCD_Field6 x = 0xFFFFFFFF \<and> EOCD_Field7 x \<noteq> 0"
  then show "EndCentralDirectoryRecord_Read r
           (StreamBase_at pre (EndCentralDirectoryRecord_Write x @ rest)) =
         Inl (ZipException ''Zip comment unsupported'' InvalidEndOfCentralDirectoryRecord)"
    by (simp only: EndCentralDirectoryRecord_Read_Write) simp
next
  assume "EndCentralDirectoryRecord_Read r s = Inr (r', s')"
  from EndCentralDirectoryRecord_Read_success [OF this]
  show "EOCD_Field7 r' = 0" "EOCD_Field8 r' = []"
    by simp_all
qed

text \<open>
  The scenario of a comment length 5 with no byte after the record: the comment rule
  refuses it. The record the constructor builds is read back, with comment length 0.
\<close>

theorem EndCentralDirectoryRecord_comment_witness:
  "EOCD_Field7 ((EndCentralDirectoryRecord_new EndCentralDirectoryRecord_storage)\<lparr>EOCD_Field7 := 5\<rparr>) \<noteq> 0
   \<and> EOCD_Field8 ((EndCentralDirectoryRecord_new EndCentralDirectoryRecord_storage)\<lparr>EOCD_Field7 := 5\<rparr>) = []
   \<and> EndCentralDirectoryRecord_Read (EndCentralDirectoryRecord_new EndCentralDirectoryRecord_storage)
        (StreamBase_at []
           (EndCentralDirectoryRecord_Write
              ((EndCentralDirectoryRecord_new EndCentralDirectoryRecord_storage)\<lparr>EOCD_Field7 := 5\<rparr>) @ [])) =
      Inl (ZipException ''Zip comment unsupported'' InvalidEndOfCentralDirectoryRecord)
   \<and> EndCentralDirectoryRecord_Read (EndCentralDirectoryRecord_new EndCentralDirectoryRecord_storage)
        (StreamBase_at [1, 2, 3]
           (EndCentralDirectoryRecord_Write
              (EndCentralDirectoryRecord_new EndCentralDirectoryRecord_storage) @ [])) =
      Inr (EndCentralDirectoryRecord_new EndCentralDirectoryRecord_storage,
           StreamBase_at ([1, 2, 3] @ EndCentralDirectoryRecord_Write
              (EndCentralDirectoryRecord_new EndCentralDirectoryRecord_storage)) [])
   \<and> EOCD_Field7 (EndCentralDirectoryRecord_new EndCentralDirectoryRecord_storage) = 0
   \<and> EOCD_Field8 (EndCentralDirectoryRecord_new EndCentralDirectoryRecord_storage) = []"
proof -
  let ?r = "EndCentralDirectoryRecord_new EndCentralDirectoryRecord_storage"
  let ?x = "?r\<lparr>EOCD_Field7 := 5\<rparr>"
  have x: "EOCD_Field0 ?x = Signatures_EndOfCentralDirectory \<and> EOCD_Field1 ?x = 0 \<and>
       EOCD_Field2 ?x = 0 \<and> EOCD_Field3 ?x = 0xFFFF \<and> EOCD_Field4 ?x = 0xFFFF \<and>
       EOCD_Field5 ?x = 0xFFFFFFFF \<and> EOCD_Field6 ?x = 0xFFFFFFFF \<and> EOCD_Field7 ?x \<noteq> 0"
    by (simp add: EndCentralDirectoryRecord_new_def)
  have x8: "EOCD_Field8 ?x = []"
    by (simp add: EndCentralDirectoryRecord_new_def)
  have ok: "EndCentralDirectoryRecord_Read ?r
        (StreamBase_at [1, 2, 3] (EndCentralDirectoryRecord_Write ?r @ [])) =
      Inr (?r, StreamBase_at ([1, 2, 3] @ EndCentralDirectoryRecord_Write ?r) [])"
    by (subst EndCentralDirectoryRecord_Read_new)
       (simp_all add: EndCentralDirectoryRecord_new_def EndCentralDirectoryRecord_storage_def)
  from EndCentralDirectoryRecord_comment
    [of ?x ?r "[]" "[]"
        "StreamBase_at [1, 2, 3] (EndCentralDirectoryRecord_Write ?r @ [])" ?r
        "StreamBase_at ([1, 2, 3] @ EndCentralDirectoryRecord_Write ?r) []"]
  show ?thesis using x x8 ok by simp
qed

section \<open>The bound \<open>maxOffset\<close>\<close>

text \<open>
  Claim C5. A locator object constructed with the bound \<open>maxOffset\<close> accepts every
  encoded relative offset up to the bound, the bound itself included, and hands it out
  unchanged; an offset above the bound makes the read fail with code
  \<^verbatim>\<open>InvalidZip64CentralDirectoryLocator\<close>. Likewise a Zip64 end record whose size or
  offset of the central directory is above the bound of the reading object fails with
  code \<^verbatim>\<open>InvalidZip64CentralDirectoryRecord\<close>. Nothing is clamped: a read that
  succeeds hands out the size and the offset as they were encoded, and they are within
  the bound.
\<close>

theorem maxOffset_bounds:
  "(Z64L_Field0 x = Signatures_Zip64EndOfCDLocator \<and> Z64L_Field1 x = 0 \<and> Z64L_Field3 x = 1 \<and>
    Z64L_Field2 x \<le> Z64L_maxOffset r \<longrightarrow>
      (\<exists>r' s'. Zip64EndOfCentralDirectoryLocator_Read r
                  (StreamBase_at pre (Zip64EndOfCentralDirectoryLocator_Write x @ rest)) = Inr (r', s')
               \<and> Zip64EndOfCentralDirectoryLocator_GetRelativeOffset r' = Z64L_Field2 x))
   \<and> (Z64L_Field0 x = Signatures_Zip64EndOfCDLocator \<and> Z64L_maxOffset r < Z64L_Field2 x \<longrightarrow>
      (\<exists>msg. Zip64EndOfCentralDirectoryLocator_Read r
                (StreamBase_at pre (Zip64EndOfCentralDirectoryLocator_Write x @ rest)) =
              Inl (ZipException msg InvalidZip64CentralDirectoryLocator)))
   \<and> (Z64_Field0 y = Signatures_Zip64EndOfCD \<and>
       (Z64_maxOffset q < Z64_Field8 y \<or> Z64_maxOffset q < Z64_Field9 y) \<longrightarrow>
      (\<exists>msg. Zip64EndOfCentralDirectoryRecord_Read q
                (StreamBase_at pre' (Zip64EndOfCentralDirectoryRecord_Write y @ rest')) =
              Inl (ZipException msg InvalidZip64CentralDirectoryRecord)))
   \<and> (Zip64EndOfCentralDirectoryRecord_Read q
          (StreamBase_at pre' (Zip64EndOfCentralDirectoryRecord_Write y @ rest')) = Inr (q', t') \<longrightarrow>
        Zip64EndOfCentralDirectoryRecord_GetSizeOfCD q' = Z64_Field8 y \<and>
        Zip64EndOfCentralDirectoryRecord_GetOffsetfStartOfCD q' = Z64_Field9 y)
   \<and> (Zip64EndOfCentralDirectoryRecord_Read q t = Inr (q', t') \<longrightarrow>
        Zip64EndOfCentralDirectoryRecord_GetSizeOfCD q' \<le> Z64_maxOffset q \<and>
        Zip64EndOfCentralDirectoryRecord_GetOffsetfStartOfCD q' \<le> Z64_maxOffset q)"
proof (intro conjI impI)
  assume "Z64L_Field0 x = Signatures_Zip64EndOfCDLocator \<and> Z64L_Field1 x = 0 \<and> Z64L_Field3 x = 1 \<and>
    Z64L_Field2 x \<le> Z64L_maxOffset r"
  then show "\<exists>r' s'. Zip64EndOfCentralDirectoryLocator_Read r
                  (StreamBase_at pre (Zip64EndOfCentralDirectoryLocator_Write x @ rest)) = Inr (r', s')
               \<and> Zip64EndOfCentralDirectoryLocator_GetRelativeOffset r' = Z64L_Field2 x"
    by (simp only: Zip64EndOfCentralDirectoryLocator_Read_Write)
       (simp add: Zip64EndOfCentralDirectoryLocator_GetRelativeOffset_def not_less [symmetric])
next
  assume "Z64L_Field0 x = Signatures_Zip64EndOfCDLocator \<and> Z64L_maxOffset r < Z64L_Field2 x"
  then show "\<exists>msg. Zip64EndOfCentralDirectoryLocator_Read r
                (StreamBase_at pre (Zip64EndOfCentralDirectoryLocator_Write x @ rest)) =
              Inl (ZipException msg InvalidZip64CentralDirectoryLocator)"
    by (simp only: Zip64EndOfCentralDirectoryLocator_Read_Write) simp
next
  assume "Z64_Field0 y = Signatures_Zip64EndOfCD \<and>
       (Z64_maxOffset q < Z64_Field8 y \<or> Z64_maxOffset q < Z64_Field9 y)"
  then show "\<exists>msg. Zip64EndOfCentralDirectoryRecord_Read q
                (StreamBase_at pre' (Zip64EndOfCentralDirectoryRecord_Write y @ rest')) =
              Inl (ZipException msg InvalidZip64CentralDirectoryRecord)"
    by (simp only: Zip64EndOfCentralDirectoryRecord_Read_Write) auto
next
  assume a: "Zip64EndOfCentralDirectoryRecord_Read q
          (StreamBase_at pre' (Zip64EndOfCentralDirectoryRecord_Write y @ rest')) = Inr (q', t')"
  have "Zip64EndOfCentralDirectoryRecord_GetSizeOfCD q' = Z64_Field8 y \<and>
        Zip64EndOfCentralDirectoryRecord_GetOffsetfStartOfCD q' = Z64_Field9 y"
    using a
    apply (simp add: Zip64EndOfCentralDirectoryRecord_Read_Write del: StructuredObject_Read.simps
        split: if_splits)
    apply (erule Read_FieldNBytes_InrE)
    apply (erule Read_Nil_InrE)
    apply (clarsimp simp: Zip64EndOfCentralDirectoryRecord_GetSizeOfCD_def
        Zip64EndOfCentralDirectoryRecord_GetOffsetfStartOfCD_def split: if_splits)
    done
  then show "Zip64EndOfCentralDirectoryRecord_GetSizeOfCD q' = Z64_Field8 y"
    "Zip64EndOfCentralDirectoryRecord_GetOffsetfStartOfCD q' = Z64_Field9 y"
    by simp_all
next
  assume "Zip64EndOfCentralDirectoryRecord_Read q t = Inr (q', t')"
  from Zip64EndOfCentralDirectoryRecord_Read_success [OF this]
  show "Zip64EndOfCentralDirectoryRecord_GetSizeOfCD q' \<le> Z64_maxOffset q"
    "Zip64EndOfCentralDirectoryRecord_GetOffsetfStartOfCD q' \<le> Z64_maxOffset q"
    by (simp_all add: Zip64EndOfCentralDirectoryRecord_GetSizeOfCD_def
        Zip64EndOfCentralDirectoryRecord_GetOffsetfStartOfCD_def)
qed

text \<open>
  With the bound 134: the relative offset 134 is accepted and handed out, 135 is
  refused; a central directory of size 135 is refused, one of size 47 at offset 31 is
  accepted and both values are handed out.
\<close>

theorem maxOffset_bounds_witness:
  "Zip64EndOfCentralDirectoryLocator_Read
     (Zip64EndOfCentralDirectoryLocator_new Zip64EndOfCentralDirectoryLocator_storage 134)
     (StreamBase_at []
        (Zip64EndOfCentralDirectoryLocator_Write (Zip64EndOfCentralDirectoryLocator_example 0 134) @ [])) =
     Inr (Zip64EndOfCentralDirectoryLocator_example 134 134,
          StreamBase_at
            ([] @ Zip64EndOfCentralDirectoryLocator_Write
                    (Zip64EndOfCentralDirectoryLocator_example 0 134)) [])
   \<and> Zip64EndOfCentralDirectoryLocator_GetRelativeOffset
        (Zip64EndOfCentralDirectoryLocator_example 134 134) = 134
   \<and> Zip64EndOfCentralDirectoryLocator_Read
       (Zip64EndOfCentralDirectoryLocator_new Zip64EndOfCentralDirectoryLocator_storage 134)
       (StreamBase_at []
          (Zip64EndOfCentralDirectoryLocator_Write (Zip64EndOfCentralDirectoryLocator_example 0 135) @ [])) =
       Inl (ZipException ''Invalid relative offset'' InvalidZip64CentralDirectoryLocator)
   \<and> Zip64EndOfCentralDirectoryRecord_Read
       (Zip64EndOfCentralDirectoryRecord_new Zip64EndOfCentralDirectoryRecord_storage 134)
       (StreamBase_at []
          (Zip64EndOfCentralDirectoryRecord_Write
             (Zip64EndOfCentralDirectoryRecord_example 0 1 135 31) @ [])) =
       Inl (ZipException ''invalid size of central directory'' InvalidZip64CentralDirectoryRecord)
   \<and> Zip64EndOfCentralDirectoryRecord_Read
       (Zip64EndOfCentralDirectoryRecord_new Zip64EndOfCentralDirectoryRecord_storage 134)
       (StreamBase_at []
          (Zip64EndOfCentralDirectoryRecord_Write
             (Zip64EndOfCentralDirectoryRecord_example 0 1 47 31) @ [])) =
       Inr (Zip64EndOfCentralDirectoryRecord_example 134 1 47 31,
            StreamBase_at
              ([] @ Zip64EndOfCentralDirectoryRecord_Write
                      (Zip64EndOfCentralDirectoryRecord_example 0 1 47 31)) [])
   \<and> Zip64EndOfCentralDirectoryRecord_GetSizeOfCD
        (Zip64EndOfCentralDirectoryRecord_example 134 1 47 31) = 47
   \<and> Zip64EndOfCentralDirectoryRecord_GetOffsetfStartOfCD
        (Zip64EndOfCentralDirectoryRecord_example 134 1 47 31) = 31"
proof -
  let ?r = "Zip64EndOfCentralDirectoryLocator_new Zip64EndOfCentralDirectoryLocator_storage 134"
  let ?q = "Zip64EndOfCentralDirectoryRecord_new Zip64EndOfCentralDirectoryRecord_storage 134"
  let ?y = "Zip64EndOfCentralDirectoryRecord_example 0 1 47 31"
  have l_ok: "Zip64EndOfCentralDirectoryLocator_Read ?r
     (StreamBase_at []
        (Zip64EndOfCentralDirectoryLocator_Write (Zip64EndOfCentralDirectoryLocator_example 0 134) @ [])) =
     Inr (Zip64EndOfCentralDirectoryLocator_example 134 134,
          StreamBase_at
            ([] @ Zip64EndOfCentralDirectoryLocator_Write
                    (Zip64EndOfCentralDirectoryLocator_example 0 134)) [])"
    by (rule Zip64EndOfCentralDirectoryLocator_example_Read) simp
  have z_ok: "Zip64EndOfCentralDirectoryRecord_Read ?q
       (StreamBase_at [] (Zip64EndOfCentralDirectoryRecord_Write ?y @ [])) =
       Inr (Zip64EndOfCentralDirectoryRecord_example 134 1 47 31,
            StreamBase_at ([] @ Zip64EndOfCentralDirectoryRecord_Write ?y) [])"
    by (rule Zip64EndOfCentralDirectoryRecord_example_Read) simp_all
  have l_bad: "Zip64EndOfCentralDirectoryLocator_Read ?r
       (StreamBase_at []
          (Zip64EndOfCentralDirectoryLocator_Write (Zip64EndOfCentralDirectoryLocator_example 0 135) @ [])) =
       Inl (ZipException ''Invalid relative offset'' InvalidZip64CentralDirectoryLocator)"
    by (simp only: Zip64EndOfCentralDirectoryLocator_Read_Write)
       (simp add: Zip64EndOfCentralDirectoryLocator_example_fields
          Zip64EndOfCentralDirectoryLocator_new_fields)
  have z_bad: "Zip64EndOfCentralDirectoryRecord_Read ?q
       (StreamBase_at []
          (Zip64EndOfCentralDirectoryRecord_Write
             (Zip64EndOfCentralDirectoryRecord_example 0 1 135 31) @ [])) =
       Inl (ZipException ''invalid size of central directory'' InvalidZip64CentralDirectoryRecord)"
    by (simp only: Zip64EndOfCentralDirectoryRecord_Read_Write)
       (simp add: Zip64EndOfCentralDirectoryRecord_example_fields
          Zip64EndOfCentralDirectoryRecord_new_fields)
  note a = maxOffset_bounds
    [where x = "Zip64EndOfCentralDirectoryLocator_example 0 134" and r = ?r
       and pre = "[]" and rest = "[]" and y = ?y and q = ?q and pre' = "[]" and rest' = "[]"
       and q' = "Zip64EndOfCentralDirectoryRecord_example 134 1 47 31"
       and t' = "StreamBase_at ([] @ Zip64EndOfCentralDirectoryRecord_Write ?y) []"
       and t = "StreamBase_at [] (Zip64EndOfCentralDirectoryRecord_Write ?y @ [])"]
  note b = maxOffset_bounds
    [where x = "Zip64EndOfCentralDirectoryLocator_example 0 135" and r = ?r
       and pre = "[]" and rest = "[]"
       and y = "Zip64EndOfCentralDirectoryRecord_example 0 1 135 31"
       and q = ?q and pre' = "[]" and rest' = "[]"]
  show ?thesis
    using a b l_ok z_ok l_bad z_bad
    by (simp add: Zip64EndOfCentralDirectoryLocator_example_fields
        Zip64EndOfCentralDirectoryRecord_example_fields
        Zip64EndOfCentralDirectoryLocator_GetRelativeOffset_def
        Zip64EndOfCentralDirectoryRecord_GetSizeOfCD_def
        Zip64EndOfCentralDirectoryRecord_GetOffsetfStartOfCD_def)
qed

section \<open>The Zip64EndOfCentralDirectoryRecord and its own bytes\<close>

text \<open>
  Claim C3. When the signature of the encoded record is right and its size field
  (field 1) is not the size of the reading object minus 12, the read fails at field 1
  with code \<^verbatim>\<open>InvalidZip64CentralDirectoryRecord\<close>; after a read that succeeds, the
  size field is the size of the record minus 12, and the read has consumed that size.
  The constructor stores \<^verbatim>\<open>Size() - 12\<close>: the declared size of a freshly constructed
  record is the length of its serialized bytes minus 12, the size field decoded from
  those bytes is that number, and reading them back does not fail the size check.
\<close>

theorem Zip64EndOfCentralDirectoryRecord_declared_size:
  "(Z64_Field0 x = Signatures_Zip64EndOfCD \<and>
    Z64_Field1 x \<noteq> of_nat (Zip64EndOfCentralDirectoryRecord_Size r) - 12 \<longrightarrow>
      Zip64EndOfCentralDirectoryRecord_Read r
        (StreamBase_at pre (Zip64EndOfCentralDirectoryRecord_Write x @ rest)) =
      Inl (ZipException ''invalid size of zip64 EOCD'' InvalidZip64CentralDirectoryRecord))
   \<and> (Zip64EndOfCentralDirectoryRecord_Read r s = Inr (r', s') \<longrightarrow>
        Z64_Field1 r' = of_nat (Zip64EndOfCentralDirectoryRecord_Size r') - 12 \<and>
        cursor s' = cursor s + Zip64EndOfCentralDirectoryRecord_Size r')
   \<and> Z64_Field1 (Zip64EndOfCentralDirectoryRecord_new raw m) =
        of_nat (Zip64EndOfCentralDirectoryRecord_Size (Zip64EndOfCentralDirectoryRecord_new raw m)) - 12
   \<and> length (Zip64EndOfCentralDirectoryRecord_Write (Zip64EndOfCentralDirectoryRecord_new raw m)) =
        Zip64EndOfCentralDirectoryRecord_Size (Zip64EndOfCentralDirectoryRecord_new raw m)
   \<and> unat (Z64_Field1 (Zip64EndOfCentralDirectoryRecord_new raw m)) =
        length (Zip64EndOfCentralDirectoryRecord_Write (Zip64EndOfCentralDirectoryRecord_new raw m)) - 12
   \<and> (of_nat (decode_le (take 8 (drop 4
          (Zip64EndOfCentralDirectoryRecord_Write (Zip64EndOfCentralDirectoryRecord_new raw m)))))
        :: 64 word) =
        of_nat (length (Zip64EndOfCentralDirectoryRecord_Write
                          (Zip64EndOfCentralDirectoryRecord_new raw m))) - 12
   \<and> Zip64EndOfCentralDirectoryRecord_Read (Zip64EndOfCentralDirectoryRecord_new raw' m')
        (StreamBase_at pre
           (Zip64EndOfCentralDirectoryRecord_Write (Zip64EndOfCentralDirectoryRecord_new raw m) @ rest))
        \<noteq> Inl (ZipException ''invalid size of zip64 EOCD'' InvalidZip64CentralDirectoryRecord)"
proof (intro conjI impI)
  assume "Z64_Field0 x = Signatures_Zip64EndOfCD \<and>
    Z64_Field1 x \<noteq> of_nat (Zip64EndOfCentralDirectoryRecord_Size r) - 12"
  then show "Zip64EndOfCentralDirectoryRecord_Read r
        (StreamBase_at pre (Zip64EndOfCentralDirectoryRecord_Write x @ rest)) =
      Inl (ZipException ''invalid size of zip64 EOCD'' InvalidZip64CentralDirectoryRecord)"
    by (simp only: Zip64EndOfCentralDirectoryRecord_Read_Write)
       (simp add: Zip64EndOfCentralDirectoryRecord_Size_def)
next
  assume "Zip64EndOfCentralDirectoryRecord_Read r s = Inr (r', s')"
  from Zip64EndOfCentralDirectoryRecord_Read_success [OF this]
  show "Z64_Field1 r' = of_nat (Zip64EndOfCentralDirectoryRecord_Size r') - 12"
    "cursor s' = cursor s + Zip64EndOfCentralDirectoryRecord_Size r'"
    by (simp_all add: Zip64EndOfCentralDirectoryRecord_Size_def)
next
  show "Z64_Field1 (Zip64EndOfCentralDirectoryRecord_new raw m) =
        of_nat (Zip64EndOfCentralDirectoryRecord_Size (Zip64EndOfCentralDirectoryRecord_new raw m)) - 12"
    by (simp add: Zip64EndOfCentralDirectoryRecord_new_fields Zip64EndOfCentralDirectoryRecord_Size_def)
next
  show "length (Zip64EndOfCentralDirectoryRecord_Write (Zip64EndOfCentralDirectoryRecord_new raw m)) =
        Zip64EndOfCentralDirectoryRecord_Size (Zip64EndOfCentralDirectoryRecord_new raw m)"
    by (rule length_Zip64EndOfCentralDirectoryRecord_Write)
next
  show "unat (Z64_Field1 (Zip64EndOfCentralDirectoryRecord_new raw m)) =
        length (Zip64EndOfCentralDirectoryRecord_Write (Zip64EndOfCentralDirectoryRecord_new raw m)) - 12"
    by (simp add: length_Zip64EndOfCentralDirectoryRecord_Write
        Zip64EndOfCentralDirectoryRecord_new_fields Zip64EndOfCentralDirectoryRecord_Size_def)
next
  show "(of_nat (decode_le (take 8 (drop 4
          (Zip64EndOfCentralDirectoryRecord_Write (Zip64EndOfCentralDirectoryRecord_new raw m)))))
        :: 64 word) =
        of_nat (length (Zip64EndOfCentralDirectoryRecord_Write
                          (Zip64EndOfCentralDirectoryRecord_new raw m))) - 12"
    by (simp add: length_Zip64EndOfCentralDirectoryRecord_Write
        Zip64EndOfCentralDirectoryRecord_Size_def Zip64EndOfCentralDirectoryRecord_new_fields)
       (simp add: Zip64EndOfCentralDirectoryRecord_Write_fields decode_encode_le
        Zip64EndOfCentralDirectoryRecord_new_fields)
next
  show "Zip64EndOfCentralDirectoryRecord_Read (Zip64EndOfCentralDirectoryRecord_new raw' m')
        (StreamBase_at pre
           (Zip64EndOfCentralDirectoryRecord_Write (Zip64EndOfCentralDirectoryRecord_new raw m) @ rest))
        \<noteq> Inl (ZipException ''invalid size of zip64 EOCD'' InvalidZip64CentralDirectoryRecord)"
    by (simp only: Zip64EndOfCentralDirectoryRecord_Read_Write)
       (simp add: Zip64EndOfCentralDirectoryRecord_new_fields)
qed

text \<open>
  A record written with the size field 45 is refused by the size check; the record a
  writer builds is read back, 56 bytes long with the declared size 44.
\<close>

theorem Zip64EndOfCentralDirectoryRecord_declared_size_witness:
  "Z64_Field0 ((Zip64EndOfCentralDirectoryRecord_example 0 1 47 31)\<lparr>Z64_Field1 := 45\<rparr>) =
     Signatures_Zip64EndOfCD
   \<and> Z64_Field1 ((Zip64EndOfCentralDirectoryRecord_example 0 1 47 31)\<lparr>Z64_Field1 := 45\<rparr>) \<noteq>
       of_nat (Zip64EndOfCentralDirectoryRecord_Size
                 (Zip64EndOfCentralDirectoryRecord_new Zip64EndOfCentralDirectoryRecord_storage 134)) - 12
   \<and> Zip64EndOfCentralDirectoryRecord_Read
       (Zip64EndOfCentralDirectoryRecord_new Zip64EndOfCentralDirectoryRecord_storage 134)
       (StreamBase_at []
          (Zip64EndOfCentralDirectoryRecord_Write
             ((Zip64EndOfCentralDirectoryRecord_example 0 1 47 31)\<lparr>Z64_Field1 := 45\<rparr>) @ [])) =
       Inl (ZipException ''invalid size of zip64 EOCD'' InvalidZip64CentralDirectoryRecord)
   \<and> Zip64EndOfCentralDirectoryRecord_Read
       (Zip64EndOfCentralDirectoryRecord_new Zip64EndOfCentralDirectoryRecord_storage 134)
       (StreamBase_at []
          (Zip64EndOfCentralDirectoryRecord_Write
             (Zip64EndOfCentralDirectoryRecord_example 0 1 47 31) @ [])) =
       Inr (Zip64EndOfCentralDirectoryRecord_example 134 1 47 31,
            StreamBase_at
              ([] @ Zip64EndOfCentralDirectoryRecord_Write
                      (Zip64EndOfCentralDirectoryRecord_example 0 1 47 31)) [])
   \<and> Z64_Field1 (Zip64EndOfCentralDirectoryRecord_example 134 1 47 31) = 56 - 12
   \<and> Zip64EndOfCentralDirectoryRecord_Size (Zip64EndOfCentralDirectoryRecord_example 134 1 47 31) = 56"
proof -
  let ?q = "Zip64EndOfCentralDirectoryRecord_new Zip64EndOfCentralDirectoryRecord_storage 134"
  let ?y = "Zip64EndOfCentralDirectoryRecord_example 0 1 47 31"
  let ?x = "?y\<lparr>Z64_Field1 := 45\<rparr>"
  have hyp: "Z64_Field0 ?x = Signatures_Zip64EndOfCD \<and>
    Z64_Field1 ?x \<noteq> of_nat (Zip64EndOfCentralDirectoryRecord_Size ?q) - 12"
    by (simp add: Zip64EndOfCentralDirectoryRecord_example_fields
        Zip64EndOfCentralDirectoryRecord_new_fields Zip64EndOfCentralDirectoryRecord_Size_def)
  have z_ok: "Zip64EndOfCentralDirectoryRecord_Read ?q
       (StreamBase_at [] (Zip64EndOfCentralDirectoryRecord_Write ?y @ [])) =
       Inr (Zip64EndOfCentralDirectoryRecord_example 134 1 47 31,
            StreamBase_at ([] @ Zip64EndOfCentralDirectoryRecord_Write ?y) [])"
    by (rule Zip64EndOfCentralDirectoryRecord_example_Read) simp_all
  note a = Zip64EndOfCentralDirectoryRecord_declared_size
    [where x = ?x and r = ?q and pre = "[]" and rest = "[]"
       and s = "StreamBase_at [] (Zip64EndOfCentralDirectoryRecord_Write ?y @ [])"
       and r' = "Zip64EndOfCentralDirectoryRecord_example 134 1 47 31"
       and s' = "StreamBase_at ([] @ Zip64EndOfCentralDirectoryRecord_Write ?y) []"]
  show ?thesis
    using a hyp z_ok
    by (simp add: Zip64EndOfCentralDirectoryRecord_example_fields
        Zip64EndOfCentralDirectoryRecord_Size_def)
qed

text \<open>
  Claim C10. A freshly constructed record has both entry counts (fields 6 and 7) at 0,
  and the validator of field 6 refuses 0. Hence the bytes of a freshly constructed
  record are refused by every reading object with code
  \<^verbatim>\<open>InvalidZip64CentralDirectoryRecord\<close>; the failure is the one of field 6 when the
  reading object is a constructed one and field 5, which no constructor or setter
  writes, held 0. A written record can only be read back when its entry count is not
  0, which only \<^verbatim>\<open>SetTotalNumberOfEntries\<close> changes.
\<close>

theorem Zip64EndOfCentralDirectoryRecord_default_entries:
  "Zip64EndOfCentralDirectoryRecord_GetTotalNumberOfEntries
     (Zip64EndOfCentralDirectoryRecord_new raw m) = 0
   \<and> Z64_Field6 (Zip64EndOfCentralDirectoryRecord_new raw m) = 0
   \<and> Z64_Field7 (Zip64EndOfCentralDirectoryRecord_new raw m) = 0
   \<and> (Z64_Field0 x = Signatures_Zip64EndOfCD \<and>
       Z64_Field1 x = of_nat (Zip64EndOfCentralDirectoryRecord_Size r) - 12 \<and>
       Z64_Field2 x = Zip64MinimumVersion \<and> Z64_Field3 x = Zip64MinimumVersion \<and>
       Z64_Field4 x = 0 \<and> Z64_Field5 x = 0 \<and> Z64_Field6 x = 0 \<longrightarrow>
        Zip64EndOfCentralDirectoryRecord_Read r
          (StreamBase_at pre (Zip64EndOfCentralDirectoryRecord_Write x @ rest)) =
        Inl (ZipException ''invalid number of entries'' InvalidZip64CentralDirectoryRecord))
   \<and> (\<exists>msg. Zip64EndOfCentralDirectoryRecord_Read r
          (StreamBase_at pre
             (Zip64EndOfCentralDirectoryRecord_Write (Zip64EndOfCentralDirectoryRecord_new raw m) @ rest)) =
        Inl (ZipException msg InvalidZip64CentralDirectoryRecord))
   \<and> (Z64_Field10 r = [] \<and> Z64_Field5 raw = 0 \<longrightarrow>
        Zip64EndOfCentralDirectoryRecord_Read r
          (StreamBase_at pre
             (Zip64EndOfCentralDirectoryRecord_Write (Zip64EndOfCentralDirectoryRecord_new raw m) @ rest)) =
        Inl (ZipException ''invalid number of entries'' InvalidZip64CentralDirectoryRecord))
   \<and> (Zip64EndOfCentralDirectoryRecord_Read r
          (StreamBase_at pre (Zip64EndOfCentralDirectoryRecord_Write x @ rest)) = Inr (r', s') \<longrightarrow>
        Zip64EndOfCentralDirectoryRecord_GetTotalNumberOfEntries x \<noteq> 0)"
proof (intro conjI impI)
  show "Zip64EndOfCentralDirectoryRecord_GetTotalNumberOfEntries
     (Zip64EndOfCentralDirectoryRecord_new raw m) = 0"
    "Z64_Field6 (Zip64EndOfCentralDirectoryRecord_new raw m) = 0"
    "Z64_Field7 (Zip64EndOfCentralDirectoryRecord_new raw m) = 0"
    by (simp_all add: Zip64EndOfCentralDirectoryRecord_GetTotalNumberOfEntries_def
        Zip64EndOfCentralDirectoryRecord_new_fields)
next
  assume "Z64_Field0 x = Signatures_Zip64EndOfCD \<and>
       Z64_Field1 x = of_nat (Zip64EndOfCentralDirectoryRecord_Size r) - 12 \<and>
       Z64_Field2 x = Zip64MinimumVersion \<and> Z64_Field3 x = Zip64MinimumVersion \<and>
       Z64_Field4 x = 0 \<and> Z64_Field5 x = 0 \<and> Z64_Field6 x = 0"
  then show "Zip64EndOfCentralDirectoryRecord_Read r
          (StreamBase_at pre (Zip64EndOfCentralDirectoryRecord_Write x @ rest)) =
        Inl (ZipException ''invalid number of entries'' InvalidZip64CentralDirectoryRecord)"
    by (simp only: Zip64EndOfCentralDirectoryRecord_Read_Write)
       (simp add: Zip64EndOfCentralDirectoryRecord_Size_def)
next
  show "\<exists>msg. Zip64EndOfCentralDirectoryRecord_Read r
          (StreamBase_at pre
             (Zip64EndOfCentralDirectoryRecord_Write (Zip64EndOfCentralDirectoryRecord_new raw m) @ rest)) =
        Inl (ZipException msg InvalidZip64CentralDirectoryRecord)"
    by (simp only: Zip64EndOfCentralDirectoryRecord_Read_Write)
       (simp add: Zip64EndOfCentralDirectoryRecord_new_fields)
next
  assume "Z64_Field10 r = [] \<and> Z64_Field5 raw = 0"
  then show "Zip64EndOfCentralDirectoryRecord_Read r
          (StreamBase_at pre
             (Zip64EndOfCentralDirectoryRecord_Write (Zip64EndOfCentralDirectoryRecord_new raw m) @ rest)) =
        Inl (ZipException ''invalid number of entries'' InvalidZip64CentralDirectoryRecord)"
    by (simp only: Zip64EndOfCentralDirectoryRecord_Read_Write)
       (simp add: Zip64EndOfCentralDirectoryRecord_new_fields)
next
  assume a: "Zip64EndOfCentralDirectoryRecord_Read r
          (StreamBase_at pre (Zip64EndOfCentralDirectoryRecord_Write x @ rest)) = Inr (r', s')"
  show "Zip64EndOfCentralDirectoryRecord_GetTotalNumberOfEntries x \<noteq> 0"
  proof
    assume "Zip64EndOfCentralDirectoryRecord_GetTotalNumberOfEntries x = 0"
    then have z: "Z64_Field6 x = 0"
      by (simp add: Zip64EndOfCentralDirectoryRecord_GetTotalNumberOfEntries_def)
    from a show False
      by (simp only: Zip64EndOfCentralDirectoryRecord_Read_Write z) (simp split: if_splits)
  qed
qed

text \<open>
  The bytes of a freshly constructed record and those of a record with the entry count
  set to 0 are refused; with \<^verbatim>\<open>SetTotalNumberOfEntries(1)\<close>, and the size and the
  offset of the central directory set within the bound, the record is read back.
\<close>

theorem Zip64EndOfCentralDirectoryRecord_default_entries_witness:
  "Zip64EndOfCentralDirectoryRecord_Read
       (Zip64EndOfCentralDirectoryRecord_new Zip64EndOfCentralDirectoryRecord_storage 134)
       (StreamBase_at []
          (Zip64EndOfCentralDirectoryRecord_Write
             (Zip64EndOfCentralDirectoryRecord_new Zip64EndOfCentralDirectoryRecord_storage 134) @ [])) =
       Inl (ZipException ''invalid number of entries'' InvalidZip64CentralDirectoryRecord)
   \<and> Zip64EndOfCentralDirectoryRecord_Read
       (Zip64EndOfCentralDirectoryRecord_new Zip64EndOfCentralDirectoryRecord_storage 134)
       (StreamBase_at []
          (Zip64EndOfCentralDirectoryRecord_Write
             (Zip64EndOfCentralDirectoryRecord_example 134 0 47 31) @ [])) =
       Inl (ZipException ''invalid number of entries'' InvalidZip64CentralDirectoryRecord)
   \<and> Zip64EndOfCentralDirectoryRecord_Read
       (Zip64EndOfCentralDirectoryRecord_new Zip64EndOfCentralDirectoryRecord_storage 134)
       (StreamBase_at []
          (Zip64EndOfCentralDirectoryRecord_Write
             (Zip64EndOfCentralDirectoryRecord_example 134 1 47 31) @ [])) =
       Inr (Zip64EndOfCentralDirectoryRecord_example 134 1 47 31,
            StreamBase_at
              ([] @ Zip64EndOfCentralDirectoryRecord_Write
                      (Zip64EndOfCentralDirectoryRecord_example 134 1 47 31)) [])
   \<and> Zip64EndOfCentralDirectoryRecord_GetTotalNumberOfEntries
        (Zip64EndOfCentralDirectoryRecord_example 134 1 47 31) = 1"
proof -
  let ?q = "Zip64EndOfCentralDirectoryRecord_new Zip64EndOfCentralDirectoryRecord_storage 134"
  let ?y = "Zip64EndOfCentralDirectoryRecord_example 134 1 47 31"
  let ?x = "Zip64EndOfCentralDirectoryRecord_example 134 0 47 31"
  have hyp1: "Z64_Field0 ?x = Signatures_Zip64EndOfCD \<and>
       Z64_Field1 ?x = of_nat (Zip64EndOfCentralDirectoryRecord_Size ?q) - 12 \<and>
       Z64_Field2 ?x = Zip64MinimumVersion \<and> Z64_Field3 ?x = Zip64MinimumVersion \<and>
       Z64_Field4 ?x = 0 \<and> Z64_Field5 ?x = 0 \<and> Z64_Field6 ?x = 0"
    by (simp add: Zip64EndOfCentralDirectoryRecord_example_fields
        Zip64EndOfCentralDirectoryRecord_new_fields Zip64EndOfCentralDirectoryRecord_Size_def)
  have hyp2: "Z64_Field10 ?q = [] \<and> Z64_Field5 Zip64EndOfCentralDirectoryRecord_storage = 0"
    by (simp add: Zip64EndOfCentralDirectoryRecord_new_fields
        Zip64EndOfCentralDirectoryRecord_storage_def)
  have z_ok: "Zip64EndOfCentralDirectoryRecord_Read ?q
       (StreamBase_at [] (Zip64EndOfCentralDirectoryRecord_Write ?y @ [])) =
       Inr (?y, StreamBase_at ([] @ Zip64EndOfCentralDirectoryRecord_Write ?y) [])"
    by (rule Zip64EndOfCentralDirectoryRecord_example_Read) simp_all
  note a = Zip64EndOfCentralDirectoryRecord_default_entries
    [where x = ?x and r = ?q and pre = "[]" and rest = "[]"
       and raw = Zip64EndOfCentralDirectoryRecord_storage and m = 134]
  note b = Zip64EndOfCentralDirectoryRecord_default_entries
    [where x = ?y and r = ?q and pre = "[]" and rest = "[]" and r' = ?y
       and s' = "StreamBase_at ([] @ Zip64EndOfCentralDirectoryRecord_Write ?y) []"]
  show ?thesis
    using a b hyp1 hyp2 z_ok
    by (simp add: Zip64EndOfCentralDirectoryRecord_GetTotalNumberOfEntries_def
        Zip64EndOfCentralDirectoryRecord_example_fields)
qed

section \<open>Setters that touch a length and a byte vector\<close>

text \<open>
  Claim C8. For every LocalFileHeader \<open>r\<close> and every string \<open>n\<close>,
  \<^verbatim>\<open>SetFileName(n)\<close> changes field 9 only: the file name length becomes the size
  of \<open>n\<close> (as the 16-bit value the cast gives, which is the size itself below
  65536), and the file name bytes of field 11 stay what they were, because the setter
  works on a copy of the vector. Hence \<^verbatim>\<open>GetFileName()\<close> afterwards returns the
  previous name, which is not \<open>n\<close> unless it was before, and the length field
  disagrees with the stored name whenever the old name's length is not the size of
  \<open>n\<close>.
\<close>

theorem LocalFileHeader_SetFileName_frame:
  "LocalFileHeader_SetFileName n r = r\<lparr>LFH_Field9 := of_nat (length n)\<rparr>
   \<and> LocalFileHeader_GetFileNameLength (LocalFileHeader_SetFileName n r) = of_nat (length n)
   \<and> (length n < 65536 \<longrightarrow>
        unat (LocalFileHeader_GetFileNameLength (LocalFileHeader_SetFileName n r)) = length n)
   \<and> LFH_Field11 (LocalFileHeader_SetFileName n r) = LFH_Field11 r
   \<and> LocalFileHeader_GetFileName (LocalFileHeader_SetFileName n r) = LocalFileHeader_GetFileName r
   \<and> (LocalFileHeader_GetFileName r \<noteq> n \<longrightarrow>
        LocalFileHeader_GetFileName (LocalFileHeader_SetFileName n r) \<noteq> n)
   \<and> (length n < 65536 \<and> length (LFH_Field11 r) \<noteq> length n \<longrightarrow>
        unat (LocalFileHeader_GetFileNameLength (LocalFileHeader_SetFileName n r))
          \<noteq> length (LFH_Field11 (LocalFileHeader_SetFileName n r)))"
  by (simp add: LocalFileHeader_SetFileName_def LocalFileHeader_SetFileNameLength_def
      LocalFileHeader_GetFileNameLength_def LocalFileHeader_GetFileName_def Let_def unat_of_nat)

text \<open>
  On a freshly constructed header, whose name is empty: after \<^verbatim>\<open>SetFileName("b.txt")\<close>
  the length field is 5 and the name is still empty.
\<close>

theorem LocalFileHeader_SetFileName_frame_witness:
  "length ''b.txt'' < (65536::nat)
   \<and> LocalFileHeader_GetFileName (LocalFileHeader_new LocalFileHeader_storage) \<noteq> ''b.txt''
   \<and> length (LFH_Field11 (LocalFileHeader_new LocalFileHeader_storage)) \<noteq> length ''b.txt''
   \<and> unat (LocalFileHeader_GetFileNameLength
              (LocalFileHeader_SetFileName ''b.txt'' (LocalFileHeader_new LocalFileHeader_storage))) = 5
   \<and> LocalFileHeader_GetFileName
        (LocalFileHeader_SetFileName ''b.txt'' (LocalFileHeader_new LocalFileHeader_storage)) = []"
proof -
  have a: "LocalFileHeader_GetFileName (LocalFileHeader_new LocalFileHeader_storage) = []"
    by (simp add: LocalFileHeader_new_def LocalFileHeader_GetFileName_def string_of_bytes_def)
  have b: "LFH_Field11 (LocalFileHeader_new LocalFileHeader_storage) = []"
    by (simp add: LocalFileHeader_new_def)
  show ?thesis
    using LocalFileHeader_SetFileName_frame
      [of "''b.txt''" "LocalFileHeader_new LocalFileHeader_storage"]
    by (simp add: a b LocalFileHeader_GetFileNameLength_def LocalFileHeader_GetFileName_def
        LocalFileHeader_new_def string_of_bytes_def)
qed

text \<open>
  Claim C9. For every CentralFileHeader \<open>r\<close> and every string \<open>c\<close>,
  \<^verbatim>\<open>SetComment(c)\<close> writes \<open>c\<close> into the comment bytes (field 19) and sets the
  extra field length (field 11) to the size of \<open>c\<close>, through
  \<^verbatim>\<open>SetExtraFieldLength\<close>; nothing else changes, so the file comment length (field
  12) keeps its value and differs from the size of \<open>c\<close> unless it was equal before.
\<close>

theorem CentralFileHeader_SetComment_frame:
  "CentralFileHeader_SetComment c r =
     r\<lparr>CFH_Field19 := bytes_of_string c, CFH_Field11 := of_nat (length c)\<rparr>
   \<and> CFH_Field19 (CentralFileHeader_SetComment c r) = bytes_of_string c
   \<and> CentralFileHeader_GetComment (CentralFileHeader_SetComment c r) = c
   \<and> CentralFileHeader_GetExtraFieldLength (CentralFileHeader_SetComment c r) = of_nat (length c)
   \<and> (length c < 65536 \<longrightarrow>
        unat (CentralFileHeader_GetExtraFieldLength (CentralFileHeader_SetComment c r)) = length c)
   \<and> CentralFileHeader_GetFileCommentLength (CentralFileHeader_SetComment c r)
        = CentralFileHeader_GetFileCommentLength r
   \<and> (unat (CentralFileHeader_GetFileCommentLength r) \<noteq> length c \<longrightarrow>
        unat (CentralFileHeader_GetFileCommentLength (CentralFileHeader_SetComment c r)) \<noteq> length c)"
  by (simp add: CentralFileHeader_SetComment_def CentralFileHeader_SetExtraFieldLength_def
      CentralFileHeader_GetExtraFieldLength_def CentralFileHeader_GetFileCommentLength_def
      CentralFileHeader_GetComment_def Let_def unat_of_nat string_of_bytes_of_string)

text \<open>On a freshly constructed header: the comment "note" leaves comment length 0.\<close>

theorem CentralFileHeader_SetComment_frame_witness:
  "length ''note'' < (65536::nat)
   \<and> unat (CentralFileHeader_GetFileCommentLength (CentralFileHeader_new CentralFileHeader_storage))
        \<noteq> length ''note''
   \<and> unat (CentralFileHeader_GetExtraFieldLength
        (CentralFileHeader_SetComment ''note'' (CentralFileHeader_new CentralFileHeader_storage))) = 4
   \<and> unat (CentralFileHeader_GetFileCommentLength
        (CentralFileHeader_SetComment ''note'' (CentralFileHeader_new CentralFileHeader_storage))) = 0
   \<and> CentralFileHeader_GetComment
        (CentralFileHeader_SetComment ''note'' (CentralFileHeader_new CentralFileHeader_storage)) = ''note''"
proof -
  have a: "CentralFileHeader_GetFileCommentLength (CentralFileHeader_new CentralFileHeader_storage) = 0"
    by (simp add: CentralFileHeader_new_def CentralFileHeader_GetFileCommentLength_def
        CentralFileHeader_storage_def)
  show ?thesis
    using CentralFileHeader_SetComment_frame
      [of "''note''" "CentralFileHeader_new CentralFileHeader_storage"]
    by (simp add: a CentralFileHeader_GetExtraFieldLength_def
        CentralFileHeader_GetFileCommentLength_def CentralFileHeader_GetComment_def
        CentralFileHeader_new_def CentralFileHeader_storage_def string_of_bytes_of_string)
qed

end
